theory Spec2Isabelle
  imports Complex_Main "HOL-Library.AList" "HOL-Library.Option_ord"
begin

section \<open>The ordered multi-key table (class IAMMapTable)\<close>

text \<open>
  A key of a JavaScript \<open>Map\<close> level. The store only uses numbers (feature type, level
  type) and strings (ids, names, values) as keys. An array answers \<open>keys()\<close> with its
  indices, which are numbers as well.
\<close>

datatype key = KNum int | KStr string

text \<open>
  The nested structure held in \<open>_mapTable\<close>: a \<open>Map\<close> is an association list in
  insertion order (a JavaScript \<open>Map\<close> iterates in insertion order and \<open>set\<close> on an
  existing key keeps its position), the terminal level holds arrays of records.
\<close>

datatype 'v node = Bucket "'v list" | Level "(key \<times> 'v node) list"

text \<open>\<open>map.get(k)\<close> and \<open>map.set(k, v)\<close>.\<close>

definition mapGet :: "(key \<times> 'a) list \<Rightarrow> key \<Rightarrow> 'a option" where
  "mapGet m k = map_of m k"

definition mapSet :: "key \<Rightarrow> 'a \<Rightarrow> (key \<times> 'a) list \<Rightarrow> (key \<times> 'a) list" where
  "mapSet k v m = AList.update k v m"

text \<open>
  The terminal step of \<open>_addItem\<close> on a bucket that exists: every stored record with
  \<open>storedItem.equals(item)\<close> is replaced at its index; when none was replaced the record
  is pushed. \<open>eq stored item\<close> is \<open>storedItem.equals && storedItem.equals(item)\<close>.
\<close>

definition storeItem :: "('v \<Rightarrow> 'v \<Rightarrow> bool) \<Rightarrow> 'v \<Rightarrow> 'v list \<Rightarrow> 'v list" where
  "storeItem eq item found =
     (if list_ex (\<lambda>storedItem. eq storedItem item) found
      then map (\<lambda>storedItem. if eq storedItem item then item else storedItem) found
      else found @ [item])"

text \<open>
  \<open>_addItem (item, map, index)\<close>. The first argument is \<open>equals\<close>, the second the
  primary keys from \<open>index\<close> on, each primary key being the field accessor
  \<open>item[this._primaryKeys[index]]\<close>. Where the key is missing on a non-terminal level
  the source stores a new \<open>Map\<close> and calls itself again at the same index, which then
  descends into that new \<open>Map\<close>. With no primary key at all the source never returns
  (it recurses without end); no table of the store is built that way and the model
  leaves the node unchanged. A node whose shape does not fit the number of remaining
  keys is never produced by \<open>_addItem\<close>; the model leaves it unchanged, too.
\<close>

fun addItemRec :: "('v \<Rightarrow> 'v \<Rightarrow> bool) \<Rightarrow> ('v \<Rightarrow> key) list \<Rightarrow> 'v \<Rightarrow> 'v node \<Rightarrow> 'v node" where
  "addItemRec eq [] item node = node"
| "addItemRec eq [pk] item (Level m) =
     (case mapGet m (pk item) of
        Some (Bucket found) \<Rightarrow> Level (mapSet (pk item) (Bucket (storeItem eq item found)) m)
      | Some (Level sub) \<Rightarrow> Level m
      | None \<Rightarrow> Level (mapSet (pk item) (Bucket [item]) m))"
| "addItemRec eq (pk # pk' # pks) item (Level m) =
     (case mapGet m (pk item) of
        Some found \<Rightarrow> Level (mapSet (pk item) (addItemRec eq (pk' # pks) item found) m)
      | None \<Rightarrow> Level (mapSet (pk item) (addItemRec eq (pk' # pks) item (Level [])) m))"
| "addItemRec eq (pk # pks) item (Bucket xs) = Bucket xs"

record 'v IAMMapTable =
  primaryKeys :: "('v \<Rightarrow> key) list"
  mapTable :: "'v node"

definition newIAMMapTable :: "('v \<Rightarrow> key) list \<Rightarrow> 'v IAMMapTable" where
  "newIAMMapTable pks = \<lparr>primaryKeys = pks, mapTable = Level []\<rparr>"

definition addItem :: "('v \<Rightarrow> 'v \<Rightarrow> bool) \<Rightarrow> 'v \<Rightarrow> 'v IAMMapTable \<Rightarrow> 'v IAMMapTable" where
  "addItem eq item t = t\<lparr>mapTable := addItemRec eq (primaryKeys t) item (mapTable t)\<rparr>"

text \<open>
  \<open>_getItem (values, map, index)\<close>: \<open>undefined\<close> when a key is missing; at the last
  value the first record of the array found, or the thing found itself when it has no
  first record (an empty array, or a \<open>Map\<close> when fewer values than levels are given).
\<close>

datatype 'v lookup = Undefined | Item 'v | Container "'v node"

fun getItemRec :: "key list \<Rightarrow> 'v node \<Rightarrow> 'v lookup" where
  "getItemRec (v # vs) (Level m) =
     (case mapGet m v of
        None \<Rightarrow> Undefined
      | Some found \<Rightarrow>
          if vs = [] then (case found of Bucket (x # xs) \<Rightarrow> Item x | _ \<Rightarrow> Container found)
          else getItemRec vs found)"
| "getItemRec vs node = Undefined"

definition getItem :: "key list \<Rightarrow> 'v IAMMapTable \<Rightarrow> 'v lookup" where
  "getItem vs t = getItemRec vs (mapTable t)"

text \<open>
  A filter array: one entry per level, \<open>None\<close> for \<open>undefined\<close> (every key passes).
\<close>

type_synonym filters = "(key \<Rightarrow> bool) option list"

definition passes :: "(key \<Rightarrow> bool) option \<Rightarrow> key \<Rightarrow> bool" where
  "passes f k = (case f of None \<Rightarrow> True | Some p \<Rightarrow> p k)"

text \<open>
  \<open>_getAllItems (filters, map, index, ret)\<close> followed by \<open>ret.flat(Infinity)\<close>. The
  argument list holds the filters from \<open>index\<close> on; the entries of a level are visited
  in insertion order and the arrays found at the last level are concatenated.
  \<open>getAllItems\<close> only starts the descent when there are as many filters as primary
  keys, so on the tables \<open>_addItem\<close> builds the descent ends exactly on the arrays; the
  model yields no record for a node of another shape.
\<close>

fun getAllItemsRec :: "filters \<Rightarrow> 'v node \<Rightarrow> 'v list"
  and getAllItemsEach :: "(key \<Rightarrow> bool) option \<Rightarrow> filters \<Rightarrow> (key \<times> 'v node) list \<Rightarrow> 'v list" where
  "getAllItemsRec [] node = []"
| "getAllItemsRec (f # fs) (Level m) = getAllItemsEach f fs m"
| "getAllItemsRec (f # fs) (Bucket xs) = []"
| "getAllItemsEach f fs [] = []"
| "getAllItemsEach f fs ((k, child) # rest) =
     (if passes f k
      then (if fs = [] then (case child of Bucket xs \<Rightarrow> xs | Level sub \<Rightarrow> [])
            else getAllItemsRec fs child) @ getAllItemsEach f fs rest
      else getAllItemsEach f fs rest)"

definition getAllItems :: "filters \<Rightarrow> 'v IAMMapTable \<Rightarrow> 'v list" where
  "getAllItems fs t =
     (if length fs \<noteq> length (primaryKeys t) then []
      else getAllItemsRec fs (mapTable t))"

text \<open>
  Errors raised by the JavaScript run time and by the code itself.
\<close>

datatype error = TypeError | Error string

text \<open>
  \<open>ret.set(key, key)\<close> on the result \<open>Map\<close> of \<open>getAllKeys\<close>: a key is listed once,
  at the place of its first insertion.
\<close>

definition setKey :: "key \<Rightarrow> key list \<Rightarrow> key list" where
  "setKey k ret = (if k \<in> set ret then ret else ret @ [k])"

text \<open>
  \<open>_getAllKeys (filters, map, index, ret)\<close>. There is no check of the number of
  filters: the keys of the level reached with the last filter are collected, whatever
  that level is. The first argument tells whether \<open>index = filters.length - 1\<close>, which
  never holds for an empty filter array. When the descent reaches an array, \<open>keys()\<close>
  gives its indices; descending further calls \<open>map.get\<close> on the array, which is not a
  function: a \<open>TypeError\<close>.
\<close>

definition isLast :: "filters \<Rightarrow> bool" where
  "isLast fs = (length fs = 1)"

definition currentFilter :: "filters \<Rightarrow> (key \<Rightarrow> bool) option" where
  "currentFilter fs = (case fs of [] \<Rightarrow> None | f # rest \<Rightarrow> f)"

fun getAllKeysRec :: "filters \<Rightarrow> 'v node \<Rightarrow> key list \<Rightarrow> error + key list"
  and getAllKeysEach :: "(key \<Rightarrow> bool) option \<Rightarrow> filters \<Rightarrow> (key \<times> 'v node) list \<Rightarrow> key list \<Rightarrow> error + key list" where
  "getAllKeysRec fs (Level m) ret =
     (if isLast fs
      then Inr (fold setKey (filter (passes (currentFilter fs)) (map fst m)) ret)
      else getAllKeysEach (currentFilter fs) (tl fs) m ret)"
| "getAllKeysRec fs (Bucket xs) ret =
     (let keys = filter (passes (currentFilter fs)) (map (\<lambda>i. KNum (int i)) [0..<length xs])
      in if isLast fs then Inr (fold setKey keys ret)
         else if keys = [] then Inr ret
         else Inl TypeError)"
| "getAllKeysEach f fs [] ret = Inr ret"
| "getAllKeysEach f fs ((k, child) # rest) ret =
     (if passes f k
      then (case getAllKeysRec fs child ret of
              Inl e \<Rightarrow> Inl e
            | Inr ret' \<Rightarrow> getAllKeysEach f fs rest ret')
      else getAllKeysEach f fs rest ret)"

definition getAllKeys :: "filters \<Rightarrow> 'v IAMMapTable \<Rightarrow> error + key list" where
  "getAllKeys fs t = getAllKeysRec fs (mapTable t) []"

section \<open>Domain records\<close>

text \<open>\<open>FeatureType.POINT = 1\<close>, \<open>LINESTRING = 2\<close>, \<open>POLYGON = 3\<close>.\<close>

datatype FeatureType = POINT | LINESTRING | POLYGON

fun ftNum :: "FeatureType \<Rightarrow> int" where
  "ftNum POINT = 1"
| "ftNum LINESTRING = 2"
| "ftNum POLYGON = 3"

text \<open>
  Class \<open>FeatureProperty\<close> and its subclass \<open>FeatureAttribute\<close>. The six date fields
  are optional (\<open>None\<close> is \<open>undefined\<close>); years, months and days are numbers.
\<close>

record FeatureProperty =
  featureType :: FeatureType
  featureId :: string
  propertyName :: string
  propertyValue :: string

record FeatureAttribute = FeatureProperty +
  fromYear :: "int option"
  fromMonth :: "int option"
  fromDay :: "int option"
  toYear :: "int option"
  toMonth :: "int option"
  toDay :: "int option"

text \<open>
  \<open>FeatureProperty.equals\<close>: same feature type, feature id and name; the value is not
  compared. It applies to every record that extends \<open>FeatureProperty\<close>.
\<close>

definition FeatureProperty_equals ::
  "'a FeatureProperty_scheme \<Rightarrow> 'b FeatureProperty_scheme \<Rightarrow> bool" where
  "FeatureProperty_equals this other =
     (featureType other = featureType this \<and>
      featureId other = featureId this \<and>
      propertyName other = propertyName this)"

text \<open>\<open>FeatureAttribute.equals\<close>: \<open>super.equals\<close>, the value and the six date fields.\<close>

definition FeatureAttribute_equals :: "FeatureAttribute \<Rightarrow> FeatureAttribute \<Rightarrow> bool" where
  "FeatureAttribute_equals this other =
     (FeatureProperty_equals this other \<and>
      propertyValue this = propertyValue other \<and>
      fromYear this = fromYear other \<and>
      fromMonth this = fromMonth other \<and>
      fromDay this = fromDay other \<and>
      toYear this = toYear other \<and>
      toMonth this = toMonth other \<and>
      toDay this = toDay other)"

text \<open>
  The key schemas of the attributes and the properties table:
  \<open>['featureType','_featureId','_propertyName','_propertyValue']\<close> and
  \<open>['featureType','_featureId','_propertyName']\<close>.
\<close>

definition featureAttributesTableDef :: "(FeatureAttribute \<Rightarrow> key) list" where
  "featureAttributesTableDef =
     [\<lambda>a. KNum (ftNum (featureType a)), \<lambda>a. KStr (featureId a),
      \<lambda>a. KStr (propertyName a), \<lambda>a. KStr (propertyValue a)]"

definition featurePropertiesTableDef :: "(FeatureProperty \<Rightarrow> key) list" where
  "featurePropertiesTableDef =
     [\<lambda>p. KNum (ftNum (featureType p)), \<lambda>p. KStr (featureId p), \<lambda>p. KStr (propertyName p)]"

section \<open>Settings records\<close>

text \<open>
  A JavaScript value held in a property that the code only copies: \<open>null\<close>, a boolean,
  a number, a string or a plain object. \<open>undefined\<close> is the absence of a value
  (\<open>None\<close> of an option, or a name outside the domain of a property map).
\<close>

datatype jsval = JNull | JBool bool | JNum rat | JStr string | JObj "(string \<times> jsval) list"

text \<open>
  \<open>Object.assign({...this}, temp)\<close> on one property, where \<open>temp\<close> is the master with
  its \<open>undefined\<close> properties deleted: the master's value when it is defined, the
  object's own value otherwise.
\<close>

definition pick :: "'a option \<Rightarrow> 'a option \<Rightarrow> 'a option" where
  "pick master own = (case master of None \<Rightarrow> own | Some v \<Rightarrow> Some v)"

text \<open>
  Class \<open>Color\<close>. \<open>new Color(c)\<close> of a colour object copies its four fields, so
  wrapping a colour again gives an equal colour.
\<close>

record Color =
  colorR :: int
  colorG :: int
  colorB :: int
  colorAlpha :: rat

text \<open>Class \<open>Border\<close>.\<close>

record Border =
  color :: "Color option"
  width :: "int option"
  lineDash1 :: "int option"
  lineDash2 :: "int option"
  lineDash3 :: "int option"
  lineDash4 :: "int option"
  lineDashOffset :: "int option"
  lineCap :: "string option"

text \<open>
  The constructor \<open>new Border(props)\<close>: all properties are copied, the colour is wrapped
  again, and \<open>this.width = props.width ? props.width : undefined\<close> turns a width of 0
  into \<open>undefined\<close>.
\<close>

definition new_Border :: "Border \<Rightarrow> Border" where
  "new_Border props =
     props\<lparr>width := (case width props of None \<Rightarrow> None | Some w \<Rightarrow> if w = 0 then None else Some w)\<rparr>"

text \<open>\<open>new Border({})\<close>.\<close>

definition emptyBorder :: Border where
  "emptyBorder =
     \<lparr>color = None, width = None, lineDash1 = None, lineDash2 = None, lineDash3 = None,
      lineDash4 = None, lineDashOffset = None, lineCap = None\<rparr>"

text \<open>
  \<open>Border.merge(masterBorder)\<close>: with a master, a new border built from this border's
  properties overwritten by the defined properties of the master; without one, a copy
  of this border.
\<close>

definition Border_merge :: "Border \<Rightarrow> Border option \<Rightarrow> Border" where
  "Border_merge this masterBorder =
     (case masterBorder of
        None \<Rightarrow> this
      | Some m \<Rightarrow>
          new_Border
            \<lparr>color = pick (color m) (color this),
             width = pick (width m) (width this),
             lineDash1 = pick (lineDash1 m) (lineDash1 this),
             lineDash2 = pick (lineDash2 m) (lineDash2 this),
             lineDash3 = pick (lineDash3 m) (lineDash3 this),
             lineDash4 = pick (lineDash4 m) (lineDash4 this),
             lineDashOffset = pick (lineDashOffset m) (lineDashOffset this),
             lineCap = pick (lineCap m) (lineCap this)\<rparr>)"

text \<open>
  Class \<open>TextSettings\<close>. The two colours and the two borders are the properties the
  constructor treats on their own; all other properties (\<open>textFontStyle\<close>,
  \<open>textFontWeight\<close>, \<open>textFontSize\<close>, ..., \<open>textRepeat\<close>, and whatever else the
  constructor's argument carries) are copied as they are and are kept in a property map.
\<close>

record TextSettings =
  textFillColor :: "Color option"
  textBorder :: Border
  textBackgroundFillColor :: "Color option"
  textBackgroundBorder :: Border
  textProps :: "string \<rightharpoonup> jsval"

text \<open>
  The constructor \<open>new TextSettings(props)\<close>: the colours are wrapped again and the two
  borders are built by \<open>new Border(props.textBorder ?? {})\<close>.
\<close>

definition new_TextSettings :: "TextSettings \<Rightarrow> TextSettings" where
  "new_TextSettings props =
     props\<lparr>textBorder := new_Border (textBorder props),
           textBackgroundBorder := new_Border (textBackgroundBorder props)\<rparr>"

text \<open>
  \<open>TextSettings.merge(masterTextSettings)\<close>. With a master: a new object from this
  object's properties overwritten by the master's defined ones, whose two borders are
  then replaced by \<open>this.textBorder.merge(master.textBorder)\<close> and
  \<open>this.textBackgroundBorder.merge(master.textBackgroundBorder)\<close>. Without a master:
  a copy of this object.
\<close>

definition TextSettings_merge :: "TextSettings \<Rightarrow> TextSettings option \<Rightarrow> TextSettings" where
  "TextSettings_merge this masterTextSettings =
     (case masterTextSettings of
        None \<Rightarrow> this
      | Some m \<Rightarrow>
          (let ret = new_TextSettings
                 \<lparr>textFillColor = pick (textFillColor m) (textFillColor this),
                  textBorder = textBorder m,
                  textBackgroundFillColor = pick (textBackgroundFillColor m) (textBackgroundFillColor this),
                  textBackgroundBorder = textBackgroundBorder m,
                  textProps = textProps this ++ textProps m\<rparr>
           in ret\<lparr>textBorder := Border_merge (textBorder this) (Some (textBorder m)),
                  textBackgroundBorder :=
                    Border_merge (textBackgroundBorder this) (Some (textBackgroundBorder m))\<rparr>))"

text \<open>
  \<open>FeatureSettings.LEVEL_STANDARD = 1\<close>, \<open>LEVEL_ATTRIBUTE = 2\<close>, \<open>LEVEL_FEATURE = 3\<close>.
\<close>

datatype LevelType = LEVEL_STANDARD | LEVEL_ATTRIBUTE | LEVEL_FEATURE

fun levelNum :: "LevelType \<Rightarrow> int" where
  "levelNum LEVEL_STANDARD = 1"
| "levelNum LEVEL_ATTRIBUTE = 2"
| "levelNum LEVEL_FEATURE = 3"

text \<open>
  The fields the three subclasses \<open>PointSettings\<close>, \<open>LineStringSettings\<close> and
  \<open>PolygonSettings\<close> add to \<open>FeatureSettings\<close>. Every settings object of the store is an
  instance of one of the three, and its constructor sets \<open>featureType\<close> to the type of
  the class. A field that a class declares without a value is read as a declaration
  only, as the build of the project (Create React App) compiles it: the constructor of
  the subclass does not reset what \<open>Object.assign\<close> in the constructor of
  \<open>FeatureSettings\<close> has written to the field.
\<close>

record PointFields =
  pointShapeType :: "int option"
  pointFill :: "Color option"
  pointBorder :: Border
  pointRadius :: "rat option"
  pointDisplacementX :: "rat option"
  pointDisplacementY :: "rat option"
  pointRotation :: "rat option"
  pointPoints :: "int option"
  pointStarRadius :: "rat option"

record LineStringFields =
  lineBorder1 :: Border
  lineBorder2 :: Border

record PolygonFields =
  polygonBorder :: Border
  polygonFill :: "Color option"

datatype SettingsClass =
  PointSettings PointFields
| LineStringSettings LineStringFields
| PolygonSettings PolygonFields

record FeatureSettings =
  levelType :: LevelType
  levelName :: string
  levelValue :: string
  showFeature :: "bool option"
  showText :: "bool option"
  textSettings :: "TextSettings option"
  ofClass :: SettingsClass

definition getFeatureType :: "FeatureSettings \<Rightarrow> FeatureType" where
  "getFeatureType s =
     (case ofClass s of
        PointSettings p \<Rightarrow> POINT
      | LineStringSettings l \<Rightarrow> LINESTRING
      | PolygonSettings p \<Rightarrow> POLYGON)"

text \<open>
  The class part of \<open>merge\<close>: \<open>new PointSettings(super.merge(master))\<close> takes every
  property from the master where the master defines it, and the border is then replaced
  by \<open>this.pointBorder.merge(master.pointBorder)\<close>; likewise for the other two classes.
  A master of another class defines none of the properties of this class (the foreign
  properties it would leave on the result are no part of the model), and its border is
  \<open>undefined\<close>.
\<close>

fun mergeClass :: "SettingsClass \<Rightarrow> SettingsClass \<Rightarrow> SettingsClass" where
  "mergeClass (PointSettings this) (PointSettings m) =
     PointSettings
       \<lparr>pointShapeType = pick (pointShapeType m) (pointShapeType this),
        pointFill = pick (pointFill m) (pointFill this),
        pointBorder = Border_merge (pointBorder this) (Some (pointBorder m)),
        pointRadius = pick (pointRadius m) (pointRadius this),
        pointDisplacementX = pick (pointDisplacementX m) (pointDisplacementX this),
        pointDisplacementY = pick (pointDisplacementY m) (pointDisplacementY this),
        pointRotation = pick (pointRotation m) (pointRotation this),
        pointPoints = pick (pointPoints m) (pointPoints this),
        pointStarRadius = pick (pointStarRadius m) (pointStarRadius this)\<rparr>"
| "mergeClass (PointSettings this) other =
     PointSettings (this\<lparr>pointBorder := Border_merge (pointBorder this) None\<rparr>)"
| "mergeClass (LineStringSettings this) (LineStringSettings m) =
     LineStringSettings
       \<lparr>lineBorder1 = Border_merge (lineBorder1 this) (Some (lineBorder1 m)),
        lineBorder2 = Border_merge (lineBorder2 this) (Some (lineBorder2 m))\<rparr>"
| "mergeClass (LineStringSettings this) other =
     LineStringSettings
       \<lparr>lineBorder1 = Border_merge (lineBorder1 this) None,
        lineBorder2 = Border_merge (lineBorder2 this) None\<rparr>"
| "mergeClass (PolygonSettings this) (PolygonSettings m) =
     PolygonSettings
       \<lparr>polygonBorder = Border_merge (polygonBorder this) (Some (polygonBorder m)),
        polygonFill = pick (polygonFill m) (polygonFill this)\<rparr>"
| "mergeClass (PolygonSettings this) other =
     PolygonSettings (this\<lparr>polygonBorder := Border_merge (polygonBorder this) None\<rparr>)"

text \<open>
  \<open>merge(masterSettings)\<close> of the three classes, with \<open>FeatureSettings.merge\<close> inside.
  The level fields, \<open>showFeature\<close> and \<open>showText\<close> come from the master where it
  defines them (the master always defines its level fields). The text settings are
  \<open>this.getTextSettings().merge(masterSettings.getTextSettings())\<close>, wrapped once more
  by the constructor of the class; when this object has no text settings the call of
  \<open>merge\<close> on \<open>undefined\<close> raises a \<open>TypeError\<close>. Neither this object nor the master
  is changed: the result is a new value.
\<close>

definition merge :: "FeatureSettings \<Rightarrow> FeatureSettings \<Rightarrow> error + FeatureSettings" where
  "merge this masterSettings =
     (case textSettings this of
        None \<Rightarrow> Inl TypeError
      | Some ts \<Rightarrow>
          Inr \<lparr>levelType = levelType masterSettings,
               levelName = levelName masterSettings,
               levelValue = levelValue masterSettings,
               showFeature = pick (showFeature masterSettings) (showFeature this),
               showText = pick (showText masterSettings) (showText this),
               textSettings = Some (new_TextSettings (TextSettings_merge ts (textSettings masterSettings))),
               ofClass = mergeClass (ofClass this) (ofClass masterSettings)\<rparr>)"

text \<open>
  \<open>FeatureSettings.equals\<close>: same feature type, level type, level name and level value.
\<close>

definition FeatureSettings_equals :: "FeatureSettings \<Rightarrow> FeatureSettings \<Rightarrow> bool" where
  "FeatureSettings_equals this other =
     (getFeatureType this = getFeatureType other \<and>
      levelType this = levelType other \<and>
      levelName this = levelName other \<and>
      levelValue this = levelValue other)"

text \<open>
  The static \<open>getStandard()\<close> of \<open>TextSettings\<close> and of the three classes. The argument
  is the translator \<open>IAMTranslatorFactory.getMsg\<close>, whose answers depend on the language
  of the browser. The text settings carry the misspelt property \<open>textFonStyle\<close> and the
  whole entries \<open>{id, name}\<close> of the value lists, as the source has them.
\<close>

definition black :: Color where
  "black = \<lparr>colorR = 0, colorG = 0, colorB = 0, colorAlpha = 1\<rparr>"

definition lightGray :: Color where
  "lightGray = \<lparr>colorR = 200, colorG = 200, colorB = 200, colorAlpha = 1\<rparr>"

definition TextSettings_getStandard :: "(string \<Rightarrow> string) \<Rightarrow> TextSettings" where
  "TextSettings_getStandard getMsg =
     new_TextSettings
       \<lparr>textFillColor = Some black,
        textBorder = emptyBorder,
        textBackgroundFillColor = None,
        textBackgroundBorder = emptyBorder,
        textProps =
          [''textFonStyle'' \<mapsto> JObj [(''id'', JStr ''normal''), (''name'', JStr (getMsg ''normal''))],
           ''textFontWeight'' \<mapsto> JObj [(''id'', JStr ''normal''), (''name'', JStr (getMsg ''normal''))],
           ''textFontSize'' \<mapsto> JNum 10,
           ''textFontSizeType'' \<mapsto> JStr ''pt'',
           ''textFontFamily'' \<mapsto> JStr ''Arial'',
           ''textOffsetY'' \<mapsto> JNum 10,
           ''textOverflow'' \<mapsto> JBool True]\<rparr>"

definition PointSettings_getStandard :: "(string \<Rightarrow> string) \<Rightarrow> FeatureSettings" where
  "PointSettings_getStandard getMsg =
     \<lparr>levelType = LEVEL_STANDARD, levelName = ''Standard'', levelValue = '''',
      showFeature = Some True, showText = Some False,
      textSettings = Some (new_TextSettings (TextSettings_getStandard getMsg)),
      ofClass = PointSettings
        \<lparr>pointShapeType = Some 1, pointFill = Some lightGray,
         pointBorder = new_Border (new_Border (emptyBorder\<lparr>color := Some black, width := Some 1\<rparr>)),
         pointRadius = Some 5, pointDisplacementX = None, pointDisplacementY = None,
         pointRotation = None, pointPoints = None, pointStarRadius = None\<rparr>\<rparr>"

definition LineStringSettings_getStandard :: "(string \<Rightarrow> string) \<Rightarrow> FeatureSettings" where
  "LineStringSettings_getStandard getMsg =
     \<lparr>levelType = LEVEL_STANDARD, levelName = ''Standard'', levelValue = '''',
      showFeature = Some True, showText = Some False,
      textSettings = Some (new_TextSettings (TextSettings_getStandard getMsg)),
      ofClass = LineStringSettings
        \<lparr>lineBorder1 = new_Border (new_Border (emptyBorder\<lparr>color := Some black, width := Some 2\<rparr>)),
         lineBorder2 = new_Border emptyBorder\<rparr>\<rparr>"

definition PolygonSettings_getStandard :: "(string \<Rightarrow> string) \<Rightarrow> FeatureSettings" where
  "PolygonSettings_getStandard getMsg =
     \<lparr>levelType = LEVEL_STANDARD, levelName = ''Standard'', levelValue = '''',
      showFeature = Some True, showText = Some True,
      textSettings = Some (new_TextSettings (TextSettings_getStandard getMsg)),
      ofClass = PolygonSettings
        \<lparr>polygonBorder = new_Border (new_Border (emptyBorder\<lparr>color := Some black, width := Some 1\<rparr>)),
         polygonFill = Some lightGray\<rparr>\<rparr>"

text \<open>
  The key schema of the settings table:
  \<open>['featureType','levelType','levelName','levelValue']\<close>.
\<close>

definition featureSettingsTableDef :: "(FeatureSettings \<Rightarrow> key) list" where
  "featureSettingsTableDef =
     [\<lambda>s. KNum (ftNum (getFeatureType s)), \<lambda>s. KNum (levelNum (levelType s)),
      \<lambda>s. KStr (levelName s), \<lambda>s. KStr (levelValue s)]"

section \<open>Features\<close>

text \<open>
  A coordinate is a JavaScript number; the bounding box of an empty store is made of
  \<open>Infinity\<close> and \<open>-Infinity\<close>.
\<close>

datatype jsnum = NegInfinity | Finite rat | PosInfinity

fun numLess :: "jsnum \<Rightarrow> jsnum \<Rightarrow> bool" where
  "numLess NegInfinity NegInfinity = False"
| "numLess NegInfinity y = True"
| "numLess (Finite a) (Finite b) = (a < b)"
| "numLess (Finite a) PosInfinity = True"
| "numLess x y = False"

text \<open>\<open>getMinOfArray\<close> and \<open>getMaxOfArray\<close>: a loop from \<open>Infinity\<close> and \<open>-Infinity\<close>.\<close>

definition getMinOfArray :: "jsnum list \<Rightarrow> jsnum" where
  "getMinOfArray array = fold (\<lambda>x min. if numLess x min then x else min) array PosInfinity"

definition getMaxOfArray :: "jsnum list \<Rightarrow> jsnum" where
  "getMaxOfArray array = fold (\<lambda>x max. if numLess max x then x else max) array NegInfinity"

text \<open>
  The coordinates of a feature: one pair for a point, a sequence of pairs for a line
  string, a sequence of rings for a polygon. The feature type is the kind of the
  geometry.
\<close>

datatype Coordinates =
  PointCoordinates jsnum jsnum
| LineStringCoordinates "(jsnum \<times> jsnum) list"
| PolygonCoordinates "(jsnum \<times> jsnum) list list"

text \<open>
  The value of a property of a feature: a plain value, or, on the synthetic settings
  feature of the export, the list of settings; under \<open>_iamAttributes\<close> the export
  stores the attributes.
\<close>

datatype propval =
  PVal jsval
| PSettings "FeatureSettings list"
| PAttributes "FeatureAttribute list"

text \<open>
  Class \<open>ExtendedFeature\<close> (with its base class \<open>Feature\<close>): id, coordinates, the
  properties object (in insertion order) and the array of attributes.
\<close>

record ExtendedFeature =
  getId :: string
  getCoordinates :: Coordinates
  getProperties :: "(string \<times> propval) list"
  attributes :: "FeatureAttribute list"

definition getType :: "ExtendedFeature \<Rightarrow> FeatureType" where
  "getType f =
     (case getCoordinates f of
        PointCoordinates x y \<Rightarrow> POINT
      | LineStringCoordinates cs \<Rightarrow> LINESTRING
      | PolygonCoordinates rings \<Rightarrow> POLYGON)"

text \<open>\<open>new ExtendedFeature({type, id, coordinates})\<close>: no properties, no attributes.\<close>

definition new_ExtendedFeature :: "string \<Rightarrow> Coordinates \<Rightarrow> ExtendedFeature" where
  "new_ExtendedFeature fid coords =
     \<lparr>getId = fid, getCoordinates = coords, getProperties = [], attributes = []\<rparr>"

definition addProperty :: "string \<Rightarrow> propval \<Rightarrow> ExtendedFeature \<Rightarrow> ExtendedFeature" where
  "addProperty name v f = f\<lparr>getProperties := AList.update name v (getProperties f)\<rparr>"

definition clearProperties :: "ExtendedFeature \<Rightarrow> ExtendedFeature" where
  "clearProperties f = f\<lparr>getProperties := []\<rparr>"

text \<open>
  \<open>addAttribute\<close> pushes the attribute when it names this feature's type and id.
\<close>

definition addAttribute :: "FeatureAttribute \<Rightarrow> ExtendedFeature \<Rightarrow> ExtendedFeature" where
  "addAttribute attribute f =
     (if featureType attribute = getType f \<and> featureId attribute = getId f
      then f\<lparr>attributes := attributes f @ [attribute]\<rparr>
      else f)"

definition clearAttributes :: "ExtendedFeature \<Rightarrow> ExtendedFeature" where
  "clearAttributes f = f\<lparr>attributes := []\<rparr>"

text \<open>\<open>getAttributes(filterFunc)\<close>.\<close>

definition getAttributes :: "(FeatureAttribute \<Rightarrow> bool) \<Rightarrow> ExtendedFeature \<Rightarrow> FeatureAttribute list" where
  "getAttributes filterFunc f = filter filterFunc (attributes f)"

text \<open>\<open>Feature.equals\<close>: same type and same id.\<close>

definition Feature_equals :: "ExtendedFeature \<Rightarrow> ExtendedFeature \<Rightarrow> bool" where
  "Feature_equals this other = (getType other = getType this \<and> getId other = getId this)"

text \<open>
  \<open>getMinLongitude\<close>, \<open>getMinLatitude\<close>, \<open>getMaxLongitude\<close>, \<open>getMaxLatitude\<close> of a
  feature; \<open>Math.min(...mins)\<close> of no ring is \<open>Infinity\<close>.
\<close>

definition getMinLongitude :: "ExtendedFeature \<Rightarrow> jsnum" where
  "getMinLongitude f =
     (case getCoordinates f of
        PointCoordinates x y \<Rightarrow> x
      | LineStringCoordinates cs \<Rightarrow> getMinOfArray (map fst cs)
      | PolygonCoordinates rings \<Rightarrow> getMinOfArray (map (\<lambda>array. getMinOfArray (map fst array)) rings))"

definition getMinLatitude :: "ExtendedFeature \<Rightarrow> jsnum" where
  "getMinLatitude f =
     (case getCoordinates f of
        PointCoordinates x y \<Rightarrow> y
      | LineStringCoordinates cs \<Rightarrow> getMinOfArray (map snd cs)
      | PolygonCoordinates rings \<Rightarrow> getMinOfArray (map (\<lambda>array. getMinOfArray (map snd array)) rings))"

definition getMaxLongitude :: "ExtendedFeature \<Rightarrow> jsnum" where
  "getMaxLongitude f =
     (case getCoordinates f of
        PointCoordinates x y \<Rightarrow> x
      | LineStringCoordinates cs \<Rightarrow> getMaxOfArray (map fst cs)
      | PolygonCoordinates rings \<Rightarrow> getMaxOfArray (map (\<lambda>array. getMaxOfArray (map fst array)) rings))"

definition getMaxLatitude :: "ExtendedFeature \<Rightarrow> jsnum" where
  "getMaxLatitude f =
     (case getCoordinates f of
        PointCoordinates x y \<Rightarrow> y
      | LineStringCoordinates cs \<Rightarrow> getMaxOfArray (map snd cs)
      | PolygonCoordinates rings \<Rightarrow> getMaxOfArray (map (\<lambda>array. getMaxOfArray (map snd array)) rings))"

text \<open>
  The object \<open>ExtendedFeature.toGeoJSON(addProperties, addAttributes)\<close> returns:
  the name of the geometry type (\<open>FeatureType.geoJSONName\<close>), the coordinates, and the
  properties, which start with the id.
\<close>

record GeoJSONFeature =
  gjId :: string
  gjGeometryType :: string
  gjCoordinates :: Coordinates
  gjProperties :: "(string \<times> propval) list"

fun geoJSONName :: "FeatureType \<Rightarrow> string" where
  "geoJSONName POINT = ''Point''"
| "geoJSONName LINESTRING = ''LineString''"
| "geoJSONName POLYGON = ''Polygon''"

definition Feature_toGeoJSON :: "bool \<Rightarrow> bool \<Rightarrow> ExtendedFeature \<Rightarrow> GeoJSONFeature" where
  "Feature_toGeoJSON addProperties addAttributes f =
     (let props0 = [(''id'', PVal (JStr (getId f)))];
          props1 = (if addProperties
                    then fold (\<lambda>keyVal ps. AList.update (fst keyVal) (snd keyVal) ps) (getProperties f) props0
                    else props0);
          props2 = (if addAttributes
                    then AList.update ''_iamAttributes'' (PAttributes (attributes f)) props1
                    else props1)
      in \<lparr>gjId = getId f, gjGeometryType = geoJSONName (getType f),
          gjCoordinates = getCoordinates f, gjProperties = props2\<rparr>)"

text \<open>The key schema of the features table: \<open>['featureType','_id']\<close>.\<close>

definition featuresTableDef :: "(ExtendedFeature \<Rightarrow> key) list" where
  "featuresTableDef = [\<lambda>f. KNum (ftNum (getType f)), \<lambda>f. KStr (getId f)]"

section \<open>Process results\<close>

text \<open>\<open>ProcessResult.INFO = 1\<close>, \<open>WARN = 2\<close>, \<open>ERROR = 3\<close>.\<close>

datatype Status = INFO | WARN | ERROR

fun statusNum :: "Status \<Rightarrow> nat" where
  "statusNum INFO = 1"
| "statusNum WARN = 2"
| "statusNum ERROR = 3"

text \<open>
  Class \<open>ProcessResult\<close> with its fields \<open>status\<close>, \<open>text\<close> and \<open>details\<close>; \<open>details\<close> is
  empty as long as it is \<open>undefined\<close>.
\<close>

record ProcessResult =
  status :: Status
  resultText :: string
  details :: "string list"

definition new_ProcessResult :: "Status \<Rightarrow> string \<Rightarrow> ProcessResult" where
  "new_ProcessResult st txt = \<lparr>status = st, resultText = txt, details = []\<rparr>"

text \<open>
  \<open>addDetail (status, detail)\<close>: the status is raised when the given one is worse, the
  text gets the suffix for warnings when the status is raised to \<open>WARN\<close>, and the
  detail is appended. The first argument is the translator.
\<close>

definition addDetail :: "(string \<Rightarrow> string) \<Rightarrow> Status \<Rightarrow> string \<Rightarrow> ProcessResult \<Rightarrow> ProcessResult" where
  "addDetail getMsg st detail pr =
     (let pr1 = (if statusNum st > statusNum (status pr)
                 then pr\<lparr>status := st,
                         resultText := (if st = WARN then resultText pr @ getMsg '' with warnings'' else resultText pr)\<rparr>
                 else pr)
      in pr1\<lparr>details := details pr1 @ [detail]\<rparr>)"

text \<open>The decimal text of a number that is concatenated to a string.\<close>

definition digitChar :: "nat \<Rightarrow> char" where
  "digitChar n = ''0123456789'' ! (n mod 10)"

function natToString :: "nat \<Rightarrow> string" where
  "natToString n = (if n < 10 then [digitChar n] else natToString (n div 10) @ [digitChar n])"
  by pat_completeness auto
termination
  by (relation "measure id") auto

text \<open>
  \<open>e.message\<close> of a caught exception. The text of a \<open>TypeError\<close> of the run time is up
  to the engine; the model writes \<open>TypeError\<close> for it.
\<close>

fun errorMessage :: "error \<Rightarrow> string" where
  "errorMessage (Error msg) = msg"
| "errorMessage TypeError = ''TypeError''"

section \<open>The feature store (classes IAMData and IAMStorage)\<close>

text \<open>\<open>IAMData.OVERWRITE = 1\<close>, \<open>IAMData.DROPTABLE = 2\<close>.\<close>

datatype InsertType = OVERWRITE | DROPTABLE

text \<open>What a data source hands to the store (class \<open>DataSource\<close>).\<close>

record DataSource =
  getFeatures :: "ExtendedFeature list"
  getFeaturesProperties :: "FeatureProperty list"
  getFeaturesAttributes :: "FeatureAttribute list"
  getFeaturesSettings :: "FeatureSettings list"
  getMapSettings :: "jsval option"
  getRawData :: string

text \<open>\<open>new DataSource(rawData)\<close>: four empty arrays and no map settings.\<close>

definition new_DataSource :: "string \<Rightarrow> DataSource" where
  "new_DataSource rawData =
     \<lparr>getFeatures = [], getFeaturesProperties = [], getFeaturesAttributes = [],
      getFeaturesSettings = [], getMapSettings = None, getRawData = rawData\<rparr>"

record IAMStorage =
  features :: "ExtendedFeature IAMMapTable"
  featureAttributes :: "FeatureAttribute IAMMapTable"
  featureProperties :: "FeatureProperty IAMMapTable"
  featureSettings :: "FeatureSettings IAMMapTable"

text \<open>
  \<open>_initStandardSettings\<close> writes the three standard settings into the settings table
  of the store; \<open>_init\<close> creates the four tables and calls it.
\<close>

definition initStandardSettings :: "(string \<Rightarrow> string) \<Rightarrow> FeatureSettings IAMMapTable \<Rightarrow> FeatureSettings IAMMapTable" where
  "initStandardSettings getMsg t =
     addItem FeatureSettings_equals (PolygonSettings_getStandard getMsg)
       (addItem FeatureSettings_equals (LineStringSettings_getStandard getMsg)
          (addItem FeatureSettings_equals (PointSettings_getStandard getMsg) t))"

definition init :: "(string \<Rightarrow> string) \<Rightarrow> IAMStorage" where
  "init getMsg =
     \<lparr>features = newIAMMapTable featuresTableDef,
      featureAttributes = newIAMMapTable featureAttributesTableDef,
      featureProperties = newIAMMapTable featurePropertiesTableDef,
      featureSettings = initStandardSettings getMsg (newIAMMapTable featureSettingsTableDef)\<rparr>"

definition addSetting :: "FeatureSettings \<Rightarrow> IAMStorage \<Rightarrow> IAMStorage" where
  "addSetting featuresSettings st =
     st\<lparr>featureSettings := addItem FeatureSettings_equals featuresSettings (featureSettings st)\<rparr>"

text \<open>
  \<open>getFeature\<close>, \<open>getAllFeatures\<close> and \<open>getAllSettings\<close>. The feature type is a number,
  on which \<open>parseInt\<close> is the identity.
\<close>

definition getFeature :: "FeatureType \<Rightarrow> string \<Rightarrow> IAMStorage \<Rightarrow> ExtendedFeature lookup" where
  "getFeature ft fid st = getItem [KNum (ftNum ft), KStr fid] (features st)"

definition getAllFeatures :: "IAMStorage \<Rightarrow> ExtendedFeature list" where
  "getAllFeatures st = getAllItems [None, None] (features st)"

definition getAllSettings :: "IAMStorage \<Rightarrow> FeatureSettings list" where
  "getAllSettings st = getAllItems [None, None, None, None] (featureSettings st)"

text \<open>
  The features are objects that the tables and the callers share: a method that changes
  a feature found by \<open>getFeature\<close> changes the record in the features table. This is
  the change of the first record stored under a key tuple, and the change of every
  record \<open>getAllItems\<close> returns for filters that let everything pass.
\<close>

fun modifyItemRec :: "key list \<Rightarrow> ('v \<Rightarrow> 'v) \<Rightarrow> 'v node \<Rightarrow> 'v node" where
  "modifyItemRec [] f (Bucket (x # xs)) = Bucket (f x # xs)"
| "modifyItemRec (k # ks) f (Level m) =
     (case mapGet m k of
        None \<Rightarrow> Level m
      | Some child \<Rightarrow> Level (mapSet k (modifyItemRec ks f child) m))"
| "modifyItemRec ks f node = node"

definition modifyItem :: "key list \<Rightarrow> ('v \<Rightarrow> 'v) \<Rightarrow> 'v IAMMapTable \<Rightarrow> 'v IAMMapTable" where
  "modifyItem ks f t = t\<lparr>mapTable := modifyItemRec ks f (mapTable t)\<rparr>"

fun mapItems :: "('v \<Rightarrow> 'v) \<Rightarrow> 'v node \<Rightarrow> 'v node" where
  "mapItems f (Bucket xs) = Bucket (map f xs)"
| "mapItems f (Level m) = Level (map (\<lambda>entry. (fst entry, mapItems f (snd entry))) m)"

definition forEachItem :: "filters \<Rightarrow> ('v \<Rightarrow> 'v) \<Rightarrow> 'v IAMMapTable \<Rightarrow> 'v IAMMapTable" where
  "forEachItem fs f t =
     (if length fs \<noteq> length (primaryKeys t) then t
      else t\<lparr>mapTable := mapItems f (mapTable t)\<rparr>)"

text \<open>
  A \<open>forEach\<close> inside a \<open>try\<close>: the first exception ends the loop, and what the loop
  has changed so far stays changed.
\<close>

fun forEachTry :: "('a \<Rightarrow> 's \<Rightarrow> (error \<times> 's) + 's) \<Rightarrow> 'a list \<Rightarrow> 's \<Rightarrow> (error \<times> 's) + 's" where
  "forEachTry step [] s = Inr s"
| "forEachTry step (x # xs) s =
     (case step x s of Inl e \<Rightarrow> Inl e | Inr s' \<Rightarrow> forEachTry step xs s')"

text \<open>
  \<open>loadFeatures (datasource, insertType, processResult)\<close>. Nothing in the loop can
  raise, so the \<open>catch\<close> branch is never taken.
\<close>

definition loadFeatures ::
  "(string \<Rightarrow> string) \<Rightarrow> DataSource \<Rightarrow> InsertType \<Rightarrow> ProcessResult \<Rightarrow> IAMStorage \<Rightarrow> IAMStorage \<times> ProcessResult" where
  "loadFeatures getMsg datasource insertType processResult st =
     (let st1 = (if insertType = DROPTABLE then init getMsg else st);
          st2 = st1\<lparr>features := fold (addItem Feature_equals) (getFeatures datasource) (features st1)\<rparr>;
          counter = length (getFeatures datasource)
      in (st2, addDetail getMsg INFO
                 (natToString counter @ getMsg '' features successfully loaded into database.'')
                 processResult))"

text \<open>
  One round of the loop of \<open>loadFeaturesProperties\<close>, on the store, the process result
  and the counter. A property whose feature is not found adds a warning and nothing
  else. When \<open>getFeature\<close> answers with something that is no feature, the property is
  stored and the call of \<open>addProperty\<close> on it raises a \<open>TypeError\<close>.
\<close>

definition loadProperty ::
  "(string \<Rightarrow> string) \<Rightarrow> FeatureProperty \<Rightarrow> IAMStorage \<times> ProcessResult \<times> nat \<Rightarrow>
     (error \<times> IAMStorage \<times> ProcessResult \<times> nat) + IAMStorage \<times> ProcessResult \<times> nat" where
  "loadProperty getMsg featuresProperty s =
     (case s of (st, processResult, counter) \<Rightarrow>
        (case getFeature (featureType featuresProperty) (featureId featuresProperty) st of
           Undefined \<Rightarrow>
             Inr (st,
                  addDetail getMsg WARN
                    (getMsg ''WARNING: Property not added as no feature found for featureId/featureType ''
                       @ featureId featuresProperty @ ''/''
                       @ natToString (nat (ftNum (featureType featuresProperty))))
                    processResult,
                  counter)
         | Item foundFeatures \<Rightarrow>
             Inr (st\<lparr>featureProperties :=
                        addItem FeatureProperty_equals featuresProperty (featureProperties st),
                      features :=
                        modifyItem
                          [KNum (ftNum (featureType featuresProperty)), KStr (featureId featuresProperty)]
                          (addProperty (propertyName featuresProperty)
                             (PVal (JStr (propertyValue featuresProperty))))
                          (features st)\<rparr>,
                  processResult,
                  counter + 1)
         | Container c \<Rightarrow>
             Inl (TypeError,
                  st\<lparr>featureProperties :=
                        addItem FeatureProperty_equals featuresProperty (featureProperties st)\<rparr>,
                  processResult,
                  counter)))"

text \<open>
  \<open>loadFeaturesProperties (datasource, insertType, processResult)\<close>: with \<open>DROPTABLE\<close>
  a new properties table and no property left on any feature; then the loop; then the
  detail that counts the properties loaded, or the \<open>catch\<close> branch, which replaces the
  text and adds the message of the exception as an \<open>ERROR\<close> detail.
\<close>

definition loadFeaturesProperties ::
  "(string \<Rightarrow> string) \<Rightarrow> DataSource \<Rightarrow> InsertType \<Rightarrow> ProcessResult \<Rightarrow> IAMStorage \<Rightarrow> IAMStorage \<times> ProcessResult" where
  "loadFeaturesProperties getMsg datasource insertType processResult st =
     (let st1 = (if insertType = DROPTABLE
                 then st\<lparr>featureProperties := newIAMMapTable featurePropertiesTableDef,
                         features := forEachItem [None, None] clearProperties (features st)\<rparr>
                 else st)
      in case forEachTry (loadProperty getMsg) (getFeaturesProperties datasource) (st1, processResult, 0) of
           Inr (st2, pr2, counter) \<Rightarrow>
             (st2, addDetail getMsg INFO
                     (natToString counter @ getMsg '' feature properties successfully loaded into database.'')
                     pr2)
         | Inl (e, st2, pr2, counter) \<Rightarrow>
             (st2, addDetail getMsg ERROR (errorMessage e)
                     (pr2\<lparr>resultText :=
                            getMsg ''Error during upload of Features Properties data into database.''\<rparr>)))"

text \<open>The same for attributes: \<open>loadFeaturesAttributes\<close> and one round of its loop.\<close>

definition loadAttribute ::
  "(string \<Rightarrow> string) \<Rightarrow> FeatureAttribute \<Rightarrow> IAMStorage \<times> ProcessResult \<times> nat \<Rightarrow>
     (error \<times> IAMStorage \<times> ProcessResult \<times> nat) + IAMStorage \<times> ProcessResult \<times> nat" where
  "loadAttribute getMsg featuresAttribute s =
     (case s of (st, processResult, counter) \<Rightarrow>
        (case getFeature (featureType featuresAttribute) (featureId featuresAttribute) st of
           Undefined \<Rightarrow>
             Inr (st,
                  addDetail getMsg WARN
                    (getMsg ''WARNING: Attribute not added as no feature found for featureId/featureType ''
                       @ featureId featuresAttribute @ ''/''
                       @ natToString (nat (ftNum (featureType featuresAttribute))))
                    processResult,
                  counter)
         | Item foundFeatures \<Rightarrow>
             Inr (st\<lparr>featureAttributes :=
                        addItem FeatureAttribute_equals featuresAttribute (featureAttributes st),
                      features :=
                        modifyItem
                          [KNum (ftNum (featureType featuresAttribute)), KStr (featureId featuresAttribute)]
                          (addAttribute featuresAttribute)
                          (features st)\<rparr>,
                  processResult,
                  counter + 1)
         | Container c \<Rightarrow>
             Inl (TypeError,
                  st\<lparr>featureAttributes :=
                        addItem FeatureAttribute_equals featuresAttribute (featureAttributes st)\<rparr>,
                  processResult,
                  counter)))"

definition loadFeaturesAttributes ::
  "(string \<Rightarrow> string) \<Rightarrow> DataSource \<Rightarrow> InsertType \<Rightarrow> ProcessResult \<Rightarrow> IAMStorage \<Rightarrow> IAMStorage \<times> ProcessResult" where
  "loadFeaturesAttributes getMsg datasource insertType processResult st =
     (let st1 = (if insertType = DROPTABLE
                 then st\<lparr>featureAttributes := newIAMMapTable featureAttributesTableDef,
                         features := forEachItem [None, None] clearAttributes (features st)\<rparr>
                 else st)
      in case forEachTry (loadAttribute getMsg) (getFeaturesAttributes datasource) (st1, processResult, 0) of
           Inr (st2, pr2, counter) \<Rightarrow>
             (st2, addDetail getMsg INFO
                     (natToString counter @ getMsg '' feature attributes successfully loaded into database.'')
                     pr2)
         | Inl (e, st2, pr2, counter) \<Rightarrow>
             (st2, addDetail getMsg ERROR (errorMessage e)
                     (pr2\<lparr>resultText :=
                            getMsg ''Error during upload of Features Attributes data into database.''\<rparr>)))"

text \<open>
  \<open>loadSettings (datasource, insertType, processResult)\<close>: with \<open>DROPTABLE\<close> a new
  settings table with the standard settings; then every setting of the data source is
  added. Nothing in the loop can raise.
\<close>

definition loadSettings ::
  "(string \<Rightarrow> string) \<Rightarrow> DataSource \<Rightarrow> InsertType \<Rightarrow> ProcessResult \<Rightarrow> IAMStorage \<Rightarrow> IAMStorage \<times> ProcessResult" where
  "loadSettings getMsg datasource insertType processResult st =
     (let t1 = (if insertType = DROPTABLE
                then initStandardSettings getMsg (newIAMMapTable featureSettingsTableDef)
                else featureSettings st);
          st2 = st\<lparr>featureSettings :=
                      fold (addItem FeatureSettings_equals) (getFeaturesSettings datasource) t1\<rparr>;
          counter = length (getFeaturesSettings datasource)
      in (st2, addDetail getMsg INFO
                 (natToString counter @ getMsg '' settings successfully loaded into database.'')
                 processResult))"

section \<open>Queries of the store\<close>

text \<open>
  \<open>getStandardSettings (featureType)\<close>: the first setting of the type whose level type
  is \<open>LEVEL_STANDARD\<close>, or \<open>undefined\<close>. The keys of the first two levels are numbers,
  on which \<open>parseInt\<close> is the identity.
\<close>

definition first :: "'a list \<Rightarrow> 'a option" where
  "first xs = (case xs of [] \<Rightarrow> None | x # rest \<Rightarrow> Some x)"

definition getStandardSettings :: "FeatureType \<Rightarrow> IAMStorage \<Rightarrow> FeatureSettings option" where
  "getStandardSettings ft st =
     first (getAllItems
              [Some (\<lambda>x. x = KNum (ftNum ft)), Some (\<lambda>x. x = KNum (levelNum LEVEL_STANDARD)), None, None]
              (featureSettings st))"

text \<open>
  \<open>getSettings (featureType, levelType, levelName, levelValue)\<close>. The last two filters
  are \<open>(x) => levelName ? x === levelName : true\<close> and the same for the value: a name
  or value that is \<open>undefined\<close> or the empty string lets every key pass.
\<close>

definition optionalKey :: "string option \<Rightarrow> key \<Rightarrow> bool" where
  "optionalKey wanted x =
     (case wanted of
        None \<Rightarrow> True
      | Some s \<Rightarrow> if s \<noteq> [] then x = KStr s else True)"

definition getSettings ::
  "FeatureType \<Rightarrow> LevelType \<Rightarrow> string option \<Rightarrow> string option \<Rightarrow> IAMStorage \<Rightarrow> FeatureSettings list" where
  "getSettings ft lt lName lValue st =
     getAllItems
       [Some (\<lambda>x. x = KNum (ftNum ft)), Some (\<lambda>x. x = KNum (levelNum lt)),
        Some (optionalKey lName), Some (optionalKey lValue)]
       (featureSettings st)"

text \<open>
  The filter of \<open>getSettingsOfFeature\<close> on the attributes of the feature. A year takes
  part in a comparison only when it is truthy, which \<open>undefined\<close> and 0 are not.
\<close>

definition truthyAnd :: "int option \<Rightarrow> (int \<Rightarrow> bool) \<Rightarrow> bool" where
  "truthyAnd year test = (case year of None \<Rightarrow> False | Some y \<Rightarrow> y \<noteq> 0 \<and> test y)"

definition inTimeframe :: "int \<Rightarrow> int \<Rightarrow> FeatureAttribute \<Rightarrow> bool" where
  "inTimeframe yearFrom yearTo attribute =
     (if truthyAnd (fromYear attribute) (\<lambda>y. y > yearTo) \<or>
         truthyAnd (toYear attribute) (\<lambda>y. y < yearFrom)
      then False else True)"

text \<open>
  \<open>.sort((x,y) => parseInt(x._fromYear) - parseInt(y._fromYear))\<close>. Where a \<open>fromYear\<close>
  is missing the comparison function gives \<open>NaN\<close>, which \<open>sort\<close> takes for 0: the two
  attributes count as equal. When every attribute has a \<open>fromYear\<close> the comparison is
  consistent and the result is the stable sort, ascending by \<open>fromYear\<close> (an insertion
  sort in the model). When all attributes count as equal (none has a \<open>fromYear\<close>, or
  the years there are are the same) every comparison gives 0 and the stable sort leaves
  the list as it is. In every other case (an attribute without \<open>fromYear\<close> among
  attributes of different years) the comparison is not consistent, ECMAScript leaves
  the order to the engine, and the model gives no list: \<open>None\<close>.
\<close>

definition fromYearLe :: "FeatureAttribute \<Rightarrow> FeatureAttribute \<Rightarrow> bool" where
  "fromYearLe x y =
     (case fromYear x of
        None \<Rightarrow> True
      | Some a \<Rightarrow> (case fromYear y of None \<Rightarrow> True | Some b \<Rightarrow> a \<le> b))"

fun insertSorted :: "('a \<Rightarrow> 'a \<Rightarrow> bool) \<Rightarrow> 'a \<Rightarrow> 'a list \<Rightarrow> 'a list" where
  "insertSorted le x [] = [x]"
| "insertSorted le x (y # ys) = (if le x y then x # y # ys else y # insertSorted le x ys)"

definition allDated :: "FeatureAttribute list \<Rightarrow> bool" where
  "allDated atts = list_all (\<lambda>a. fromYear a \<noteq> None) atts"

definition allCountAsEqual :: "FeatureAttribute list \<Rightarrow> bool" where
  "allCountAsEqual atts =
     list_all (\<lambda>x. list_all (\<lambda>y. fromYearLe x y \<and> fromYearLe y x) atts) atts"

definition sortByFromYear :: "FeatureAttribute list \<Rightarrow> FeatureAttribute list option" where
  "sortByFromYear atts =
     (if allDated atts then Some (foldr (insertSorted fromYearLe) atts [])
      else if allCountAsEqual atts then Some atts
      else None)"

text \<open>
  \<open>ret = ret.merge(x)\<close> on the running result, which is \<open>undefined\<close> when the store has
  no standard setting for the type: calling \<open>merge\<close> on it raises a \<open>TypeError\<close>.
\<close>

definition mergeInto :: "FeatureSettings option \<Rightarrow> FeatureSettings \<Rightarrow> error + FeatureSettings option" where
  "mergeInto ret x =
     (case ret of
        None \<Rightarrow> Inl TypeError
      | Some r \<Rightarrow> (case merge r x of Inl e \<Rightarrow> Inl e | Inr r' \<Rightarrow> Inr (Some r')))"

text \<open>
  One round of \<open>atts.forEach\<close> in \<open>getSettingsOfFeature\<close>: when the store has a setting
  for the attribute's name and value, the first one is merged, and then, when the
  attribute's \<open>fromYear\<close> lies in the time frame, the first setting for the name and
  \<open>_iam_hasChanged\<close>, if there is one.
\<close>

definition hasChangedIn :: "int \<Rightarrow> int \<Rightarrow> FeatureAttribute \<Rightarrow> bool" where
  "hasChangedIn yearFrom yearTo attribute =
     (case fromYear attribute of None \<Rightarrow> False | Some y \<Rightarrow> yearFrom \<le> y \<and> y \<le> yearTo)"

definition mergeAttribute ::
  "FeatureType \<Rightarrow> int \<Rightarrow> int \<Rightarrow> IAMStorage \<Rightarrow> FeatureAttribute \<Rightarrow> FeatureSettings option \<Rightarrow>
     error + FeatureSettings option" where
  "mergeAttribute ft yearFrom yearTo st attribute ret =
     (case getSettings ft LEVEL_ATTRIBUTE (Some (propertyName attribute)) (Some (propertyValue attribute)) st of
        [] \<Rightarrow> Inr ret
      | attributeSetting # others \<Rightarrow>
          (case mergeInto ret attributeSetting of
             Inl e \<Rightarrow> Inl e
           | Inr ret1 \<Rightarrow>
               if hasChangedIn yearFrom yearTo attribute
               then (case getSettings ft LEVEL_ATTRIBUTE (Some (propertyName attribute))
                            (Some ''_iam_hasChanged'') st of
                       [] \<Rightarrow> Inr ret1
                     | hasChangedSetting # others' \<Rightarrow> mergeInto ret1 hasChangedSetting)
               else Inr ret1))"

fun mergeAttributes ::
  "FeatureType \<Rightarrow> int \<Rightarrow> int \<Rightarrow> IAMStorage \<Rightarrow> FeatureAttribute list \<Rightarrow> FeatureSettings option \<Rightarrow>
     error + FeatureSettings option" where
  "mergeAttributes ft yearFrom yearTo st [] ret = Inr ret"
| "mergeAttributes ft yearFrom yearTo st (attribute # atts) ret =
     (case mergeAttribute ft yearFrom yearTo st attribute ret of
        Inl e \<Rightarrow> Inl e
      | Inr ret' \<Rightarrow> mergeAttributes ft yearFrom yearTo st atts ret')"

text \<open>
  \<open>getSettingsOfFeature (featureType, featureId, yearFrom, yearTo)\<close>. The result is
  \<open>undefined\<close> (\<open>Inr None\<close>) when there is no standard setting and nothing to merge,
  and an exception is \<open>Inl\<close>. The outer \<open>None\<close> is given where the order of the
  attributes, and with it the result, is up to the engine's \<open>sort\<close>. The store is only
  read.
\<close>

definition getSettingsOfFeature ::
  "FeatureType \<Rightarrow> string \<Rightarrow> int \<Rightarrow> int \<Rightarrow> IAMStorage \<Rightarrow> (error + FeatureSettings option) option" where
  "getSettingsOfFeature ft fid yearFrom yearTo st =
     (let ret = getStandardSettings ft st;
          merged =
            (case getFeature ft fid st of
               Undefined \<Rightarrow> Some (Inr ret)
             | Item feature \<Rightarrow>
                 (case sortByFromYear (getAttributes (inTimeframe yearFrom yearTo) feature) of
                    None \<Rightarrow> None
                  | Some atts \<Rightarrow> Some (mergeAttributes ft yearFrom yearTo st atts ret))
             | Container c \<Rightarrow> Some (Inl TypeError))
      in case merged of
           None \<Rightarrow> None
         | Some (Inl e) \<Rightarrow> Some (Inl e)
         | Some (Inr ret1) \<Rightarrow>
             (case getSettings ft LEVEL_FEATURE (Some fid) None st of
                [] \<Rightarrow> Some (Inr ret1)
              | featureSetting # others \<Rightarrow> Some (mergeInto ret1 featureSetting)))"

text \<open>
  \<open>years.sort(compare)[0]\<close> on the \<open>fromYear\<close>s of all attributes: \<open>sort\<close> puts the
  \<open>undefined\<close> entries last and orders the others by the comparison.
\<close>

definition sortYears :: "bool \<Rightarrow> int option list \<Rightarrow> int option list" where
  "sortYears descending years =
     (let defined = sort (concat (map (\<lambda>y. case y of None \<Rightarrow> [] | Some n \<Rightarrow> [n]) years));
          undefineds = filter (\<lambda>y. y = None) years
      in map Some (if descending then rev defined else defined) @ undefineds)"

definition firstYear :: "int option list \<Rightarrow> int option" where
  "firstYear years = (case years of [] \<Rightarrow> None | y # rest \<Rightarrow> y)"

text \<open>
  \<open>getAttributesMinimumYear\<close> and \<open>getAttributesMaximumYear\<close>. The first argument is
  \<open>(new Date()).getFullYear()\<close>: the branch for an empty list evaluates it and drops
  the value.
\<close>

definition getAttributesMinimumYear :: "int \<Rightarrow> IAMStorage \<Rightarrow> int option" where
  "getAttributesMinimumYear currentYear st =
     (let years = map fromYear (getAllItems [None, None, None, None] (featureAttributes st));
          dropped = (if length years = 0 then Some currentYear else None)
      in firstYear (sortYears False years))"

definition getAttributesMaximumYear :: "int \<Rightarrow> IAMStorage \<Rightarrow> int option" where
  "getAttributesMaximumYear currentYear st =
     (let years = map fromYear (getAllItems [None, None, None, None] (featureAttributes st));
          dropped = (if length years = 0 then Some currentYear else None)
      in firstYear (sortYears True years))"

text \<open>The bounding box of the store.\<close>

definition IAMStorage_getMinLongitude :: "IAMStorage \<Rightarrow> jsnum" where
  "IAMStorage_getMinLongitude st = getMinOfArray (map getMinLongitude (getAllFeatures st))"

definition IAMStorage_getMinLatitude :: "IAMStorage \<Rightarrow> jsnum" where
  "IAMStorage_getMinLatitude st = getMinOfArray (map getMinLatitude (getAllFeatures st))"

definition IAMStorage_getMaxLongitude :: "IAMStorage \<Rightarrow> jsnum" where
  "IAMStorage_getMaxLongitude st = getMaxOfArray (map getMaxLongitude (getAllFeatures st))"

definition IAMStorage_getMaxLatitude :: "IAMStorage \<Rightarrow> jsnum" where
  "IAMStorage_getMaxLatitude st = getMaxOfArray (map getMaxLatitude (getAllFeatures st))"

text \<open>
  \<open>if (mapSettings)\<close>: a value is truthy unless it is \<open>undefined\<close>, \<open>null\<close>, \<open>false\<close>,
  0 or the empty string.
\<close>

fun truthy :: "jsval option \<Rightarrow> bool" where
  "truthy None = False"
| "truthy (Some JNull) = False"
| "truthy (Some (JBool b)) = b"
| "truthy (Some (JNum n)) = (n \<noteq> 0)"
| "truthy (Some (JStr s)) = (s \<noteq> [])"
| "truthy (Some (JObj ps)) = True"

text \<open>
  \<open>getSettingsAsObject (mapSettings)\<close>: the object
  \<open>{_iam_MapSettings, _iam_FeatureSettings}\<close>. The settings are pushed inside the branch
  that tests the map settings.
\<close>

record SettingsObject =
  iam_MapSettings :: "jsval option"
  iam_FeatureSettings :: "FeatureSettings list"

definition getSettingsAsObject :: "jsval option \<Rightarrow> IAMStorage \<Rightarrow> SettingsObject" where
  "getSettingsAsObject mapSettings st =
     (let ret = \<lparr>iam_MapSettings = None, iam_FeatureSettings = []\<rparr>
      in if truthy mapSettings
         then ret\<lparr>iam_MapSettings := mapSettings,
                  iam_FeatureSettings := iam_FeatureSettings ret @ getAllSettings st\<rparr>
         else ret)"

text \<open>
  \<open>toGeoJSON (addProperties, addAttributes, addSettings, mapSettings)\<close>: the feature
  collection that is handed to \<open>JSON.stringify\<close>, as the list of its features.
\<close>

definition toGeoJSON :: "bool \<Rightarrow> bool \<Rightarrow> bool \<Rightarrow> jsval option \<Rightarrow> IAMStorage \<Rightarrow> GeoJSONFeature list" where
  "toGeoJSON addProperties addAttributes addSettings mapSettings st =
     (let feats = map (Feature_toGeoJSON addProperties addAttributes) (getAllFeatures st)
      in if addSettings
         then (let helper0 = new_ExtendedFeature ''_iam_Settings''
                               (PointCoordinates (IAMStorage_getMinLongitude st) (IAMStorage_getMinLatitude st));
                   helper1 = addProperty ''_iam_FeatureSettings''
                               (PSettings (iam_FeatureSettings (getSettingsAsObject mapSettings st))) helper0;
                   helper2 = (case mapSettings of
                                Some ms \<Rightarrow>
                                  if truthy mapSettings
                                  then addProperty ''_iam_MapSettings'' (PVal ms) helper1
                                  else helper1
                              | None \<Rightarrow> helper1)
               in feats @ [Feature_toGeoJSON True False helper2])
         else feats)"

section \<open>CSV data sources\<close>

text \<open>
  \<open>_parseCsv\<close> keeps the rows read so far in \<open>arr\<close>. At every character it runs
  \<open>arr[row] = arr[row] || []\<close> and \<open>arr[row][col] = arr[row][col] || ''\<close>: the row and
  the cell are created when they are missing. \<open>row\<close> and \<open>col\<close> grow by one at a time,
  after the cell they point to has been created, so the row or cell that is missing is
  always the next one.
\<close>

definition ensureCell :: "string list list \<Rightarrow> nat \<Rightarrow> nat \<Rightarrow> string list list" where
  "ensureCell arr row col =
     (let arr1 = (if row < length arr then arr else arr @ [[]]);
          r = arr1 ! row;
          r1 = (if col < length r then r else r @ [[]])
      in arr1[row := r1])"

text \<open>\<open>arr[row][col] += cc\<close>.\<close>

definition appendChar :: "string list list \<Rightarrow> nat \<Rightarrow> nat \<Rightarrow> char \<Rightarrow> string list list" where
  "appendChar arr row col cc = arr[row := (arr ! row)[col := (arr ! row ! col) @ [cc]]]"

text \<open>
  The loop of \<open>_parseCsv\<close> over the characters of the raw data, on \<open>arr\<close>, \<open>row\<close>, \<open>col\<close>
  and \<open>quote\<close>. The characters with the codes 0x22, 0x0D and 0x0A are the quotation mark,
  \<open>\r\<close> and \<open>\n\<close>; \<open>nc\<close> is the next character, \<open>undefined\<close> at the end; \<open>++c\<close> skips
  it.
\<close>

fun parseChars :: "char \<Rightarrow> string \<Rightarrow> string list list \<Rightarrow> nat \<Rightarrow> nat \<Rightarrow> bool \<Rightarrow> string list list" where
  "parseChars delimiter [] arr row col quote = arr"
| "parseChars delimiter (cc # rest) arr row col quote =
     (let arr1 = ensureCell arr row col;
          nc = (case rest of [] \<Rightarrow> None | n # others \<Rightarrow> Some n)
      in if cc = CHR 0x22 \<and> quote \<and> nc = Some (CHR 0x22)
         then parseChars delimiter (tl rest) (appendChar arr1 row col cc) row col quote
         else if cc = CHR 0x22 then parseChars delimiter rest arr1 row col (\<not> quote)
         else if cc = delimiter \<and> \<not> quote then parseChars delimiter rest arr1 row (col + 1) quote
         else if cc = CHR 0x0D \<and> nc = Some (CHR 0x0A) \<and> \<not> quote
         then parseChars delimiter (tl rest) arr1 (row + 1) 0 quote
         else if cc = CHR 0x0A \<and> \<not> quote then parseChars delimiter rest arr1 (row + 1) 0 quote
         else if cc = CHR 0x0D \<and> \<not> quote then parseChars delimiter rest arr1 (row + 1) 0 quote
         else parseChars delimiter rest (appendChar arr1 row col cc) row col quote)"

text \<open>
  The delimiter, which no caller gives: a comma, or a semicolon when the raw data has
  one.
\<close>

definition detectDelimiter :: "string \<Rightarrow> char" where
  "detectDelimiter rawData = (if CHR '';'' \<in> set rawData then CHR '';'' else CHR '','')"

definition parseRows :: "string \<Rightarrow> string list list" where
  "parseRows rawData = parseChars (detectDelimiter rawData) rawData [] 0 0 False"

text \<open>
  \<open>_checkHeader (header, headerTemplate, processResult)\<close>. The header is \<open>arr[0]\<close>,
  which is \<open>undefined\<close> for empty raw data: reading its \<open>length\<close> raises a \<open>TypeError\<close>.
  A header that is shorter than the template raises an \<open>Error\<close>; otherwise every column
  that is not named as in the template adds a warning.
\<close>

definition checkHeader ::
  "(string \<Rightarrow> string) \<Rightarrow> string list option \<Rightarrow> string list \<Rightarrow> ProcessResult \<Rightarrow> error + ProcessResult" where
  "checkHeader getMsg header headerTemplate processResult =
     (case header of
        None \<Rightarrow> Inl TypeError
      | Some h \<Rightarrow>
          if length h < length headerTemplate
          then Inl (Error (getMsg ''File must have at least '' @ natToString (length headerTemplate)
                             @ getMsg '' columns in csv format''))
          else Inr (fold (\<lambda>index pr.
                            if headerTemplate ! index \<noteq> h ! index
                            then addDetail getMsg WARN
                                   (getMsg ''WARNING: colum '' @ natToString index
                                      @ getMsg '' should be named '' @ headerTemplate ! index
                                      @ getMsg ''. Instead found '' @ h ! index) pr
                            else pr)
                      [0..<length headerTemplate] processResult))"

text \<open>
  The object a row is reduced to: under the key \<open>header[i]\<close> the cell \<open>i\<close> of the row,
  when the cell is not empty and \<open>checkContent\<close> accepts it. A row that is longer than
  the header has \<open>undefined\<close> for a key, which names the property \<open>undefined\<close>.
\<close>

type_synonym csvObject = "(string \<times> string) list"

type_synonym checkContent = "string \<Rightarrow> string \<Rightarrow> ProcessResult \<Rightarrow> bool \<times> ProcessResult"

definition headerKey :: "string list \<Rightarrow> nat \<Rightarrow> string" where
  "headerKey header i = (if i < length header then header ! i else ''undefined'')"

definition rowToObject :: "checkContent \<Rightarrow> string list \<Rightarrow> string list \<Rightarrow> ProcessResult \<Rightarrow> csvObject \<times> ProcessResult" where
  "rowToObject check header r processResult =
     fold (\<lambda>cell state.
             case state of (acc, pr) \<Rightarrow>
               if snd cell \<noteq> []
               then (case check (headerKey header (fst cell)) (snd cell) pr of
                       (ok, pr') \<Rightarrow>
                         (if ok then AList.update (headerKey header (fst cell)) (snd cell) acc else acc, pr'))
               else (acc, pr))
       (List.enumerate 0 r) ([], processResult)"

fun rowsToObjects :: "checkContent \<Rightarrow> string list \<Rightarrow> string list list \<Rightarrow> ProcessResult \<Rightarrow> csvObject list \<times> ProcessResult" where
  "rowsToObjects check header [] processResult = ([], processResult)"
| "rowsToObjects check header (r # rs) processResult =
     (case rowToObject check header r processResult of
        (obj, pr1) \<Rightarrow>
          (case rowsToObjects check header rs pr1 of (objs, pr2) \<Rightarrow> (obj # objs, pr2)))"

text \<open>
  \<open>_parseCsv (rawData, {headers: true, headerTemplate}, processResult, checkContent)\<close>.
  Only \<open>_checkHeader\<close> can raise, before anything is written to the process result. The
  \<open>catch\<close> branch replaces the text, adds the message of the exception as a detail with
  the status \<open>WARN\<close>, and returns \<open>null\<close> (\<open>None\<close>).
\<close>

definition parseCsv ::
  "(string \<Rightarrow> string) \<Rightarrow> string \<Rightarrow> string list \<Rightarrow> checkContent \<Rightarrow> ProcessResult \<Rightarrow>
     csvObject list option \<times> ProcessResult" where
  "parseCsv getMsg rawData headerTemplate check processResult =
     (let arr = parseRows rawData;
          header = (case arr of [] \<Rightarrow> None | h # rest \<Rightarrow> Some h)
      in case checkHeader getMsg header headerTemplate processResult of
           Inl e \<Rightarrow>
             (None,
              addDetail getMsg WARN (errorMessage e)
                (processResult\<lparr>resultText := getMsg ''File has no valid format. No data was loaded.''\<rparr>))
         | Inr pr1 \<Rightarrow>
             (case rowsToObjects check (case arr of [] \<Rightarrow> [] | h # rest \<Rightarrow> h) (tl arr) pr1 of
                (objs, pr2) \<Rightarrow> (Some objs, pr2)))"

text \<open>
  \<open>isNaN(parseInt(value))\<close> is false when the text, after white space and a sign, starts
  with a decimal digit, or with \<open>0x\<close> and a hexadecimal digit.
\<close>

definition jsWhitespace :: "char \<Rightarrow> bool" where
  "jsWhitespace c = (c \<in> set [CHR 0x09, CHR 0x0A, CHR 0x0B, CHR 0x0C, CHR 0x0D, CHR 0x20, CHR 0xA0])"

definition parsesAsInt :: "string \<Rightarrow> bool" where
  "parsesAsInt v =
     (let s = dropWhile jsWhitespace v;
          s1 = (case s of [] \<Rightarrow> s | c # rest \<Rightarrow> if c = CHR ''+'' \<or> c = CHR ''-'' then rest else s)
      in case s1 of
           [] \<Rightarrow> False
         | a # t \<Rightarrow>
             (case t of
                [] \<Rightarrow> a \<in> set ''0123456789''
              | b # rest \<Rightarrow>
                  if a = CHR ''0'' \<and> (b = CHR ''x'' \<or> b = CHR ''X'')
                  then (case rest of [] \<Rightarrow> False | h # u \<Rightarrow> h \<in> set ''0123456789abcdefABCDEF'')
                  else a \<in> set ''0123456789''))"

text \<open>
  The \<open>checkContent\<close> of the two data sources. The character with the code 0x27 is the
  apostrophe.
\<close>

definition checkFeatureColumn :: "(string \<Rightarrow> string) \<Rightarrow> string \<Rightarrow> ProcessResult \<Rightarrow> bool \<times> ProcessResult" where
  "checkFeatureColumn getMsg v msg =
     (if v \<noteq> ''Point'' \<and> v \<noteq> ''LineString'' \<and> v \<noteq> ''Polygon''
      then (False,
            addDetail getMsg WARN
              (getMsg (''WARNING: value of column '' @ [CHR 0x27] @ ''feature'' @ [CHR 0x27]
                         @ '' should be either '' @ [CHR 0x27] @ ''Point'' @ [CHR 0x27]
                         @ '', '' @ [CHR 0x27] @ ''LineString'' @ [CHR 0x27]
                         @ '' or '' @ [CHR 0x27] @ ''Polygon'' @ [CHR 0x27]
                         @ ''. Instead found '' @ [CHR 0x27])
                 @ v @ getMsg ([CHR 0x27] @ ''. Row will be ignored!'')) msg)
      else (True, msg))"

definition checkYearColumn :: "(string \<Rightarrow> string) \<Rightarrow> string \<Rightarrow> string \<Rightarrow> ProcessResult \<Rightarrow> bool \<times> ProcessResult" where
  "checkYearColumn getMsg column v msg =
     (if \<not> parsesAsInt v
      then (False,
            addDetail getMsg WARN
              (getMsg (''WARNING: value of column '' @ [CHR 0x27] @ column @ [CHR 0x27]
                         @ '' has to be a valid integer number. Instead found '' @ [CHR 0x27])
                 @ v @ getMsg ([CHR 0x27] @ ''. Value will be ignored!'')) msg)
      else (True, msg))"

definition attributesCheckContent :: "(string \<Rightarrow> string) \<Rightarrow> checkContent" where
  "attributesCheckContent getMsg k v msg =
     (if k = ''feature'' then checkFeatureColumn getMsg v msg
      else if k = ''fromYear'' then checkYearColumn getMsg ''fromYear'' v msg
      else if k = ''toYear'' then checkYearColumn getMsg ''toYear'' v msg
      else (True, msg))"

definition propertiesCheckContent :: "(string \<Rightarrow> string) \<Rightarrow> checkContent" where
  "propertiesCheckContent getMsg k v msg =
     (if k = ''feature'' then checkFeatureColumn getMsg v msg else (True, msg))"

text \<open>The header templates of the two data sources.\<close>

definition attributesHeaderTemplate :: "string list" where
  "attributesHeaderTemplate =
     [''feature'', ''featureId'', ''propertyName'', ''propertyValue'', ''fromYear'', ''fromMonth'',
      ''fromDay'', ''toYear'', ''toMonth'', ''toDay'']"

definition propertiesHeaderTemplate :: "string list" where
  "propertiesHeaderTemplate = [''feature'', ''featureId'', ''propertyName1'', ''propertyValue1'']"

text \<open>
  \<open>(x.feature === 'Point') ? FeatureType.POINT : (x.feature === 'LineString') ?
  FeatureType.LINESTRING : FeatureType.POLYGON\<close>.
\<close>

definition featureTypeOfColumn :: "string option \<Rightarrow> FeatureType" where
  "featureTypeOfColumn feature =
     (if feature = Some ''Point'' then POINT
      else if feature = Some ''LineString'' then LINESTRING
      else POLYGON)"

text \<open>
  \<open>new FeatureAttributesCSVDataSource (rawData, processResult)\<close>. \<open>forEach\<close> is called
  on what \<open>_parseCsv\<close> returns: on \<open>null\<close> this raises a \<open>TypeError\<close>, which nothing in
  the constructor catches. The process result is an object of the caller, so what has
  been written to it stays written. The attributes of the data source are given by the
  parameter objects they are constructed from: the object of the row, with its feature
  type.
\<close>

definition FeatureAttributesCSVDataSource ::
  "(string \<Rightarrow> string) \<Rightarrow> string \<Rightarrow> ProcessResult \<Rightarrow>
     (error \<times> ProcessResult) + ((FeatureType \<times> csvObject) list \<times> ProcessResult)" where
  "FeatureAttributesCSVDataSource getMsg rawData processResult =
     (case parseCsv getMsg rawData attributesHeaderTemplate (attributesCheckContent getMsg) processResult of
        (None, pr) \<Rightarrow> Inl (TypeError, pr)
      | (Some parseResult, pr) \<Rightarrow>
          Inr (map (\<lambda>attribute. (featureTypeOfColumn (map_of attribute ''feature''), attribute)) parseResult,
               pr))"

text \<open>
  \<open>new FeaturePropertiesCSVDataSource (rawData, processResult)\<close>: for every row the
  properties \<open>propertyName1\<close>/\<open>propertyValue1\<close> to \<open>propertyName9\<close>/\<open>propertyValue9\<close>, up
  to the first pair that is not complete.
\<close>

record PropertyParams =
  paramFeatureType :: FeatureType
  paramFeatureId :: "string option"
  paramPropertyName :: string
  paramPropertyValue :: string

definition truthyText :: "string option \<Rightarrow> bool" where
  "truthyText s = (case s of None \<Rightarrow> False | Some t \<Rightarrow> t \<noteq> [])"

definition propertiesOfRow :: "csvObject \<Rightarrow> PropertyParams list" where
  "propertiesOfRow property =
     concat (map (\<lambda>i. case (map_of property (''propertyName'' @ natToString i),
                             map_of property (''propertyValue'' @ natToString i)) of
                        (Some n, Some v) \<Rightarrow>
                          [\<lparr>paramFeatureType = featureTypeOfColumn (map_of property ''feature''),
                            paramFeatureId = map_of property ''featureId'',
                            paramPropertyName = n, paramPropertyValue = v\<rparr>]
                      | other \<Rightarrow> [])
               (takeWhile (\<lambda>i. truthyText (map_of property (''propertyName'' @ natToString i)) \<and>
                                truthyText (map_of property (''propertyValue'' @ natToString i)))
                  [1..<10]))"

definition FeaturePropertiesCSVDataSource ::
  "(string \<Rightarrow> string) \<Rightarrow> string \<Rightarrow> ProcessResult \<Rightarrow>
     (error \<times> ProcessResult) + (PropertyParams list \<times> ProcessResult)" where
  "FeaturePropertiesCSVDataSource getMsg rawData processResult =
     (case parseCsv getMsg rawData propertiesHeaderTemplate (propertiesCheckContent getMsg) processResult of
        (None, pr) \<Rightarrow> Inl (TypeError, pr)
      | (Some parseResult, pr) \<Rightarrow> Inr (concat (map propertiesOfRow parseResult), pr))"

text \<open>A CSV payload with a header of two columns and one row.\<close>

definition shortCsv :: string where
  "shortCsv = ''feature;featureId'' @ [CHR 0x0A] @ ''Point;a''"

section \<open>Well-formed tables\<close>

text \<open>
  The shape \<open>_addItem\<close> builds for \<open>n\<close> primary keys: \<open>n\<close> levels of \<open>Map\<close>s above the
  arrays.
\<close>

fun shaped :: "nat \<Rightarrow> 'v node \<Rightarrow> bool" where
  "shaped 0 (Bucket xs) = True"
| "shaped (Suc n) (Level m) = (\<forall>child \<in> snd ` set m. shaped n child)"
| "shaped n node = False"

definition wfTable :: "'v IAMMapTable \<Rightarrow> bool" where
  "wfTable t = (primaryKeys t \<noteq> [] \<and> shaped (length (primaryKeys t)) (mapTable t))"

text \<open>All arrays of a node, and all records of a node, in traversal order.\<close>

fun buckets :: "'v node \<Rightarrow> 'v list list" where
  "buckets (Bucket xs) = [xs]"
| "buckets (Level m) = concat (map (\<lambda>(k, child). buckets child) m)"

definition allItems :: "'v node \<Rightarrow> 'v list" where
  "allItems node = concat (buckets node)"

text \<open>The array stored under a full key tuple (empty when there is none).\<close>

fun getBucket :: "key list \<Rightarrow> 'v node \<Rightarrow> 'v list" where
  "getBucket [] (Bucket xs) = xs"
| "getBucket (k # ks) (Level m) = (case mapGet m k of None \<Rightarrow> [] | Some child \<Rightarrow> getBucket ks child)"
| "getBucket ks node = []"

definition slot :: "'v \<Rightarrow> 'v IAMMapTable \<Rightarrow> 'v list" where
  "slot item t = getBucket (map (\<lambda>pk. pk item) (primaryKeys t)) (mapTable t)"

text \<open>No two records of a list are equal to each other.\<close>

fun noEqualPair :: "('v \<Rightarrow> 'v \<Rightarrow> bool) \<Rightarrow> 'v list \<Rightarrow> bool" where
  "noEqualPair eq [] = True"
| "noEqualPair eq (x # xs) = (list_all (\<lambda>y. \<not> eq x y \<and> \<not> eq y x) xs \<and> noEqualPair eq xs)"

section \<open>Notions used to state the properties of the table\<close>

text \<open>
  The keys found at the level of the last filter, over the branches whose keys pass the
  filters before it (with repetitions, in traversal order).
\<close>

fun levelKeys :: "filters \<Rightarrow> 'v node \<Rightarrow> key list"
  and levelKeysEach :: "(key \<Rightarrow> bool) option \<Rightarrow> filters \<Rightarrow> (key \<times> 'v node) list \<Rightarrow> key list" where
  "levelKeys [] node = []"
| "levelKeys [f] (Level m) = filter (passes f) (map fst m)"
| "levelKeys (f # f' # fs) (Level m) = levelKeysEach f (f' # fs) m"
| "levelKeys (f # fs) (Bucket xs) = []"
| "levelKeysEach f fs [] = []"
| "levelKeysEach f fs ((k, child) # rest) =
     (if passes f k then levelKeys fs child @ levelKeysEach f fs rest else levelKeysEach f fs rest)"

text \<open>Sample records and a sample attributes table.\<close>

definition exampleAttribute1 :: FeatureAttribute where
  "exampleAttribute1 =
     \<lparr>featureType = LINESTRING, featureId = ''L1'', propertyName = ''status'', propertyValue = ''open'',
      fromYear = Some 1900, fromMonth = None, fromDay = None,
      toYear = Some 1950, toMonth = None, toDay = None\<rparr>"

definition exampleAttribute2 :: FeatureAttribute where
  "exampleAttribute2 =
     \<lparr>featureType = LINESTRING, featureId = ''L1'', propertyName = ''status'', propertyValue = ''open'',
      fromYear = Some 1960, fromMonth = None, fromDay = None,
      toYear = None, toMonth = None, toDay = None\<rparr>"

definition exampleAttributesTable :: "FeatureAttribute IAMMapTable" where
  "exampleAttributesTable =
     addItem FeatureAttribute_equals exampleAttribute1 (newIAMMapTable featureAttributesTableDef)"

definition exampleProperty1 :: FeatureProperty where
  "exampleProperty1 =
     \<lparr>featureType = POINT, featureId = ''P1'', propertyName = ''name'', propertyValue = ''Old''\<rparr>"

definition exampleProperty2 :: FeatureProperty where
  "exampleProperty2 =
     \<lparr>featureType = POINT, featureId = ''P1'', propertyName = ''name'', propertyValue = ''New''\<rparr>"

section \<open>A sample translator\<close>

text \<open>The English translator answers nearly every message with the message itself.\<close>

definition english :: "string \<Rightarrow> string" where
  "english msg = msg"

section \<open>Reachable stores and notions used to state the properties of the store\<close>

text \<open>
  The operations that change the store, and the store reached by a sequence of them
  from a new store (\<open>new IAMStorage()\<close>).
\<close>

datatype Operation =
  AddSetting FeatureSettings
| LoadFeatures DataSource InsertType ProcessResult
| LoadFeaturesProperties DataSource InsertType ProcessResult
| LoadFeaturesAttributes DataSource InsertType ProcessResult
| LoadSettings DataSource InsertType ProcessResult

fun applyOperation :: "(string \<Rightarrow> string) \<Rightarrow> Operation \<Rightarrow> IAMStorage \<Rightarrow> IAMStorage" where
  "applyOperation getMsg (AddSetting s) st = addSetting s st"
| "applyOperation getMsg (LoadFeatures ds it pr) st = fst (loadFeatures getMsg ds it pr st)"
| "applyOperation getMsg (LoadFeaturesProperties ds it pr) st = fst (loadFeaturesProperties getMsg ds it pr st)"
| "applyOperation getMsg (LoadFeaturesAttributes ds it pr) st = fst (loadFeaturesAttributes getMsg ds it pr st)"
| "applyOperation getMsg (LoadSettings ds it pr) st = fst (loadSettings getMsg ds it pr st)"

definition run :: "(string \<Rightarrow> string) \<Rightarrow> Operation list \<Rightarrow> IAMStorage" where
  "run getMsg ops = fold (applyOperation getMsg) ops (init getMsg)"

text \<open>A record names a feature that the features table does not hold.\<close>

definition featureMissing :: "'a FeatureProperty_scheme \<Rightarrow> IAMStorage \<Rightarrow> bool" where
  "featureMissing p st = (getFeature (featureType p) (featureId p) st = Undefined)"

text \<open>The warnings the two loaders write for such a record.\<close>

definition propertyWarning :: "(string \<Rightarrow> string) \<Rightarrow> FeatureProperty \<Rightarrow> string" where
  "propertyWarning getMsg p =
     getMsg ''WARNING: Property not added as no feature found for featureId/featureType ''
       @ featureId p @ ''/'' @ natToString (nat (ftNum (featureType p)))"

definition attributeWarning :: "(string \<Rightarrow> string) \<Rightarrow> FeatureAttribute \<Rightarrow> string" where
  "attributeWarning getMsg a =
     getMsg ''WARNING: Attribute not added as no feature found for featureId/featureType ''
       @ featureId a @ ''/'' @ natToString (nat (ftNum (featureType a)))"

text \<open>The status after a warning.\<close>

definition warned :: "Status \<Rightarrow> Status" where
  "warned s = (if s = ERROR then ERROR else WARN)"

text \<open>
  The tables of a store have the shape of their key schemas, and no array of the
  features table is empty.
\<close>

definition storeOk :: "IAMStorage \<Rightarrow> bool" where
  "storeOk st =
     (primaryKeys (features st) = featuresTableDef \<and> shaped 2 (mapTable (features st)) \<and>
      (\<forall>B \<in> set (buckets (mapTable (features st))). B \<noteq> []) \<and>
      primaryKeys (featureAttributes st) = featureAttributesTableDef \<and>
      shaped 4 (mapTable (featureAttributes st)) \<and>
      primaryKeys (featureProperties st) = featurePropertiesTableDef \<and>
      shaped 3 (mapTable (featureProperties st)) \<and>
      primaryKeys (featureSettings st) = featureSettingsTableDef \<and>
      shaped 4 (mapTable (featureSettings st)))"

section \<open>A sample store and a sample data source\<close>

definition exampleFeature :: ExtendedFeature where
  "exampleFeature = new_ExtendedFeature ''L1'' (LineStringCoordinates [(Finite 1, Finite 2), (Finite 3, Finite 4)])"

definition exampleFeaturesSource :: DataSource where
  "exampleFeaturesSource = (new_DataSource [])\<lparr>getFeatures := [exampleFeature]\<rparr>"

definition exampleStore :: IAMStorage where
  "exampleStore =
     run english [LoadFeatures exampleFeaturesSource OVERWRITE (new_ProcessResult INFO ''Features'')]"

definition strayAttribute :: FeatureAttribute where
  "strayAttribute =
     \<lparr>featureType = POINT, featureId = ''P9'', propertyName = ''status'', propertyValue = ''open'',
      fromYear = None, fromMonth = None, fromDay = None,
      toYear = None, toMonth = None, toDay = None\<rparr>"

definition strayProperty :: FeatureProperty where
  "strayProperty =
     \<lparr>featureType = POINT, featureId = ''P9'', propertyName = ''name'', propertyValue = ''Nine''\<rparr>"

definition exampleProperty3 :: FeatureProperty where
  "exampleProperty3 =
     \<lparr>featureType = LINESTRING, featureId = ''L1'', propertyName = ''name'', propertyValue = ''Line one''\<rparr>"

definition exampleRecordsSource :: DataSource where
  "exampleRecordsSource =
     (new_DataSource [])\<lparr>getFeaturesAttributes := [strayAttribute, exampleAttribute1],
                          getFeaturesProperties := [strayProperty, exampleProperty3]\<rparr>"

section \<open>Notions used to state the properties of the settings table\<close>

text \<open>
  The standard-level settings of a feature type that the store holds, and among them the
  ones keyed like the seeded standard setting: level name \<open>Standard\<close>, empty level value.
\<close>

definition isStandard :: "FeatureType \<Rightarrow> FeatureSettings \<Rightarrow> bool" where
  "isStandard ft s = (getFeatureType s = ft \<and> levelType s = LEVEL_STANDARD)"

definition isSeed :: "FeatureType \<Rightarrow> FeatureSettings \<Rightarrow> bool" where
  "isSeed ft s = (isStandard ft s \<and> levelName s = ''Standard'' \<and> levelValue s = [])"

definition standardSettings :: "FeatureType \<Rightarrow> IAMStorage \<Rightarrow> FeatureSettings list" where
  "standardSettings ft st = filter (isStandard ft) (getAllSettings st)"

definition seedSettings :: "FeatureType \<Rightarrow> IAMStorage \<Rightarrow> FeatureSettings list" where
  "seedSettings ft st = filter (isSeed ft) (getAllSettings st)"

text \<open>
  A setting follows the convention for level names when, being of standard level, it is
  named \<open>Standard\<close> with an empty value. The settings an operation inserts.
\<close>

definition conventional :: "FeatureSettings \<Rightarrow> bool" where
  "conventional s = (levelType s = LEVEL_STANDARD \<longrightarrow> levelName s = ''Standard'' \<and> levelValue s = [])"

fun insertedSettings :: "Operation \<Rightarrow> FeatureSettings list" where
  "insertedSettings (AddSetting s) = [s]"
| "insertedSettings (LoadSettings ds it pr) = getFeaturesSettings ds"
| "insertedSettings op = []"

text \<open>
  Every record of a node lies under the keys it carries; the keys of every \<open>Map\<close> are
  distinct.
\<close>

fun keyed :: "('v \<Rightarrow> key) list \<Rightarrow> 'v node \<Rightarrow> bool" where
  "keyed (pk # pks) (Level m) =
     (\<forall>entry \<in> set m. (\<forall>x \<in> set (allItems (snd entry)). pk x = fst entry) \<and> keyed pks (snd entry))"
| "keyed pks node = True"

fun distinctKeys :: "'v node \<Rightarrow> bool" where
  "distinctKeys (Bucket xs) = True"
| "distinctKeys (Level m) = (distinct (map fst m) \<and> (\<forall>entry \<in> set m. distinctKeys (snd entry)))"

definition keysOf :: "('v \<Rightarrow> key) list \<Rightarrow> 'v \<Rightarrow> key list" where
  "keysOf pks x = map (\<lambda>pk. pk x) pks"

definition seedKeys :: "FeatureType \<Rightarrow> key list" where
  "seedKeys ft = [KNum (ftNum ft), KNum 1, KStr ''Standard'', KStr []]"

definition settingsShape :: "FeatureSettings IAMMapTable \<Rightarrow> bool" where
  "settingsShape t =
     (primaryKeys t = featureSettingsTableDef \<and> shaped 4 (mapTable t) \<and>
      keyed featureSettingsTableDef (mapTable t) \<and> distinctKeys (mapTable t) \<and>
      (\<forall>B \<in> set (buckets (mapTable t)). noEqualPair FeatureSettings_equals B))"

definition settingsInv :: "FeatureSettings IAMMapTable \<Rightarrow> bool" where
  "settingsInv t = (settingsShape t \<and> (\<forall>ft. \<exists>s \<in> set (allItems (mapTable t)). isSeed ft s))"

definition allConventional :: "FeatureSettings IAMMapTable \<Rightarrow> bool" where
  "allConventional t = (\<forall>s \<in> set (allItems (mapTable t)). conventional s)"

text \<open>A standard-level setting for points under another level name.\<close>

definition rogueStandard :: FeatureSettings where
  "rogueStandard = (PointSettings_getStandard english)\<lparr>levelName := ''Other''\<rparr>"

section \<open>Notions used to state the properties of merging\<close>

text \<open>
  The value a property has after a merge in which the master wins: the master's value
  when the master defines the property, the caller's own value otherwise.
\<close>

definition masterFirst :: "'a option \<Rightarrow> 'a option \<Rightarrow> 'a option" where
  "masterFirst master own = (if master \<noteq> None then master else own)"

text \<open>Two borders and two settings to try the merge on.\<close>

definition thinBorder :: Border where
  "thinBorder = emptyBorder\<lparr>width := Some 1, lineCap := Some ''round''\<rparr>"

definition thickBorder :: Border where
  "thickBorder = emptyBorder\<lparr>width := Some 2\<rparr>"

definition openSetting :: FeatureSettings where
  "openSetting =
     \<lparr>levelType = LEVEL_ATTRIBUTE, levelName = ''status'', levelValue = ''open'',
      showFeature = None, showText = Some True, textSettings = None,
      ofClass = LineStringSettings \<lparr>lineBorder1 = thickBorder, lineBorder2 = emptyBorder\<rparr>\<rparr>"

section \<open>Settings resolution as the specification words it\<close>

text \<open>
  The validity window of an attribute overlaps the time frame unless its \<open>fromYear\<close> is
  after \<open>yearTo\<close> or its \<open>toYear\<close> is before \<open>yearFrom\<close>; a bound that is absent is
  unbounded.
\<close>

definition overlapsWindow :: "int \<Rightarrow> int \<Rightarrow> FeatureAttribute \<Rightarrow> bool" where
  "overlapsWindow yearFrom yearTo a =
     (\<not> (case fromYear a of None \<Rightarrow> False | Some y \<Rightarrow> y > yearTo) \<and>
      \<not> (case toYear a of None \<Rightarrow> False | Some y \<Rightarrow> y < yearFrom))"

text \<open>
  The stored setting of a feature type for the standard level, for an attribute name and
  value, and for a feature id: the first one among all settings of the store.
\<close>

definition standardFor :: "FeatureType \<Rightarrow> IAMStorage \<Rightarrow> FeatureSettings option" where
  "standardFor ft st =
     find (\<lambda>s. getFeatureType s = ft \<and> levelType s = LEVEL_STANDARD) (getAllSettings st)"

definition attributeSettingFor :: "FeatureType \<Rightarrow> string \<Rightarrow> string \<Rightarrow> IAMStorage \<Rightarrow> FeatureSettings option" where
  "attributeSettingFor ft name v st =
     find (\<lambda>s. getFeatureType s = ft \<and> levelType s = LEVEL_ATTRIBUTE \<and> levelName s = name \<and> levelValue s = v)
       (getAllSettings st)"

definition featureSettingFor :: "FeatureType \<Rightarrow> string \<Rightarrow> IAMStorage \<Rightarrow> FeatureSettings option" where
  "featureSettingFor ft fid st =
     find (\<lambda>s. getFeatureType s = ft \<and> levelType s = LEVEL_FEATURE \<and> levelName s = fid) (getAllSettings st)"

text \<open>Merging a setting, if there is one, on top of the running result.\<close>

definition mergeOnTop :: "FeatureSettings option \<Rightarrow> FeatureSettings option \<Rightarrow> error + FeatureSettings option" where
  "mergeOnTop found ret = (case found of None \<Rightarrow> Inr ret | Some s \<Rightarrow> mergeInto ret s)"

text \<open>
  The step for one attribute: the setting that matches its name and value is merged on
  top; when in addition its \<open>fromYear\<close> lies inside the time frame, the setting for its
  name and \<open>_iam_hasChanged\<close> is merged as well.
\<close>

definition resolveAttribute ::
  "FeatureType \<Rightarrow> int \<Rightarrow> int \<Rightarrow> IAMStorage \<Rightarrow> FeatureAttribute \<Rightarrow> FeatureSettings option \<Rightarrow>
     error + FeatureSettings option" where
  "resolveAttribute ft yearFrom yearTo st a ret =
     (case attributeSettingFor ft (propertyName a) (propertyValue a) st of
        None \<Rightarrow> Inr ret
      | Some s \<Rightarrow>
          (case mergeInto ret s of
             Inl e \<Rightarrow> Inl e
           | Inr ret1 \<Rightarrow>
               if (case fromYear a of None \<Rightarrow> False | Some y \<Rightarrow> yearFrom \<le> y \<and> y \<le> yearTo)
               then mergeOnTop (attributeSettingFor ft (propertyName a) ''_iam_hasChanged'' st) ret1
               else Inr ret1))"

fun resolveAttributes ::
  "FeatureType \<Rightarrow> int \<Rightarrow> int \<Rightarrow> IAMStorage \<Rightarrow> FeatureAttribute list \<Rightarrow> FeatureSettings option \<Rightarrow>
     error + FeatureSettings option" where
  "resolveAttributes ft yearFrom yearTo st [] ret = Inr ret"
| "resolveAttributes ft yearFrom yearTo st (a # atts) ret =
     (case resolveAttribute ft yearFrom yearTo st a ret of
        Inl e \<Rightarrow> Inl e
      | Inr ret' \<Rightarrow> resolveAttributes ft yearFrom yearTo st atts ret')"

text \<open>
  Settings resolution for a feature of the store: start from the standard setting of
  the type, go through the attributes whose window overlaps the time frame in ascending
  order of \<open>fromYear\<close> (an absent year before all others, ties in their original order),
  and merge the setting of the feature last.
\<close>

definition resolveSettings ::
  "FeatureType \<Rightarrow> string \<Rightarrow> int \<Rightarrow> int \<Rightarrow> IAMStorage \<Rightarrow> ExtendedFeature \<Rightarrow> error + FeatureSettings option" where
  "resolveSettings ft fid yearFrom yearTo st feature =
     (case resolveAttributes ft yearFrom yearTo st
             (sort_key fromYear (filter (overlapsWindow yearFrom yearTo) (attributes feature)))
             (standardFor ft st) of
        Inl e \<Rightarrow> Inl e
      | Inr ret \<Rightarrow> mergeOnTop (featureSettingFor ft fid st) ret)"

text \<open>
  The side conditions under which the code resolves settings that way: the names, values
  and years it tests for truthiness are not empty and not 0, and the attributes that
  overlap the time frame either all carry a \<open>fromYear\<close> to sort by or all lack it.
\<close>

definition plainAttribute :: "FeatureAttribute \<Rightarrow> bool" where
  "plainAttribute a =
     (propertyName a \<noteq> [] \<and> propertyValue a \<noteq> [] \<and> fromYear a \<noteq> Some 0 \<and> toYear a \<noteq> Some 0)"

definition sortable :: "int \<Rightarrow> int \<Rightarrow> ExtendedFeature \<Rightarrow> bool" where
  "sortable yearFrom yearTo feature =
     (let atts = filter (overlapsWindow yearFrom yearTo) (attributes feature)
      in list_all (\<lambda>a. fromYear a \<noteq> None) atts \<or> list_all (\<lambda>a. fromYear a = None) atts)"

section \<open>A sample store with an attribute-level setting\<close>

text \<open>
  The line string \<open>L1\<close> with one attribute, loaded into a new store, and the setting for
  the attribute \<open>status\<close> with value \<open>open\<close> added to it. An attribute of \<open>L1\<close> whose
  value is the empty string.
\<close>

definition styledStore :: "FeatureAttribute \<Rightarrow> IAMStorage" where
  "styledStore a =
     run english
       [LoadFeatures exampleFeaturesSource OVERWRITE (new_ProcessResult INFO ''Features''),
        LoadFeaturesAttributes ((new_DataSource [])\<lparr>getFeaturesAttributes := [a]\<rparr>) OVERWRITE
          (new_ProcessResult INFO ''Attributes''),
        AddSetting openSetting]"

definition attributed :: "FeatureAttribute \<Rightarrow> ExtendedFeature" where
  "attributed a = exampleFeature\<lparr>attributes := [a]\<rparr>"

definition blankAttribute :: FeatureAttribute where
  "blankAttribute = exampleAttribute1\<lparr>propertyValue := []\<rparr>"

text \<open>The attribute of \<open>L1\<close> without years.\<close>

definition undatedAttribute :: FeatureAttribute where
  "undatedAttribute = exampleAttribute1\<lparr>fromYear := None, toYear := None\<rparr>"

section \<open>Properties of the table\<close>

subsection \<open>Maps and buckets\<close>

lemma set_mapSet_subset: "set (mapSet k v m) \<subseteq> insert (k, v) (set m)"
  unfolding mapSet_def by (induction m) auto

lemma mapGet_Some_in: "mapGet m k = Some c \<Longrightarrow> (k, c) \<in> set m"
  unfolding mapGet_def by (rule map_of_SomeD)

lemma mapGet_mapSet: "mapGet (mapSet k v m) k' = (if k' = k then Some v else mapGet m k')"
  unfolding mapGet_def mapSet_def by (simp add: update_conv')

lemma in_mapSetD: "(a, b) \<in> set (mapSet k v m) \<Longrightarrow> (a = k \<and> b = v) \<or> (a, b) \<in> set m"
  using set_mapSet_subset[of k v m] by auto

lemma shaped_Level_mapSet:
  "shaped (Suc n) (Level m) \<Longrightarrow> shaped n c \<Longrightarrow> shaped (Suc n) (Level (mapSet k c m))"
  using set_mapSet_subset[of k c m] by auto

lemma shaped_addItemRec:
  "shaped (length pks) node \<Longrightarrow> shaped (length pks) (addItemRec eq pks item node)"
proof (induction eq pks item node rule: addItemRec.induct)
  case (1 eq item node)
  then show ?case by simp
next
  case (2 eq pk item m)
  then show ?case
    by (auto split: option.splits node.splits dest!: in_mapSetD)
next
  case (3 eq pk pk' pks item m)
  show ?case
  proof (cases "mapGet m (pk item)")
    case None
    have "shaped (length (pk' # pks)) (Level [])" by simp
    from 3(1)[OF None this] 3(3) None show ?thesis
      by (simp del: shaped.simps(2)) (rule shaped_Level_mapSet, simp_all del: shaped.simps(2))
  next
    case (Some found)
    then have "shaped (length (pk' # pks)) found"
      using 3(3) mapGet_Some_in[OF Some] by force
    from 3(2)[OF Some this] 3(3) Some show ?thesis
      by (simp del: shaped.simps(2)) (rule shaped_Level_mapSet, simp_all del: shaped.simps(2))
  qed
next
  case (4 eq pk pks item xs)
  then show ?case by simp
qed

lemma mapSet_None: "mapGet m k = None \<Longrightarrow> mapSet k v m = m @ [(k, v)]"
  unfolding mapGet_def mapSet_def by (induction m) (auto split: if_splits)

lemma mapSet_Some:
  "mapGet m k = Some c \<Longrightarrow> \<exists>m1 m2. m = m1 @ (k, c) # m2 \<and> mapSet k v m = m1 @ (k, v) # m2"
unfolding mapGet_def mapSet_def
proof (induction m)
  case Nil
  then show ?case by simp
next
  case (Cons p m)
  show ?case
  proof (cases "fst p = k")
    case True
    with Cons.prems have "p = (k, c)" by (cases p) auto
    then have "p # m = [] @ (k, c) # m \<and> AList.update k v (p # m) = [] @ (k, v) # m" by simp
    then show ?thesis by blast
  next
    case False
    with Cons.prems have "map_of m k = Some c" by (cases p) auto
    from Cons.IH[OF this] obtain m1 m2 where
      "m = m1 @ (k, c) # m2" "AList.update k v m = m1 @ (k, v) # m2" by blast
    with False have "p # m = (p # m1) @ (k, c) # m2 \<and> AList.update k v (p # m) = (p # m1) @ (k, v) # m2"
      by (cases p) auto
    then show ?thesis by blast
  qed
qed

lemma mapGet_Nil [simp]: "mapGet [] k = None"
  by (simp add: mapGet_def)

lemma storeItem_Nil: "storeItem eq item [] = [item]"
  by (simp add: storeItem_def)

lemma item_in_storeItem: "item \<in> set (storeItem eq item found)"
  by (auto simp: storeItem_def list_ex_iff)

lemma kept_in_storeItem: "y \<in> set found \<Longrightarrow> \<not> eq y item \<Longrightarrow> y \<in> set (storeItem eq item found)"
  by (auto simp: storeItem_def list_ex_iff)

lemma storeItem_only_item: "y \<in> set (storeItem eq item found) \<Longrightarrow> eq y item \<Longrightarrow> y = item"
  by (auto simp: storeItem_def list_ex_iff split: if_splits)

lemma set_storeItem_subset: "set (storeItem eq item found) \<subseteq> insert item (set found)"
  by (auto simp: storeItem_def list_ex_iff split: if_splits)

lemma getBucket_addItemRec:
  "pks \<noteq> [] \<Longrightarrow> shaped (length pks) node \<Longrightarrow>
   getBucket (map (\<lambda>pk. pk item) pks) (addItemRec eq pks item node) =
   storeItem eq item (getBucket (map (\<lambda>pk. pk item) pks) node)"
proof (induction eq pks item node rule: addItemRec.induct)
  case (2 eq pk item m)
  then show ?case
    by (auto simp: mapGet_mapSet storeItem_Nil split: option.splits node.splits dest!: mapGet_Some_in)
next
  case (3 eq pk pk' pks item m)
  show ?case
  proof (cases "mapGet m (pk item)")
    case None
    have "shaped (length (pk' # pks)) (Level [])" by simp
    from 3(1)[OF None _ this] None show ?thesis
      by (simp add: mapGet_mapSet)
  next
    case (Some found)
    then have "shaped (length (pk' # pks)) found"
      using 3(4) mapGet_Some_in[OF Some] by force
    from 3(2)[OF Some _ this] Some show ?thesis
      by (simp add: mapGet_mapSet)
  qed
qed simp_all

lemma set_allItems_Level:
  "set (allItems (Level m)) = (\<Union>(k, c) \<in> set m. set (allItems c))"
  by (auto simp: allItems_def)

lemma set_buckets_Level:
  "set (buckets (Level m)) = (\<Union>(k, c) \<in> set m. set (buckets c))"
  by auto

lemma allItems_Bucket [simp]: "allItems (Bucket xs) = xs"
  by (simp add: allItems_def)

lemma getBucket_subset_allItems: "set (getBucket ks node) \<subseteq> set (allItems node)"
proof (induction ks node rule: getBucket.induct)
  case (2 k ks m)
  show ?case
  proof (cases "mapGet m k")
    case None
    then show ?thesis by simp
  next
    case (Some child)
    from 2[OF Some] mapGet_Some_in[OF Some] Some show ?thesis
      by (fastforce simp: set_allItems_Level)
  qed
qed simp_all

lemma buckets_addItemRec:
  "B \<in> set (buckets (addItemRec eq pks x node)) \<Longrightarrow>
   B \<in> set (buckets node) \<or> (\<exists>B0 \<in> set (buckets node). B = storeItem eq x B0) \<or> B = [x]"
proof (induction eq pks x node arbitrary: B rule: addItemRec.induct)
  case (2 eq pk item m)
  show ?case
  proof (cases "mapGet m (pk item)")
    case None
    with 2 show ?thesis by (auto simp: mapSet_None)
  next
    case (Some found)
    show ?thesis
    proof (cases found)
      case (Bucket xs)
      from mapSet_Some[OF Some, of "Bucket (storeItem eq item xs)"] obtain m1 m2 where
        "m = m1 @ (pk item, found) # m2"
        "mapSet (pk item) (Bucket (storeItem eq item xs)) m = m1 @ (pk item, Bucket (storeItem eq item xs)) # m2"
        by blast
      with 2 Some Bucket show ?thesis by auto
    next
      case (Level sub)
      with 2 Some show ?thesis by simp
    qed
  qed
next
  case (3 eq pk pk' pks item m)
  show ?case
  proof (cases "mapGet m (pk item)")
    case None
    with 3(3) have "B \<in> set (buckets (Level m)) \<or> B \<in> set (buckets (addItemRec eq (pk' # pks) item (Level [])))"
      by (auto simp: mapSet_None)
    with 3(1)[OF None, of B] show ?thesis by auto
  next
    case (Some found)
    from mapSet_Some[OF Some, of "addItemRec eq (pk' # pks) item found"] obtain m1 m2 where
      m: "m = m1 @ (pk item, found) # m2"
      "mapSet (pk item) (addItemRec eq (pk' # pks) item found) m = m1 @ (pk item, addItemRec eq (pk' # pks) item found) # m2"
      by blast
    with 3(3) Some have "B \<in> set (buckets (Level m)) \<or> B \<in> set (buckets (addItemRec eq (pk' # pks) item found))"
      by auto
    with 3(2)[OF Some, of B] m(1) show ?thesis by auto
  qed
qed simp_all

lemma noEqualPair_map_replace:
  assumes "symp eq" "transp eq"
  shows "noEqualPair eq B \<Longrightarrow> noEqualPair eq (map (\<lambda>s. if eq s x then x else s) B)"
proof (induction B)
  case Nil
  then show ?case by simp
next
  case (Cons s B)
  define r where "r = (\<lambda>s. if eq s x then x else s)"
  have sym: "\<And>a b. eq a b \<Longrightarrow> eq b a" using assms(1) by (auto dest: sympD)
  have trans: "\<And>a b c. eq a b \<Longrightarrow> eq b c \<Longrightarrow> eq a c" using assms(2) by (auto dest: transpD)
  from Cons.prems have hd: "\<forall>y \<in> set B. \<not> eq s y \<and> \<not> eq y s" and tl: "noEqualPair eq B"
    by (auto simp: list_all_iff)
  have "\<forall>y \<in> set B. \<not> eq (r s) (r y) \<and> \<not> eq (r y) (r s)"
  proof
    fix y assume y: "y \<in> set B"
    with hd have n: "\<not> eq s y" "\<not> eq y s" by auto
    show "\<not> eq (r s) (r y) \<and> \<not> eq (r y) (r s)"
    proof (cases "eq s x")
      case sx: True
      have nyx: "\<not> eq y x"
      proof
        assume "eq y x"
        from trans[OF this sym[OF sx]] n(2) show False by simp
      qed
      then have "\<not> eq x y" using sym[of x y] by auto
      with sx nyx show ?thesis by (simp add: r_def)
    next
      case nsx: False
      then have "\<not> eq x s" using sym[of x s] by auto
      with nsx n show ?thesis by (simp add: r_def)
    qed
  qed
  then have "list_all (\<lambda>y. \<not> eq (r s) y \<and> \<not> eq y (r s)) (map r B)"
    by (simp add: list_all_iff)
  moreover have "noEqualPair eq (map r B)" using Cons.IH[OF tl] by (simp add: r_def)
  ultimately have "noEqualPair eq (map r (s # B))" by simp
  then show ?case by (simp add: r_def)
qed

lemma noEqualPair_snoc:
  assumes "symp eq"
  shows "noEqualPair eq B \<Longrightarrow> \<forall>s \<in> set B. \<not> eq s x \<Longrightarrow> noEqualPair eq (B @ [x])"
proof (induction B)
  case Nil
  then show ?case by simp
next
  case (Cons s B)
  have sym: "\<And>a b. eq a b \<Longrightarrow> eq b a" using assms(1) by (auto dest: sympD)
  from Cons show ?case by (auto simp: list_all_iff dest: sym)
qed

lemma noEqualPair_storeItem:
  "symp eq \<Longrightarrow> transp eq \<Longrightarrow> noEqualPair eq B \<Longrightarrow> noEqualPair eq (storeItem eq x B)"
  by (auto simp: storeItem_def list_ex_iff intro: noEqualPair_map_replace noEqualPair_snoc)

lemma noEqualPair_addItemRec:
  assumes "symp eq" "transp eq" "\<forall>B \<in> set (buckets node). noEqualPair eq B"
  shows "\<forall>B \<in> set (buckets (addItemRec eq pks x node)). noEqualPair eq B"
proof
  fix B assume "B \<in> set (buckets (addItemRec eq pks x node))"
  from buckets_addItemRec[OF this] assms show "noEqualPair eq B"
    by (auto intro: noEqualPair_storeItem)
qed

lemma set_allItems_buckets: "set (allItems node) = (\<Union>B \<in> set (buckets node). set B)"
  by (simp add: allItems_def)

lemma kept_in_addItemRec:
  "y \<in> set (allItems node) \<Longrightarrow> \<not> eq y x \<Longrightarrow> y \<in> set (allItems (addItemRec eq pks x node))"
proof (induction eq pks x node rule: addItemRec.induct)
  case (2 eq pk item m)
  show ?case
  proof (cases "mapGet m (pk item)")
    case None
    with 2 show ?thesis by (auto simp: mapSet_None set_allItems_Level)
  next
    case (Some found)
    show ?thesis
    proof (cases found)
      case (Bucket xs)
      from mapSet_Some[OF Some, of "Bucket (storeItem eq item xs)"] obtain m1 m2 where
        "m = m1 @ (pk item, found) # m2"
        "mapSet (pk item) (Bucket (storeItem eq item xs)) m = m1 @ (pk item, Bucket (storeItem eq item xs)) # m2"
        by blast
      with 2 Some Bucket show ?thesis
        by (auto simp: set_allItems_Level intro: kept_in_storeItem)
    next
      case (Level sub)
      with 2 Some show ?thesis by simp
    qed
  qed
next
  case (3 eq pk pk' pks item m)
  show ?case
  proof (cases "mapGet m (pk item)")
    case None
    with 3 show ?thesis by (auto simp: mapSet_None set_allItems_Level)
  next
    case (Some found)
    from mapSet_Some[OF Some, of "addItemRec eq (pk' # pks) item found"] obtain m1 m2 where
      m: "m = m1 @ (pk item, found) # m2"
      "mapSet (pk item) (addItemRec eq (pk' # pks) item found) m = m1 @ (pk item, addItemRec eq (pk' # pks) item found) # m2"
      by blast
    with 3(3,4) 3(2)[OF Some] Some show ?thesis
      by (auto simp: set_allItems_Level)
  qed
qed simp_all

lemma item_in_addItemRec:
  assumes "pks \<noteq> []" "shaped (length pks) node"
  shows "x \<in> set (allItems (addItemRec eq pks x node))"
proof -
  have "x \<in> set (getBucket (map (\<lambda>pk. pk x) pks) (addItemRec eq pks x node))"
    using getBucket_addItemRec[OF assms] by (simp add: item_in_storeItem)
  then show ?thesis by (rule subsetD[OF getBucket_subset_allItems])
qed

lemma allItems_addItemRec_subset:
  "set (allItems (addItemRec eq pks x node)) \<subseteq> insert x (set (allItems node))"
proof
  fix y assume "y \<in> set (allItems (addItemRec eq pks x node))"
  then obtain B where B: "B \<in> set (buckets (addItemRec eq pks x node))" "y \<in> set B"
    by (auto simp: set_allItems_buckets)
  from buckets_addItemRec[OF B(1)] B(2) set_storeItem_subset[of eq x]
  show "y \<in> insert x (set (allItems node))"
    by (fastforce simp: set_allItems_buckets)
qed

lemma getAllItemsRec_all:
  "shaped (length fs) node \<Longrightarrow> fs \<noteq> [] \<Longrightarrow> \<forall>f \<in> set fs. f = None \<Longrightarrow>
     getAllItemsRec fs (node :: 'v node) = allItems node"
  and getAllItemsEach_all:
  "\<forall>c \<in> snd ` set m. shaped (length fs) c \<Longrightarrow> f = None \<Longrightarrow> \<forall>f \<in> set fs. f = None \<Longrightarrow>
     getAllItemsEach f fs (m :: (key \<times> 'v node) list) = allItems (Level m)"
proof (induction fs node and f fs m rule: getAllItemsRec_getAllItemsEach.induct)
  case (2 f fs m)
  then show ?case by simp
next
  case (5 f fs k child rest)
  have rest: "getAllItemsEach f fs rest = allItems (Level rest)"
    using 5 by (simp add: passes_def)
  have sh: "shaped (length fs) child" using 5(4) by simp
  show ?case
  proof (cases "fs = []")
    case True
    with sh obtain xs where "child = Bucket xs" by (cases child) auto
    with True rest 5(5) show ?thesis by (simp add: passes_def allItems_def)
  next
    case False
    have "passes f k" using 5(5) by (simp add: passes_def)
    from 5(1)[OF this False sh False 5(6)] rest False 5(5) show ?thesis
      by (simp add: passes_def allItems_def)
  qed
qed (simp_all add: allItems_def)

lemma set_fold_setKey: "set (fold setKey ks ret) = set ret \<union> set ks"
  by (induction ks arbitrary: ret) (auto simp: setKey_def)

lemma distinct_fold_setKey: "distinct ret \<Longrightarrow> distinct (fold setKey ks ret)"
  by (induction ks arbitrary: ret) (auto simp: setKey_def)

lemma getAllKeysRec_levelKeys:
  "shaped n (node :: 'v node) \<Longrightarrow> fs \<noteq> [] \<Longrightarrow> length fs \<le> n \<Longrightarrow>
     \<exists>ks. getAllKeysRec fs node ret = Inr ks \<and> set ks = set ret \<union> set (levelKeys fs node)
        \<and> (distinct ret \<longrightarrow> distinct ks)"
  and getAllKeysEach_levelKeys:
  "\<forall>c \<in> snd ` set (m :: (key \<times> 'v node) list). shaped n c \<Longrightarrow> fs \<noteq> [] \<Longrightarrow> length fs \<le> n \<Longrightarrow>
     \<exists>ks. getAllKeysEach f fs m ret = Inr ks \<and> set ks = set ret \<union> set (levelKeysEach f fs m)
        \<and> (distinct ret \<longrightarrow> distinct ks)"
proof (induction fs node ret and f fs m ret arbitrary: n and n rule: getAllKeysRec_getAllKeysEach.induct)
  case (1 fs m ret)
  show ?case
  proof (cases "isLast fs")
    case True
    then obtain f where "fs = [f]" by (cases fs) (auto simp: isLast_def)
    then show ?thesis
      by (simp add: isLast_def currentFilter_def set_fold_setKey distinct_fold_setKey)
  next
    case False
    with 1(3) obtain f f' fs' where fs: "fs = f # f' # fs'"
      by (cases fs; cases "tl fs") (auto simp: isLast_def)
    from 1(2) obtain n' where n: "n = Suc n'" by (cases n) auto
    with 1(2) have ch: "\<forall>c \<in> snd ` set m. shaped n' c" by simp
    have "tl fs \<noteq> []" "length (tl fs) \<le> n'" using fs 1(4) n by auto
    from 1(1)[OF False ch this] False fs show ?thesis
      by (simp add: currentFilter_def)
  qed
next
  case (2 fs xs ret)
  then show ?case by (cases n) auto
next
  case (3 f fs ret)
  then show ?case by simp
next
  case (4 f fs k child rest ret)
  have ch: "shaped n child" and rs: "\<forall>c \<in> snd ` set rest. shaped n c" using 4(4) by auto
  show ?case
  proof (cases "passes f k")
    case False
    from 4(3)[OF False rs 4(5,6)] False show ?thesis by simp
  next
    case True
    from 4(1)[OF True ch 4(5,6)] obtain ks where
      ks: "getAllKeysRec fs child ret = Inr ks" "set ks = set ret \<union> set (levelKeys fs child)"
          "distinct ret \<longrightarrow> distinct ks" by blast
    from 4(2)[OF True ks(1) rs 4(5,6)] obtain ks' where
      "getAllKeysEach f fs rest ks = Inr ks'" "set ks' = set ks \<union> set (levelKeysEach f fs rest)"
          "distinct ks \<longrightarrow> distinct ks'" by blast
    with ks True show ?thesis by auto
  qed
qed

lemma wfTable_new: "pks \<noteq> [] \<Longrightarrow> wfTable (newIAMMapTable pks)"
  by (cases pks) (simp_all add: wfTable_def newIAMMapTable_def)

lemma wfTable_addItem: "wfTable t \<Longrightarrow> wfTable (addItem eq x t)"
  by (simp add: wfTable_def addItem_def shaped_addItemRec)

lemma primaryKeys_addItem [simp]: "primaryKeys (addItem eq x t) = primaryKeys t"
  by (simp add: addItem_def)

lemma primaryKeys_new [simp]: "primaryKeys (newIAMMapTable pks) = pks"
  by (simp add: newIAMMapTable_def)

lemma slot_addItem: "wfTable t \<Longrightarrow> slot x (addItem eq x t) = storeItem eq x (slot x t)"
  by (simp add: slot_def addItem_def wfTable_def getBucket_addItemRec)

lemma slot_new [simp]: "slot x (newIAMMapTable pks) = []"
  by (cases pks) (simp_all add: slot_def newIAMMapTable_def)

lemma getBucket_addItemRec_other:
  "length ks = length pks \<Longrightarrow> ks \<noteq> map (\<lambda>pk. pk x) pks \<Longrightarrow>
   getBucket ks (addItemRec eq pks x node) = getBucket ks node"
proof (induction eq pks x node arbitrary: ks rule: addItemRec.induct)
  case (2 eq pk item m)
  then obtain k where ks: "ks = [k]" "k \<noteq> pk item" by (cases ks) auto
  then show ?case
    by (auto simp: mapGet_mapSet split: option.splits node.splits)
next
  case (3 eq pk pk' pks item m)
  from 3(3) obtain k ks' where ks: "ks = k # ks'" "length ks' = length (pk' # pks)" by (cases ks) auto
  show ?case
  proof (cases "k = pk item")
    case False
    with ks show ?thesis by (auto simp: mapGet_mapSet split: option.splits)
  next
    case True
    with ks 3(4) have ne: "ks' \<noteq> map (\<lambda>pk. pk item) (pk' # pks)" by auto
    show ?thesis
    proof (cases "mapGet m (pk item)")
      case None
      from 3(1)[OF None ks(2) ne] None ks True show ?thesis
        by (cases ks') (auto simp: mapGet_mapSet)
    next
      case (Some found)
      from 3(2)[OF Some ks(2) ne] Some ks True show ?thesis
        by (auto simp: mapGet_mapSet)
    qed
  qed
qed simp_all

lemma noEqualPair_addItem:
  assumes "symp eq" "transp eq" "\<forall>B \<in> set (buckets (mapTable t)). noEqualPair eq B"
  shows "\<forall>B \<in> set (buckets (mapTable (addItem eq x t))). noEqualPair eq B"
  using noEqualPair_addItemRec[OF assms] by (simp add: addItem_def)

lemma foldl_addItem_inv:
  assumes "pks \<noteq> []" "symp eq" "transp eq"
  shows "wfTable (foldl (\<lambda>t x. addItem eq x t) (newIAMMapTable pks) xs) \<and>
         primaryKeys (foldl (\<lambda>t x. addItem eq x t) (newIAMMapTable pks) xs) = pks \<and>
         (\<forall>B \<in> set (buckets (mapTable (foldl (\<lambda>t x. addItem eq x t) (newIAMMapTable pks) xs))).
            noEqualPair eq B)"
proof (induction xs rule: rev_induct)
  case Nil
  with assms(1) show ?case by (simp add: wfTable_new) (simp add: newIAMMapTable_def)
next
  case (snoc x xs)
  let ?t = "foldl (\<lambda>t x. addItem eq x t) (newIAMMapTable pks) xs"
  from snoc have wf: "wfTable ?t" and pk: "primaryKeys ?t = pks"
    and inv: "\<forall>B \<in> set (buckets (mapTable ?t)). noEqualPair eq B" by auto
  have "wfTable (addItem eq x ?t)" by (rule wfTable_addItem[OF wf])
  moreover have "primaryKeys (addItem eq x ?t) = pks" using pk by simp
  moreover have "\<forall>B \<in> set (buckets (mapTable (addItem eq x ?t))). noEqualPair eq B"
    by (rule noEqualPair_addItem[OF assms(2,3) inv])
  ultimately show ?case by simp
qed

lemma getAllItems_all:
  assumes "wfTable t" "length fs = length (primaryKeys t)" "\<forall>f \<in> set fs. f = None"
  shows "getAllItems fs t = allItems (mapTable t)"
proof -
  from assms have "fs \<noteq> []" "shaped (length fs) (mapTable t)" by (auto simp: wfTable_def)
  with assms(2,3) show ?thesis by (simp add: getAllItems_def getAllItemsRec_all)
qed

lemma item_in_addItem: "wfTable t \<Longrightarrow> x \<in> set (allItems (mapTable (addItem eq x t)))"
  by (simp add: addItem_def wfTable_def item_in_addItemRec)

lemma kept_in_addItem:
  "y \<in> set (allItems (mapTable t)) \<Longrightarrow> \<not> eq y x \<Longrightarrow> y \<in> set (allItems (mapTable (addItem eq x t)))"
  by (simp add: addItem_def kept_in_addItemRec)

lemma wfTable_exampleAttributesTable: "wfTable exampleAttributesTable"
  unfolding exampleAttributesTable_def
  by (intro wfTable_addItem wfTable_new) (simp add: featureAttributesTableDef_def)

lemma exampleAttributesTable_eval:
  "mapTable exampleAttributesTable =
     Level [(KNum 2, Level [(KStr ''L1'', Level [(KStr ''status'',
        Level [(KStr ''open'', Bucket [exampleAttribute1])])])])]"
  by (simp add: exampleAttributesTable_def addItem_def newIAMMapTable_def featureAttributesTableDef_def
      mapGet_def mapSet_def exampleAttribute1_def)

lemma symp_FeatureProperty_equals:
  "symp (FeatureProperty_equals :: FeatureProperty \<Rightarrow> FeatureProperty \<Rightarrow> bool)"
  by (auto simp: symp_def FeatureProperty_equals_def)

lemma transp_FeatureProperty_equals:
  "transp (FeatureProperty_equals :: FeatureProperty \<Rightarrow> FeatureProperty \<Rightarrow> bool)"
  by (auto simp: transp_def FeatureProperty_equals_def)

lemma symp_FeatureAttribute_equals: "symp FeatureAttribute_equals"
  by (auto simp: symp_def FeatureAttribute_equals_def FeatureProperty_equals_def)

lemma transp_FeatureAttribute_equals: "transp FeatureAttribute_equals"
  by (auto simp: transp_def FeatureAttribute_equals_def FeatureProperty_equals_def)

subsection \<open>Insertion keeps one record per identity\<close>

text \<open>
  Claim C3. Let \<open>t\<close> be the table reached from the empty table by any sequence \<open>xs\<close> of
  \<open>addItem\<close> calls, for records whose \<open>equals\<close> is symmetric and transitive (as the
  \<open>equals\<close> of every record class of the store is). Then no terminal list of \<open>t\<close> holds
  two records that are equal to each other. Inserting a record \<open>x\<close> leaves \<open>x\<close> itself in
  the list of its key tuple, and \<open>x\<close> is the only record there that is equal to \<open>x\<close>
  (last write wins); when the list held a record equal to \<open>x\<close>, the list keeps its length
  and the record is replaced at its position, otherwise \<open>x\<close> is appended. After inserting
  two equal records \<open>a\<close> then \<open>b\<close> into the empty table the list at the slot of \<open>b\<close> is
  \<open>[b]\<close>, of length 1.
\<close>

theorem addItem_last_write_wins:
  assumes "pks \<noteq> []" and "symp eq" and "transp eq"
    and "t = foldl (\<lambda>t x. addItem eq x t) (newIAMMapTable pks) xs"
  shows "(\<forall>B \<in> set (buckets (mapTable t)). noEqualPair eq B) \<and>
         x \<in> set (slot x (addItem eq x t)) \<and>
         (\<forall>y \<in> set (slot x (addItem eq x t)). eq y x \<longrightarrow> y = x) \<and>
         (list_ex (\<lambda>s. eq s x) (slot x t) \<longrightarrow>
            slot x (addItem eq x t) = map (\<lambda>s. if eq s x then x else s) (slot x t)) \<and>
         (\<not> list_ex (\<lambda>s. eq s x) (slot x t) \<longrightarrow> slot x (addItem eq x t) = slot x t @ [x]) \<and>
         (eq a b \<longrightarrow> slot b (addItem eq b (addItem eq a (newIAMMapTable pks))) = [b])"
proof -
  from foldl_addItem_inv[OF assms(1-3), of xs] assms(4)
  have wf: "wfTable t" and inv: "\<forall>B \<in> set (buckets (mapTable t)). noEqualPair eq B" by auto
  have s: "slot x (addItem eq x t) = storeItem eq x (slot x t)" by (rule slot_addItem[OF wf])
  have two: "eq a b \<longrightarrow> slot b (addItem eq b (addItem eq a (newIAMMapTable pks))) = [b]"
  proof
    assume ab: "eq a b"
    let ?t0 = "newIAMMapTable pks :: 'a IAMMapTable"
    have wf0: "wfTable ?t0" by (rule wfTable_new[OF assms(1)])
    have sb: "slot b (addItem eq b (addItem eq a ?t0)) = storeItem eq b (slot b (addItem eq a ?t0))"
      by (rule slot_addItem[OF wfTable_addItem[OF wf0]])
    show "slot b (addItem eq b (addItem eq a ?t0)) = [b]"
    proof (cases "map (\<lambda>pk. pk b) pks = map (\<lambda>pk. pk a) pks")
      case True
      then have "slot b (addItem eq a ?t0) = slot a (addItem eq a ?t0)"
        by (simp only: slot_def primaryKeys_addItem primaryKeys_new)
      also have "\<dots> = [a]" by (simp add: slot_addItem[OF wf0] storeItem_Nil)
      finally show ?thesis using sb ab by (simp add: storeItem_def)
    next
      case False
      have "slot b (addItem eq a ?t0) = slot b ?t0"
        unfolding slot_def using False
        by (simp add: addItem_def getBucket_addItemRec_other)
      then have "slot b (addItem eq a ?t0) = []" by simp
      then show ?thesis using sb by (simp add: storeItem_Nil)
    qed
  qed
  from inv s two show ?thesis
    by (auto simp: item_in_storeItem storeItem_def list_ex_iff)
qed

theorem addItem_last_write_wins_witness:
  "featurePropertiesTableDef \<noteq> [] \<and> symp (FeatureProperty_equals :: FeatureProperty \<Rightarrow> FeatureProperty \<Rightarrow> bool) \<and>
   transp (FeatureProperty_equals :: FeatureProperty \<Rightarrow> FeatureProperty \<Rightarrow> bool) \<and>
   FeatureProperty_equals exampleProperty1 exampleProperty2 \<and>
   slot exampleProperty2
     (addItem FeatureProperty_equals exampleProperty2
        (addItem FeatureProperty_equals exampleProperty1 (newIAMMapTable featurePropertiesTableDef))) =
     [exampleProperty2]"
proof -
  have pk: "featurePropertiesTableDef \<noteq> []" by (simp add: featurePropertiesTableDef_def)
  have e: "FeatureProperty_equals exampleProperty1 exampleProperty2"
    by (simp add: FeatureProperty_equals_def exampleProperty1_def exampleProperty2_def)
  from addItem_last_write_wins[OF pk symp_FeatureProperty_equals transp_FeatureProperty_equals refl,
      of "[]" exampleProperty1 exampleProperty1 exampleProperty2] e
  have "slot exampleProperty2
     (addItem FeatureProperty_equals exampleProperty2
        (addItem FeatureProperty_equals exampleProperty1 (newIAMMapTable featurePropertiesTableDef))) =
     [exampleProperty2]" by blast
  with pk e symp_FeatureProperty_equals transp_FeatureProperty_equals show ?thesis by blast
qed

subsection \<open>Attributes that differ are both kept\<close>

text \<open>
  Claim C4. Two \<open>FeatureAttribute\<close> records with the same feature type, feature id and
  property name that differ in the value or in one of the six date fields are not
  \<open>equals\<close> (in either direction), and after inserting both into an attributes table both
  are among its records: neither overwrites the other.
\<close>

theorem FeatureAttribute_differing_both_retained:
  assumes "featureType a = featureType b" and "featureId a = featureId b"
    and "propertyName a = propertyName b"
    and "propertyValue a \<noteq> propertyValue b \<or> fromYear a \<noteq> fromYear b \<or>
         fromMonth a \<noteq> fromMonth b \<or> fromDay a \<noteq> fromDay b \<or> toYear a \<noteq> toYear b \<or>
         toMonth a \<noteq> toMonth b \<or> toDay a \<noteq> toDay b"
    and "wfTable t" and "primaryKeys t = featureAttributesTableDef"
    and "t' = addItem FeatureAttribute_equals b (addItem FeatureAttribute_equals a t)"
  shows "\<not> FeatureAttribute_equals a b \<and> \<not> FeatureAttribute_equals b a \<and>
         a \<in> set (getAllItems [None, None, None, None] t') \<and>
         b \<in> set (getAllItems [None, None, None, None] t')"
proof -
  have ne: "\<not> FeatureAttribute_equals a b" "\<not> FeatureAttribute_equals b a"
    using assms(4) by (auto simp: FeatureAttribute_equals_def)
  have wf1: "wfTable (addItem FeatureAttribute_equals a t)" by (rule wfTable_addItem[OF assms(5)])
  have wf': "wfTable t'" unfolding assms(7) by (rule wfTable_addItem[OF wf1])
  have "length [None, None, None, None :: (key \<Rightarrow> bool) option] = length (primaryKeys t')"
    by (simp add: assms(6,7) featureAttributesTableDef_def)
  then have all: "getAllItems [None, None, None, None] t' = allItems (mapTable t')"
    by (intro getAllItems_all[OF wf']) simp_all
  have "a \<in> set (allItems (mapTable (addItem FeatureAttribute_equals a t)))"
    by (rule item_in_addItem[OF assms(5)])
  from kept_in_addItem[where eq = FeatureAttribute_equals and x = b and y = a, OF this ne(1)] have a: "a \<in> set (allItems (mapTable t'))"
    unfolding assms(7) .
  have b: "b \<in> set (allItems (mapTable t'))"
    unfolding assms(7) by (rule item_in_addItem[OF wf1])
  from ne a b all show ?thesis by simp
qed

theorem FeatureAttribute_differing_both_retained_witness:
  "\<not> FeatureAttribute_equals exampleAttribute1 exampleAttribute2 \<and>
   exampleAttribute1 \<in> set (getAllItems [None, None, None, None]
      (addItem FeatureAttribute_equals exampleAttribute2 exampleAttributesTable)) \<and>
   exampleAttribute2 \<in> set (getAllItems [None, None, None, None]
      (addItem FeatureAttribute_equals exampleAttribute2 exampleAttributesTable))"
proof -
  have "fromYear exampleAttribute1 \<noteq> fromYear exampleAttribute2"
    by (simp add: exampleAttribute1_def exampleAttribute2_def)
  then show ?thesis
    using FeatureAttribute_differing_both_retained[of exampleAttribute1 exampleAttribute2
        "newIAMMapTable featureAttributesTableDef"
        "addItem FeatureAttribute_equals exampleAttribute2 exampleAttributesTable"]
      wfTable_new[of featureAttributesTableDef]
    by (simp add: exampleAttributesTable_def exampleAttribute1_def exampleAttribute2_def
        featureAttributesTableDef_def)
qed

subsection \<open>Filter arrays of the wrong length\<close>

text \<open>
  Claim C6, as amended. With a filter array whose length is not the number of primary
  keys, \<open>getAllItems\<close> returns the empty list (and raises nothing). \<open>getAllKeys\<close> has no
  such check: with \<open>m\<close> filters, \<open>1 \<le> m \<le> N\<close>, it returns without error the distinct keys
  found at level \<open>m\<close> of the branches that pass the filters, which need not be empty.
\<close>

theorem getAllItems_arity_getAllKeys_level:
  "(length fs \<noteq> length (primaryKeys t) \<longrightarrow> getAllItems fs t = []) \<and>
   (wfTable t \<and> fs \<noteq> [] \<and> length fs \<le> length (primaryKeys t) \<longrightarrow>
      (\<exists>ks. getAllKeys fs t = Inr ks \<and> distinct ks \<and> set ks = set (levelKeys fs (mapTable t))))"
proof (intro conjI impI)
  assume "length fs \<noteq> length (primaryKeys t)"
  then show "getAllItems fs t = []" by (simp add: getAllItems_def)
next
  assume a: "wfTable t \<and> fs \<noteq> [] \<and> length fs \<le> length (primaryKeys t)"
  then have "shaped (length (primaryKeys t)) (mapTable t)" by (simp add: wfTable_def)
  from getAllKeysRec_levelKeys[OF this, of fs "[]"] a
  show "\<exists>ks. getAllKeys fs t = Inr ks \<and> distinct ks \<and> set ks = set (levelKeys fs (mapTable t))"
    by (auto simp: getAllKeys_def)
qed

theorem getAllItems_arity_getAllKeys_level_witness:
  "getAllItems [None, None, None] exampleAttributesTable = [] \<and>
   (\<exists>ks. getAllKeys [None, None, None] exampleAttributesTable = Inr ks \<and> distinct ks \<and>
      set ks = {KStr ''status''})"
  using getAllItems_arity_getAllKeys_level[of "[None, None, None]" exampleAttributesTable]
    wfTable_exampleAttributesTable
  by (simp add: exampleAttributesTable_eval passes_def)
     (simp add: exampleAttributesTable_def featureAttributesTableDef_def)

text \<open>
  The claim as stated fails for \<open>getAllKeys\<close>: on an attributes table (four primary keys)
  holding one record, three filters give the attribute name, and six filters raise a
  \<open>TypeError\<close>.
\<close>

theorem getAllKeys_wrong_arity_counterexample:
  "length [None, None, None :: (key \<Rightarrow> bool) option] \<noteq> length (primaryKeys exampleAttributesTable) \<and>
   getAllKeys [None, None, None] exampleAttributesTable = Inr [KStr ''status''] \<and>
   length [None, None, None, None, None, None :: (key \<Rightarrow> bool) option]
     \<noteq> length (primaryKeys exampleAttributesTable) \<and>
   getAllKeys [None, None, None, None, None, None] exampleAttributesTable = Inl TypeError"
  by (simp add: getAllKeys_def exampleAttributesTable_eval isLast_def currentFilter_def passes_def setKey_def)
     (simp add: exampleAttributesTable_def featureAttributesTableDef_def)

section \<open>Properties of the store\<close>

subsection \<open>The year range of an empty attributes table\<close>

text \<open>
  Claim C10. For a store whose attributes table holds no record,
  \<open>getAttributesMinimumYear\<close> and \<open>getAttributesMaximumYear\<close> both return \<open>undefined\<close>,
  whatever the current year is: the current year computed in the branch for the empty
  list is not returned, and the first entry of the sorted empty list is \<open>undefined\<close>.
\<close>

theorem getAttributesYears_empty:
  assumes "getAllItems [None, None, None, None] (featureAttributes st) = []"
  shows "getAttributesMinimumYear currentYear st = None \<and>
         getAttributesMaximumYear currentYear st = None"
  using assms
  by (simp add: getAttributesMinimumYear_def getAttributesMaximumYear_def sortYears_def firstYear_def)

theorem getAttributesYears_empty_witness:
  "getAllItems [None, None, None, None] (featureAttributes (init english)) = [] \<and>
   getAttributesMinimumYear 2026 (init english) = None \<and>
   getAttributesMaximumYear 2026 (init english) = None"
proof -
  have e: "getAllItems [None, None, None, None] (featureAttributes (init english)) = []"
    by (simp add: init_def getAllItems_def newIAMMapTable_def featureAttributesTableDef_def)
  from getAttributesYears_empty[OF e, of 2026] e show ?thesis by simp
qed

subsection \<open>Features found by the loaders\<close>

lemma buckets_nonempty_addItemRec:
  assumes "\<forall>B \<in> set (buckets node). B \<noteq> []"
  shows "\<forall>B \<in> set (buckets (addItemRec eq pks x node)). B \<noteq> []"
proof
  fix B assume "B \<in> set (buckets (addItemRec eq pks x node))"
  from buckets_addItemRec[OF this] assms show "B \<noteq> []"
    by (auto simp: storeItem_def split: if_splits)
qed

lemma getItemRec_modifyItemRec:
  "(getItemRec vs (modifyItemRec ks f node) = Undefined) = (getItemRec vs node = Undefined)"
proof (induction ks f node arbitrary: vs rule: modifyItemRec.induct)
  case (1 f x xs)
  then show ?case by (cases vs) simp_all
next
  case (2 k ks f m)
  show ?case
  proof (cases "mapGet m k")
    case None
    then show ?thesis by simp
  next
    case (Some child)
    show ?thesis
    proof (cases vs)
      case Nil
      then show ?thesis by simp
    next
      case (Cons v vs')
      show ?thesis
      proof (cases "v = k")
        case False
        with Some Cons show ?thesis by (simp add: mapGet_mapSet)
      next
        case True
        with Some Cons 2[OF Some, of vs'] show ?thesis
          by (auto simp: mapGet_mapSet split: node.splits list.splits)
      qed
    qed
  qed
qed simp_all

lemma shaped_modifyItemRec: "shaped n node \<Longrightarrow> shaped n (modifyItemRec ks f node)"
proof (induction ks f node arbitrary: n rule: modifyItemRec.induct)
  case (1 f x xs)
  then show ?case by (cases n) simp_all
next
  case (2 k ks f m)
  from 2(2) obtain n' where n: "n = Suc n'" by (cases n) auto
  show ?case
  proof (cases "mapGet m k")
    case None
    with 2 show ?thesis by simp
  next
    case (Some child)
    with 2(2) n have "shaped n' child" using mapGet_Some_in[OF Some] by force
    from 2(1)[OF Some this] 2(2) Some n show ?thesis
      by (simp del: shaped.simps(2)) (rule shaped_Level_mapSet, simp_all del: shaped.simps(2))
  qed
qed simp_all

lemma buckets_modifyItemRec:
  "B \<in> set (buckets (modifyItemRec ks f node)) \<Longrightarrow>
     B \<in> set (buckets node) \<or> (\<exists>x xs. B = f x # xs)"
proof (induction ks f node arbitrary: B rule: modifyItemRec.induct)
  case (2 k ks f m)
  show ?case
  proof (cases "mapGet m k")
    case None
    with 2 show ?thesis by simp
  next
    case (Some child)
    from mapSet_Some[OF Some, of "modifyItemRec ks f child"] obtain m1 m2 where
      m: "m = m1 @ (k, child) # m2"
      "mapSet k (modifyItemRec ks f child) m = m1 @ (k, modifyItemRec ks f child) # m2"
      by blast
    with 2(2) Some have "B \<in> set (buckets (Level m)) \<or> B \<in> set (buckets (modifyItemRec ks f child))"
      by auto
    with 2(1)[OF Some, of B] m(1) show ?thesis by auto
  qed
qed auto

lemma buckets_nonempty_modifyItemRec:
  assumes "\<forall>B \<in> set (buckets node). B \<noteq> []"
  shows "\<forall>B \<in> set (buckets (modifyItemRec ks f node)). B \<noteq> []"
proof
  fix B assume "B \<in> set (buckets (modifyItemRec ks f node))"
  from buckets_modifyItemRec[OF this] assms show "B \<noteq> []" by auto
qed

lemma mapGet_map_snd:
  "mapGet (map (\<lambda>entry. (fst entry, g (snd entry))) m) k = map_option g (mapGet m k)"
  unfolding mapGet_def by (induction m) auto

lemma getItemRec_mapItems:
  "(getItemRec vs (mapItems f node) = Undefined) = (getItemRec vs node = Undefined)"
proof (induction vs node rule: getItemRec.induct)
  case (1 v vs m)
  show ?case
  proof (cases "mapGet m v")
    case None
    then show ?thesis by (simp add: mapGet_map_snd)
  next
    case (Some found)
    with 1[OF Some] show ?thesis
      by (cases found) (auto simp: mapGet_map_snd split: list.splits)
  qed
qed simp_all

lemma shaped_mapItems: "shaped n node \<Longrightarrow> shaped n (mapItems f node)"
  by (induction n node rule: shaped.induct) auto

lemma buckets_mapItems: "buckets (mapItems f node) = map (map f) (buckets node)"
proof (induction f node rule: mapItems.induct)
  case (2 f m)
  then show ?case by (induction m) (auto simp: map_concat)
qed simp

lemma getItemRec_shaped2:
  assumes "shaped 2 node" "\<forall>B \<in> set (buckets node). B \<noteq> []"
  shows "getItemRec [a, b] node = Undefined \<or> (\<exists>f. getItemRec [a, b] node = Item f)"
proof -
  from assms(1) obtain m where node: "node = Level m"
    by (cases node) (simp_all add: numeral_2_eq_2)
  show ?thesis
  proof (cases "mapGet m a")
    case None
    with node show ?thesis by simp
  next
    case (Some c)
    from mapGet_Some_in[OF Some] assms(1) node have sc: "shaped 1 c"
      by (force simp: numeral_2_eq_2)
    then obtain m' where c: "c = Level m'" by (cases c) simp_all
    show ?thesis
    proof (cases "mapGet m' b")
      case None
      with node Some c show ?thesis by simp
    next
      case (Some found)
      from mapGet_Some_in[OF Some] sc c have "shaped 0 found" by force
      then obtain xs where f: "found = Bucket xs" by (cases found) simp_all
      from mapGet_Some_in[OF Some] mapGet_Some_in[OF \<open>mapGet m a = Some c\<close>] node c f
      have "xs \<in> set (buckets node)" by force
      with assms(2) have "xs \<noteq> []" by auto
      with node \<open>mapGet m a = Some c\<close> c Some f show ?thesis
        by (cases xs) simp_all
    qed
  qed
qed

lemma details_addDetail [simp]: "details (addDetail g s d pr) = details pr @ [d]"
  by (simp add: addDetail_def Let_def)

lemma details_fold_addDetail:
  "details (fold (\<lambda>a. addDetail g s (m a)) xs pr) = details pr @ map m xs"
  by (induction xs arbitrary: pr) simp_all

lemma status_addDetail_WARN [simp]: "status (addDetail g WARN d pr) = warned (status pr)"
  by (cases "status pr") (simp_all add: addDetail_def Let_def warned_def)

lemma warned_warned [simp]: "warned (warned s) = warned s"
  by (simp add: warned_def)

lemma status_fold_addDetail_WARN:
  "status (fold (\<lambda>a. addDetail g WARN (m a)) xs pr) = (if xs = [] then status pr else warned (status pr))"
  by (induction xs arbitrary: pr) simp_all

lemma getFeature_cases:
  assumes "storeOk st"
  shows "getFeature ft fid st = Undefined \<or> (\<exists>f. getFeature ft fid st = Item f)"
  using assms getItemRec_shaped2[of "mapTable (features st)"]
  by (simp add: storeOk_def getFeature_def getItem_def)

lemma shaped_addItem:
  "length (primaryKeys t) = n \<Longrightarrow> shaped n (mapTable t) \<Longrightarrow> shaped n (mapTable (addItem eq x t))"
  using shaped_addItemRec[of "primaryKeys t" "mapTable t" eq x] by (auto simp: addItem_def)

lemma length_tableDefs [simp]:
  "length featuresTableDef = 2" "length featureAttributesTableDef = 4"
  "length featurePropertiesTableDef = 3" "length featureSettingsTableDef = 4"
  by (simp_all add: featuresTableDef_def featureAttributesTableDef_def
      featurePropertiesTableDef_def featureSettingsTableDef_def)

lemma storeOk_loadAttribute_Item:
  assumes "storeOk st"
  shows "storeOk (st\<lparr>featureAttributes := addItem FeatureAttribute_equals a (featureAttributes st),
                     features := modifyItem ks f (features st)\<rparr>)"
proof -
  have "shaped 4 (mapTable (addItem FeatureAttribute_equals a (featureAttributes st)))"
    using assms by (intro shaped_addItem) (simp_all add: storeOk_def)
  with assms show ?thesis
    using buckets_nonempty_modifyItemRec[of "mapTable (features st)" ks f]
    by (simp add: storeOk_def modifyItem_def shaped_modifyItemRec)
qed

lemma storeOk_loadProperty_Item:
  assumes "storeOk st"
  shows "storeOk (st\<lparr>featureProperties := addItem FeatureProperty_equals p (featureProperties st),
                     features := modifyItem ks f (features st)\<rparr>)"
proof -
  have "shaped 3 (mapTable (addItem FeatureProperty_equals p (featureProperties st)))"
    using assms by (intro shaped_addItem) (simp_all add: storeOk_def)
  with assms show ?thesis
    using buckets_nonempty_modifyItemRec[of "mapTable (features st)" ks f]
    by (simp add: storeOk_def modifyItem_def shaped_modifyItemRec)
qed

lemma getFeature_modifyItem:
  "(getFeature ft fid (st\<lparr>features := modifyItem ks f (features st)\<rparr>) = Undefined) =
   (getFeature ft fid st = Undefined)"
  by (simp add: getFeature_def getItem_def modifyItem_def getItemRec_modifyItemRec)

lemma getFeature_other_tables [simp]:
  "getFeature ft fid (st\<lparr>featureAttributes := ta\<rparr>) = getFeature ft fid st"
  "getFeature ft fid (st\<lparr>featureProperties := tp\<rparr>) = getFeature ft fid st"
  "getFeature ft fid (st\<lparr>featureSettings := ts\<rparr>) = getFeature ft fid st"
  by (simp_all add: getFeature_def)

lemma forEachTry_loadAttribute:
  assumes "storeOk st"
  shows "\<exists>st'. forEachTry (loadAttribute g) as (st, pr, c) =
           Inr (st',
                fold (\<lambda>a. addDetail g WARN (attributeWarning g a)) (filter (\<lambda>a. featureMissing a st) as) pr,
                c + length (filter (\<lambda>a. \<not> featureMissing a st) as)) \<and>
         storeOk st' \<and>
         featureAttributes st' =
           fold (addItem FeatureAttribute_equals) (filter (\<lambda>a. \<not> featureMissing a st) as) (featureAttributes st) \<and>
         (\<forall>ft fid. (getFeature ft fid st' = Undefined) = (getFeature ft fid st = Undefined)) \<and>
         featureProperties st' = featureProperties st \<and> featureSettings st' = featureSettings st"
  using assms
proof (induction as arbitrary: st pr c)
  case Nil
  then show ?case by simp
next
  case (Cons a as)
  from getFeature_cases[OF Cons.prems, of "featureType a" "featureId a"]
  show ?case
  proof
    assume u: "getFeature (featureType a) (featureId a) st = Undefined"
    then have step: "loadAttribute g a (st, pr, c) = Inr (st, addDetail g WARN (attributeWarning g a) pr, c)"
      by (simp add: loadAttribute_def attributeWarning_def)
    from Cons.IH[OF Cons.prems, of "addDetail g WARN (attributeWarning g a) pr" c] u step
    show ?thesis by (simp add: featureMissing_def)
  next
    assume "\<exists>f. getFeature (featureType a) (featureId a) st = Item f"
    then obtain f where i: "getFeature (featureType a) (featureId a) st = Item f" by blast
    let ?st1 = "st\<lparr>featureAttributes := addItem FeatureAttribute_equals a (featureAttributes st),
                     features := modifyItem [KNum (ftNum (featureType a)), KStr (featureId a)]
                                   (addAttribute a) (features st)\<rparr>"
    have step: "loadAttribute g a (st, pr, c) = Inr (?st1, pr, c + 1)"
      using i by (simp add: loadAttribute_def)
    have ok1: "storeOk ?st1" by (rule storeOk_loadAttribute_Item[OF Cons.prems])
    have same: "\<And>ft fid. (getFeature ft fid ?st1 = Undefined) = (getFeature ft fid st = Undefined)"
      using getFeature_modifyItem[where st = "st\<lparr>featureAttributes := addItem FeatureAttribute_equals a (featureAttributes st)\<rparr>"]
      by simp
    then have fm: "\<And>x :: FeatureAttribute. featureMissing x ?st1 = featureMissing x st"
      by (simp add: featureMissing_def)
    from Cons.IH[OF ok1, of pr "c + 1"] obtain st' where
      st': "forEachTry (loadAttribute g) as (?st1, pr, c + 1) =
           Inr (st',
                fold (\<lambda>a. addDetail g WARN (attributeWarning g a)) (filter (\<lambda>a. featureMissing a ?st1) as) pr,
                c + 1 + length (filter (\<lambda>a. \<not> featureMissing a ?st1) as))"
        "storeOk st'"
        "featureAttributes st' =
           fold (addItem FeatureAttribute_equals) (filter (\<lambda>a. \<not> featureMissing a ?st1) as) (featureAttributes ?st1)"
        "\<forall>ft fid. (getFeature ft fid st' = Undefined) = (getFeature ft fid ?st1 = Undefined)"
        "featureProperties st' = featureProperties ?st1" "featureSettings st' = featureSettings ?st1"
      by blast
    have nm: "\<not> featureMissing a st" using i by (simp add: featureMissing_def)
    from st' step nm same show ?thesis
      by (simp only: fm) (simp add: fm)
  qed
qed

lemma forEachTry_loadProperty:
  assumes "storeOk st"
  shows "\<exists>st'. forEachTry (loadProperty g) ps (st, pr, c) =
           Inr (st',
                fold (\<lambda>p. addDetail g WARN (propertyWarning g p)) (filter (\<lambda>p. featureMissing p st) ps) pr,
                c + length (filter (\<lambda>p. \<not> featureMissing p st) ps)) \<and>
         storeOk st' \<and>
         featureProperties st' =
           fold (addItem FeatureProperty_equals) (filter (\<lambda>p. \<not> featureMissing p st) ps) (featureProperties st) \<and>
         (\<forall>ft fid. (getFeature ft fid st' = Undefined) = (getFeature ft fid st = Undefined)) \<and>
         featureAttributes st' = featureAttributes st \<and> featureSettings st' = featureSettings st"
  using assms
proof (induction ps arbitrary: st pr c)
  case Nil
  then show ?case by simp
next
  case (Cons a as)
  from getFeature_cases[OF Cons.prems, of "featureType a" "featureId a"]
  show ?case
  proof
    assume u: "getFeature (featureType a) (featureId a) st = Undefined"
    then have step: "loadProperty g a (st, pr, c) = Inr (st, addDetail g WARN (propertyWarning g a) pr, c)"
      by (simp add: loadProperty_def propertyWarning_def)
    from Cons.IH[OF Cons.prems, of "addDetail g WARN (propertyWarning g a) pr" c] u step
    show ?thesis by (simp add: featureMissing_def)
  next
    assume "\<exists>f. getFeature (featureType a) (featureId a) st = Item f"
    then obtain f where i: "getFeature (featureType a) (featureId a) st = Item f" by blast
    let ?st1 = "st\<lparr>featureProperties := addItem FeatureProperty_equals a (featureProperties st),
                     features := modifyItem [KNum (ftNum (featureType a)), KStr (featureId a)]
                                   (addProperty (propertyName a) (PVal (JStr (propertyValue a)))) (features st)\<rparr>"
    have step: "loadProperty g a (st, pr, c) = Inr (?st1, pr, c + 1)"
      using i by (simp add: loadProperty_def)
    have ok1: "storeOk ?st1" by (rule storeOk_loadProperty_Item[OF Cons.prems])
    have same: "\<And>ft fid. (getFeature ft fid ?st1 = Undefined) = (getFeature ft fid st = Undefined)"
      using getFeature_modifyItem[where st = "st\<lparr>featureProperties := addItem FeatureProperty_equals a (featureProperties st)\<rparr>"]
      by simp
    then have fm: "\<And>x :: FeatureProperty. featureMissing x ?st1 = featureMissing x st"
      by (simp add: featureMissing_def)
    from Cons.IH[OF ok1, of pr "c + 1"] obtain st' where
      st': "forEachTry (loadProperty g) as (?st1, pr, c + 1) =
           Inr (st',
                fold (\<lambda>p. addDetail g WARN (propertyWarning g p)) (filter (\<lambda>p. featureMissing p ?st1) as) pr,
                c + 1 + length (filter (\<lambda>p. \<not> featureMissing p ?st1) as))"
        "storeOk st'"
        "featureProperties st' =
           fold (addItem FeatureProperty_equals) (filter (\<lambda>p. \<not> featureMissing p ?st1) as) (featureProperties ?st1)"
        "\<forall>ft fid. (getFeature ft fid st' = Undefined) = (getFeature ft fid ?st1 = Undefined)"
        "featureAttributes st' = featureAttributes ?st1" "featureSettings st' = featureSettings ?st1"
      by blast
    have nm: "\<not> featureMissing a st" using i by (simp add: featureMissing_def)
    from st' step nm same show ?thesis
      by (simp only: fm) (simp add: fm)
  qed
qed

lemma storeOk_forEachItem:
  assumes "storeOk st"
  shows "storeOk (st\<lparr>features := forEachItem [None, None] f (features st)\<rparr>)"
  using assms by (simp add: storeOk_def forEachItem_def shaped_mapItems buckets_mapItems)

lemma getFeature_forEachItem:
  "(getFeature ft fid (st\<lparr>features := forEachItem fs f (features st)\<rparr>) = Undefined) =
   (getFeature ft fid st = Undefined)"
  by (simp add: getFeature_def getItem_def forEachItem_def getItemRec_mapItems)

lemma shaped_new: "0 < n \<Longrightarrow> shaped n (mapTable (newIAMMapTable pks))"
  by (cases n) (simp_all add: newIAMMapTable_def)

lemma storeOk_dropAttributes:
  assumes "storeOk st"
  shows "storeOk (st\<lparr>featureAttributes := newIAMMapTable featureAttributesTableDef,
                     features := forEachItem [None, None] f (features st)\<rparr>)"
proof -
  have "shaped 4 (mapTable (newIAMMapTable featureAttributesTableDef))"
    by (rule shaped_new) simp
  with storeOk_forEachItem[OF assms, of f] show ?thesis by (simp add: storeOk_def)
qed

lemma storeOk_dropProperties:
  assumes "storeOk st"
  shows "storeOk (st\<lparr>featureProperties := newIAMMapTable featurePropertiesTableDef,
                     features := forEachItem [None, None] f (features st)\<rparr>)"
proof -
  have "shaped 3 (mapTable (newIAMMapTable featurePropertiesTableDef))"
    by (rule shaped_new) simp
  with storeOk_forEachItem[OF assms, of f] show ?thesis by (simp add: storeOk_def)
qed

lemma loadFeaturesAttributes_result:
  assumes "storeOk st"
  shows "\<exists>st'. loadFeaturesAttributes g ds it pr st =
           (st', addDetail g INFO
                   (natToString (length (filter (\<lambda>a. \<not> featureMissing a st) (getFeaturesAttributes ds)))
                      @ g '' feature attributes successfully loaded into database.'')
                   (fold (\<lambda>a. addDetail g WARN (attributeWarning g a))
                      (filter (\<lambda>a. featureMissing a st) (getFeaturesAttributes ds)) pr)) \<and>
         storeOk st' \<and>
         featureAttributes st' =
           fold (addItem FeatureAttribute_equals)
             (filter (\<lambda>a. \<not> featureMissing a st) (getFeaturesAttributes ds))
             (if it = DROPTABLE then newIAMMapTable featureAttributesTableDef else featureAttributes st) \<and>
         featureProperties st' = featureProperties st \<and> featureSettings st' = featureSettings st"
proof -
  let ?st1 = "if it = DROPTABLE
              then st\<lparr>featureAttributes := newIAMMapTable featureAttributesTableDef,
                      features := forEachItem [None, None] clearAttributes (features st)\<rparr>
              else st"
  have ok1: "storeOk ?st1" using assms storeOk_dropAttributes[OF assms] by simp
  have same: "\<And>ft fid. (getFeature ft fid ?st1 = Undefined) = (getFeature ft fid st = Undefined)"
    using getFeature_forEachItem[where st = "st\<lparr>featureAttributes := newIAMMapTable featureAttributesTableDef\<rparr>"]
    by simp
  then have fm: "\<And>x :: FeatureAttribute. featureMissing x ?st1 = featureMissing x st"
    by (simp add: featureMissing_def)
  from forEachTry_loadAttribute[OF ok1, of g "getFeaturesAttributes ds" pr 0] obtain st' where
    st': "forEachTry (loadAttribute g) (getFeaturesAttributes ds) (?st1, pr, 0) =
           Inr (st',
                fold (\<lambda>a. addDetail g WARN (attributeWarning g a)) (filter (\<lambda>a. featureMissing a ?st1) (getFeaturesAttributes ds)) pr,
                0 + length (filter (\<lambda>a. \<not> featureMissing a ?st1) (getFeaturesAttributes ds)))"
      "storeOk st'"
      "featureAttributes st' =
           fold (addItem FeatureAttribute_equals) (filter (\<lambda>a. \<not> featureMissing a ?st1) (getFeaturesAttributes ds)) (featureAttributes ?st1)"
      "featureProperties st' = featureProperties ?st1" "featureSettings st' = featureSettings ?st1"
    by blast
  have "loadFeaturesAttributes g ds it pr st =
           (st', addDetail g INFO
                   (natToString (length (filter (\<lambda>a. \<not> featureMissing a st) (getFeaturesAttributes ds)))
                      @ g '' feature attributes successfully loaded into database.'')
                   (fold (\<lambda>a. addDetail g WARN (attributeWarning g a))
                      (filter (\<lambda>a. featureMissing a st) (getFeaturesAttributes ds)) pr))"
    using st'(1) unfolding loadFeaturesAttributes_def Let_def fm by simp
  moreover have "featureAttributes st' =
           fold (addItem FeatureAttribute_equals)
             (filter (\<lambda>a. \<not> featureMissing a st) (getFeaturesAttributes ds))
             (if it = DROPTABLE then newIAMMapTable featureAttributesTableDef else featureAttributes st)"
    using st'(3) unfolding fm by (cases "it = DROPTABLE") simp_all
  moreover have "featureProperties st' = featureProperties st" "featureSettings st' = featureSettings st"
    using st'(4,5) by (cases "it = DROPTABLE"; simp)+
  ultimately show ?thesis using st'(2) by blast
qed

lemma loadFeaturesProperties_result:
  assumes "storeOk st"
  shows "\<exists>st'. loadFeaturesProperties g ds it pr st =
           (st', addDetail g INFO
                   (natToString (length (filter (\<lambda>p. \<not> featureMissing p st) (getFeaturesProperties ds)))
                      @ g '' feature properties successfully loaded into database.'')
                   (fold (\<lambda>p. addDetail g WARN (propertyWarning g p))
                      (filter (\<lambda>p. featureMissing p st) (getFeaturesProperties ds)) pr)) \<and>
         storeOk st' \<and>
         featureProperties st' =
           fold (addItem FeatureProperty_equals)
             (filter (\<lambda>p. \<not> featureMissing p st) (getFeaturesProperties ds))
             (if it = DROPTABLE then newIAMMapTable featurePropertiesTableDef else featureProperties st) \<and>
         featureAttributes st' = featureAttributes st \<and> featureSettings st' = featureSettings st"
proof -
  let ?st1 = "if it = DROPTABLE
              then st\<lparr>featureProperties := newIAMMapTable featurePropertiesTableDef,
                      features := forEachItem [None, None] clearProperties (features st)\<rparr>
              else st"
  have ok1: "storeOk ?st1" using assms storeOk_dropProperties[OF assms] by simp
  have same: "\<And>ft fid. (getFeature ft fid ?st1 = Undefined) = (getFeature ft fid st = Undefined)"
    using getFeature_forEachItem[where st = "st\<lparr>featureProperties := newIAMMapTable featurePropertiesTableDef\<rparr>"]
    by simp
  then have fm: "\<And>x :: FeatureProperty. featureMissing x ?st1 = featureMissing x st"
    by (simp add: featureMissing_def)
  from forEachTry_loadProperty[OF ok1, of g "getFeaturesProperties ds" pr 0] obtain st' where
    st': "forEachTry (loadProperty g) (getFeaturesProperties ds) (?st1, pr, 0) =
           Inr (st',
                fold (\<lambda>p. addDetail g WARN (propertyWarning g p)) (filter (\<lambda>p. featureMissing p ?st1) (getFeaturesProperties ds)) pr,
                0 + length (filter (\<lambda>p. \<not> featureMissing p ?st1) (getFeaturesProperties ds)))"
      "storeOk st'"
      "featureProperties st' =
           fold (addItem FeatureProperty_equals) (filter (\<lambda>p. \<not> featureMissing p ?st1) (getFeaturesProperties ds)) (featureProperties ?st1)"
      "featureAttributes st' = featureAttributes ?st1" "featureSettings st' = featureSettings ?st1"
    by blast
  have "loadFeaturesProperties g ds it pr st =
           (st', addDetail g INFO
                   (natToString (length (filter (\<lambda>p. \<not> featureMissing p st) (getFeaturesProperties ds)))
                      @ g '' feature properties successfully loaded into database.'')
                   (fold (\<lambda>p. addDetail g WARN (propertyWarning g p))
                      (filter (\<lambda>p. featureMissing p st) (getFeaturesProperties ds)) pr))"
    using st'(1) unfolding loadFeaturesProperties_def Let_def fm by simp
  moreover have "featureProperties st' =
           fold (addItem FeatureProperty_equals)
             (filter (\<lambda>p. \<not> featureMissing p st) (getFeaturesProperties ds))
             (if it = DROPTABLE then newIAMMapTable featurePropertiesTableDef else featureProperties st)"
    using st'(3) unfolding fm by (cases "it = DROPTABLE") simp_all
  moreover have "featureAttributes st' = featureAttributes st" "featureSettings st' = featureSettings st"
    using st'(4,5) by (cases "it = DROPTABLE"; simp)+
  ultimately show ?thesis using st'(2) by blast
qed

lemma shaped_fold_addItem:
  "length (primaryKeys t) = n \<Longrightarrow> shaped n (mapTable t) \<Longrightarrow>
   shaped n (mapTable (fold (addItem eq) xs t)) \<and> primaryKeys (fold (addItem eq) xs t) = primaryKeys t"
  by (induction xs arbitrary: t) (simp_all add: shaped_addItem)

lemma buckets_nonempty_fold_addItem:
  "\<forall>B \<in> set (buckets (mapTable t)). B \<noteq> [] \<Longrightarrow>
   \<forall>B \<in> set (buckets (mapTable (fold (addItem eq) xs t))). B \<noteq> []"
proof (induction xs arbitrary: t)
  case Nil
  then show ?case by simp
next
  case (Cons x xs)
  have "\<forall>B \<in> set (buckets (mapTable (addItem eq x t))). B \<noteq> []"
    using buckets_nonempty_addItemRec[OF Cons.prems] by (simp add: addItem_def)
  from Cons.IH[OF this] show ?case by simp
qed

lemma storeOk_settings:
  assumes "storeOk st" "primaryKeys t = featureSettingsTableDef" "shaped 4 (mapTable t)"
  shows "storeOk (st\<lparr>featureSettings := t\<rparr>)"
  using assms by (simp add: storeOk_def)

lemma initStandardSettings_shape:
  assumes "primaryKeys t = featureSettingsTableDef" "shaped 4 (mapTable t)"
  shows "primaryKeys (initStandardSettings g t) = featureSettingsTableDef \<and>
         shaped 4 (mapTable (initStandardSettings g t))"
  using assms by (simp add: initStandardSettings_def shaped_addItem)

lemma storeOk_init: "storeOk (init g)"
proof -
  have "shaped 4 (mapTable (newIAMMapTable featureSettingsTableDef))" by (rule shaped_new) simp
  from initStandardSettings_shape[OF _ this, of g] show ?thesis
    by (simp add: storeOk_def init_def shaped_new) (simp add: newIAMMapTable_def)
qed

lemma storeOk_addSetting: "storeOk st \<Longrightarrow> storeOk (addSetting s st)"
  by (simp add: storeOk_def addSetting_def shaped_addItem)

lemma storeOk_features:
  assumes "storeOk st"
  shows "storeOk (st\<lparr>features := fold (addItem Feature_equals) xs (features st)\<rparr>)"
  using assms shaped_fold_addItem[of "features st" 2 Feature_equals xs]
    buckets_nonempty_fold_addItem[of "features st" Feature_equals xs]
  by (simp add: storeOk_def)

lemma storeOk_loadFeatures: "storeOk st \<Longrightarrow> storeOk (fst (loadFeatures g ds it pr st))"
  using storeOk_features[of "init g" "getFeatures ds"] storeOk_features[of st "getFeatures ds"]
  by (simp add: loadFeatures_def Let_def storeOk_init)

lemma storeOk_loadSettings: "storeOk st \<Longrightarrow> storeOk (fst (loadSettings g ds it pr st))"
proof -
  assume ok: "storeOk st"
  have n: "shaped 4 (mapTable (newIAMMapTable featureSettingsTableDef))" by (rule shaped_new) simp
  let ?t1 = "if it = DROPTABLE then initStandardSettings g (newIAMMapTable featureSettingsTableDef)
             else featureSettings st"
  have t1: "primaryKeys ?t1 = featureSettingsTableDef \<and> shaped 4 (mapTable ?t1)"
    using ok initStandardSettings_shape[OF _ n, of g] by (simp add: storeOk_def)
  with shaped_fold_addItem[of ?t1 4 FeatureSettings_equals "getFeaturesSettings ds"]
  have "primaryKeys (fold (addItem FeatureSettings_equals) (getFeaturesSettings ds) ?t1) = featureSettingsTableDef \<and>
        shaped 4 (mapTable (fold (addItem FeatureSettings_equals) (getFeaturesSettings ds) ?t1))"
    by simp
  with ok show ?thesis
    by (simp add: loadSettings_def Let_def storeOk_def)
qed

lemma storeOk_applyOperation: "storeOk st \<Longrightarrow> storeOk (applyOperation g op st)"
proof (cases op)
  case (LoadFeaturesProperties ds it pr)
  assume "storeOk st"
  from loadFeaturesProperties_result[OF this, of g ds it pr] LoadFeaturesProperties
  show ?thesis by auto
next
  case (LoadFeaturesAttributes ds it pr)
  assume "storeOk st"
  from loadFeaturesAttributes_result[OF this, of g ds it pr] LoadFeaturesAttributes
  show ?thesis by auto
qed (simp_all add: storeOk_addSetting storeOk_loadFeatures storeOk_loadSettings)

lemma storeOk_fold: "storeOk st \<Longrightarrow> storeOk (fold (applyOperation g) ops st)"
  by (induction ops arbitrary: st) (simp_all add: storeOk_applyOperation)

lemma storeOk_run: "storeOk (run g ops)"
  by (simp add: run_def storeOk_fold storeOk_init)

lemma natToString_digit: "n < 10 \<Longrightarrow> natToString n = [digitChar n]"
  by simp

lemma features_exampleStore:
  "mapTable (features exampleStore) =
     Level [(KNum 2, Level [(KStr ''L1'', Bucket [exampleFeature])])]"
  by (simp add: exampleStore_def run_def loadFeatures_def Let_def exampleFeaturesSource_def
      new_DataSource_def addItem_def init_def newIAMMapTable_def featuresTableDef_def
      mapGet_def mapSet_def exampleFeature_def new_ExtendedFeature_def getType_def)

lemma missing_exampleStore:
  "featureMissing strayAttribute exampleStore" "\<not> featureMissing exampleAttribute1 exampleStore"
  "featureMissing strayProperty exampleStore" "\<not> featureMissing exampleProperty3 exampleStore"
  by (simp_all add: featureMissing_def getFeature_def getItem_def features_exampleStore mapGet_def
      strayAttribute_def exampleAttribute1_def strayProperty_def exampleProperty3_def)

subsection \<open>Records that name no feature of the store\<close>

text \<open>
  Claim C5. Let \<open>st\<close> be a store reached by any sequence of operations. A bulk load by
  \<open>loadFeaturesAttributes\<close> or \<open>loadFeaturesProperties\<close> returns normally (the batch is
  never aborted). Each record of the data source whose feature is not in the features
  table adds exactly one detail, its warning, to the process result, in the order of the
  records, followed by the one detail that counts the records loaded; when there is such
  a record the status is raised to \<open>WARN\<close> (or stays \<open>ERROR\<close>). The table that results is
  the one obtained by inserting only the records whose feature is found: a record
  without feature is not inserted, and every record with a feature, before or after it,
  is.
\<close>

theorem load_skips_records_without_feature:
  assumes "st = run getMsg ops"
    and "missingA = filter (\<lambda>a. featureMissing a st) (getFeaturesAttributes ds)"
    and "foundA = filter (\<lambda>a. \<not> featureMissing a st) (getFeaturesAttributes ds)"
    and "missingP = filter (\<lambda>p. featureMissing p st) (getFeaturesProperties ds)"
    and "foundP = filter (\<lambda>p. \<not> featureMissing p st) (getFeaturesProperties ds)"
  shows "(\<exists>stA prA. loadFeaturesAttributes getMsg ds it pr st = (stA, prA) \<and>
            details prA = details pr @ map (attributeWarning getMsg) missingA
               @ [natToString (length foundA) @ getMsg '' feature attributes successfully loaded into database.''] \<and>
            (missingA \<noteq> [] \<longrightarrow> status prA = warned (status pr)) \<and>
            featureAttributes stA =
              fold (addItem FeatureAttribute_equals) foundA
                (if it = DROPTABLE then newIAMMapTable featureAttributesTableDef else featureAttributes st)) \<and>
         (\<exists>stP prP. loadFeaturesProperties getMsg ds it pr st = (stP, prP) \<and>
            details prP = details pr @ map (propertyWarning getMsg) missingP
               @ [natToString (length foundP) @ getMsg '' feature properties successfully loaded into database.''] \<and>
            (missingP \<noteq> [] \<longrightarrow> status prP = warned (status pr)) \<and>
            featureProperties stP =
              fold (addItem FeatureProperty_equals) foundP
                (if it = DROPTABLE then newIAMMapTable featurePropertiesTableDef else featureProperties st))"
proof -
  have ok: "storeOk st" unfolding assms(1) by (rule storeOk_run)
  have info: "\<And>d p. status (addDetail getMsg INFO d p) = status p"
  proof -
    fix d p show "status (addDetail getMsg INFO d p) = status p"
      by (cases "status p") (simp_all add: addDetail_def Let_def)
  qed
  from loadFeaturesAttributes_result[OF ok, of getMsg ds it pr] obtain stA where
    A: "loadFeaturesAttributes getMsg ds it pr st =
           (stA, addDetail getMsg INFO
                   (natToString (length foundA) @ getMsg '' feature attributes successfully loaded into database.'')
                   (fold (\<lambda>a. addDetail getMsg WARN (attributeWarning getMsg a)) missingA pr))"
     "featureAttributes stA =
           fold (addItem FeatureAttribute_equals) foundA
             (if it = DROPTABLE then newIAMMapTable featureAttributesTableDef else featureAttributes st)"
    unfolding assms(2,3) by blast
  from loadFeaturesProperties_result[OF ok, of getMsg ds it pr] obtain stP where
    P: "loadFeaturesProperties getMsg ds it pr st =
           (stP, addDetail getMsg INFO
                   (natToString (length foundP) @ getMsg '' feature properties successfully loaded into database.'')
                   (fold (\<lambda>p. addDetail getMsg WARN (propertyWarning getMsg p)) missingP pr))"
     "featureProperties stP =
           fold (addItem FeatureProperty_equals) foundP
             (if it = DROPTABLE then newIAMMapTable featurePropertiesTableDef else featureProperties st)"
    unfolding assms(4,5) by blast
  show ?thesis
  proof (intro conjI)
    show "\<exists>stA prA. loadFeaturesAttributes getMsg ds it pr st = (stA, prA) \<and>
            details prA = details pr @ map (attributeWarning getMsg) missingA
               @ [natToString (length foundA) @ getMsg '' feature attributes successfully loaded into database.''] \<and>
            (missingA \<noteq> [] \<longrightarrow> status prA = warned (status pr)) \<and>
            featureAttributes stA =
              fold (addItem FeatureAttribute_equals) foundA
                (if it = DROPTABLE then newIAMMapTable featureAttributesTableDef else featureAttributes st)"
      using A by (simp add: details_fold_addDetail info status_fold_addDetail_WARN)
    show "\<exists>stP prP. loadFeaturesProperties getMsg ds it pr st = (stP, prP) \<and>
            details prP = details pr @ map (propertyWarning getMsg) missingP
               @ [natToString (length foundP) @ getMsg '' feature properties successfully loaded into database.''] \<and>
            (missingP \<noteq> [] \<longrightarrow> status prP = warned (status pr)) \<and>
            featureProperties stP =
              fold (addItem FeatureProperty_equals) foundP
                (if it = DROPTABLE then newIAMMapTable featurePropertiesTableDef else featureProperties st)"
      using P by (simp add: details_fold_addDetail info status_fold_addDetail_WARN)
  qed
qed

theorem load_skips_records_without_feature_witness:
  "\<exists>stA prA stP prP.
     loadFeaturesAttributes english exampleRecordsSource OVERWRITE (new_ProcessResult INFO ''Attributes'') exampleStore
       = (stA, prA) \<and>
     details prA = [attributeWarning english strayAttribute,
                    ''1 feature attributes successfully loaded into database.''] \<and>
     status prA = WARN \<and>
     featureAttributes stA = addItem FeatureAttribute_equals exampleAttribute1 (featureAttributes exampleStore) \<and>
     loadFeaturesProperties english exampleRecordsSource OVERWRITE (new_ProcessResult INFO ''Properties'') exampleStore
       = (stP, prP) \<and>
     details prP = [propertyWarning english strayProperty,
                    ''1 feature properties successfully loaded into database.''] \<and>
     status prP = WARN \<and>
     featureProperties stP = addItem FeatureProperty_equals exampleProperty3 (featureProperties exampleStore)"
proof -
  have fa: "filter (\<lambda>a. featureMissing a exampleStore) (getFeaturesAttributes exampleRecordsSource) = [strayAttribute]"
       "filter (\<lambda>a. \<not> featureMissing a exampleStore) (getFeaturesAttributes exampleRecordsSource) = [exampleAttribute1]"
       "filter (\<lambda>p. featureMissing p exampleStore) (getFeaturesProperties exampleRecordsSource) = [strayProperty]"
       "filter (\<lambda>p. \<not> featureMissing p exampleStore) (getFeaturesProperties exampleRecordsSource) = [exampleProperty3]"
    by (simp_all add: exampleRecordsSource_def new_DataSource_def missing_exampleStore)
  from load_skips_records_without_feature[OF exampleStore_def refl refl refl refl,
      of exampleRecordsSource OVERWRITE "new_ProcessResult INFO ''Attributes''"]
  obtain stA prA where
    A: "loadFeaturesAttributes english exampleRecordsSource OVERWRITE (new_ProcessResult INFO ''Attributes'') exampleStore
       = (stA, prA)"
     "details prA = [attributeWarning english strayAttribute,
                    ''1 feature attributes successfully loaded into database.'']"
     "status prA = WARN"
     "featureAttributes stA = addItem FeatureAttribute_equals exampleAttribute1 (featureAttributes exampleStore)"
    unfolding fa by (auto simp: new_ProcessResult_def warned_def english_def digitChar_def)
  from load_skips_records_without_feature[OF exampleStore_def refl refl refl refl,
      of exampleRecordsSource OVERWRITE "new_ProcessResult INFO ''Properties''"]
  obtain stP prP where
    P: "loadFeaturesProperties english exampleRecordsSource OVERWRITE (new_ProcessResult INFO ''Properties'') exampleStore
       = (stP, prP)"
     "details prP = [propertyWarning english strayProperty,
                    ''1 feature properties successfully loaded into database.'']"
     "status prP = WARN"
     "featureProperties stP = addItem FeatureProperty_equals exampleProperty3 (featureProperties exampleStore)"
    unfolding fa by (auto simp: new_ProcessResult_def warned_def english_def digitChar_def)
  from A P show ?thesis by blast
qed

subsection \<open>The settings table\<close>

lemma distinct_mapSet: "distinct (map fst m) \<Longrightarrow> distinct (map fst (mapSet k v m))"
  by (simp add: mapSet_def distinct_update)

lemma distinctKeys_addItemRec:
  "distinctKeys node \<Longrightarrow> distinctKeys (addItemRec eq pks x node)"
proof (induction eq pks x node rule: addItemRec.induct)
  case (2 eq pk item m)
  then show ?case
    by (auto simp: distinct_mapSet split: option.splits node.splits dest!: in_mapSetD)
next
  case (3 eq pk pk' pks item m)
  show ?case
  proof (cases "mapGet m (pk item)")
    case None
    have "distinctKeys (Level [])" by simp
    from 3(1)[OF None this] 3(3) None show ?thesis
      by (auto simp: distinct_mapSet dest!: in_mapSetD)
  next
    case (Some found)
    then have "distinctKeys found" using 3(3) mapGet_Some_in[OF Some] by force
    from 3(2)[OF Some this] 3(3) Some show ?thesis
      by (auto simp: distinct_mapSet dest!: in_mapSetD)
  qed
qed simp_all

lemma allItems_Level_Nil [simp]: "allItems (Level []) = []"
  by (simp add: allItems_def)

lemma keyed_addItemRec:
  "keyed pks node \<Longrightarrow> keyed pks (addItemRec eq pks x node)"
proof (induction eq pks x node rule: addItemRec.induct)
  case (2 eq pk item m)
  show ?case
  proof (cases "mapGet m (pk item)")
    case None
    with 2 show ?thesis by (auto dest!: in_mapSetD)
  next
    case (Some found)
    show ?thesis
    proof (cases found)
      case (Bucket xs)
      have "\<forall>y \<in> set xs. pk y = pk item"
        using 2 mapGet_Some_in[OF Some] Bucket by force
      then have "\<forall>y \<in> set (storeItem eq item xs). pk y = pk item"
        using set_storeItem_subset[of eq item xs] by auto
      with 2 Some Bucket show ?thesis by (auto dest!: in_mapSetD)
    next
      case (Level sub)
      with 2 Some show ?thesis by simp
    qed
  qed
next
  case (3 eq pk pk' pks item m)
  show ?case
  proof (cases "mapGet m (pk item)")
    case None
    have k: "keyed (pk' # pks) (Level [])" by simp
    have "set (allItems (addItemRec eq (pk' # pks) item (Level []))) \<subseteq> {item}"
      using allItems_addItemRec_subset[of eq "pk' # pks" item "Level []"] by simp
    with 3(1)[OF None k] 3(3) None show ?thesis
      by (auto dest!: in_mapSetD)
  next
    case (Some found)
    from 3(3) mapGet_Some_in[OF Some] have f: "keyed (pk' # pks) found"
      "\<forall>y \<in> set (allItems found). pk y = pk item" by force+
    have "set (allItems (addItemRec eq (pk' # pks) item found)) \<subseteq> insert item (set (allItems found))"
      by (rule allItems_addItemRec_subset)
    with f(2) have "\<forall>y \<in> set (allItems (addItemRec eq (pk' # pks) item found)). pk y = pk item"
      by auto
    with 3(2)[OF Some f(1)] 3(3) Some show ?thesis
      by (auto dest!: in_mapSetD)
  qed
qed simp_all

lemma allItems_Level_Cons: "allItems (Level (e # m)) = allItems (snd e) @ allItems (Level m)"
  by (cases e) (simp add: allItems_def)

lemma filter_allItems_other:
  assumes "\<forall>entry \<in> set m. fst entry \<noteq> k \<and> (\<forall>x \<in> set (allItems (snd entry)). pk x = fst entry)"
  shows "filter (\<lambda>x. pk x = k \<and> Q x) (allItems (Level m)) = []"
  using assms
proof (induction m)
  case Nil
  then show ?case by simp
next
  case (Cons e m)
  then have "filter (\<lambda>x. pk x = k \<and> Q x) (allItems (snd e)) = []"
    by (auto simp: filter_empty_conv)
  with Cons show ?case by (simp add: allItems_Level_Cons)
qed

lemma filter_keys_Level:
  assumes "distinct (map fst m)"
    and "\<forall>entry \<in> set m. \<forall>x \<in> set (allItems (snd entry)). pk x = fst entry"
    and "\<And>c. (k, c) \<in> set m \<Longrightarrow> filter Q (allItems c) = G c"
  shows "filter (\<lambda>x. pk x = k \<and> Q x) (allItems (Level m)) =
         (case mapGet m k of None \<Rightarrow> [] | Some c \<Rightarrow> G c)"
  using assms
proof (induction m)
  case Nil
  then show ?case by simp
next
  case (Cons e m)
  obtain k0 c0 where e: "e = (k0, c0)" by (cases e)
  show ?case
  proof (cases "k0 = k")
    case True
    have all: "\<forall>x \<in> set (allItems c0). pk x = k" using Cons.prems(2) e True by auto
    then have "filter (\<lambda>x. pk x = k \<and> Q x) (allItems c0) = filter Q (allItems c0)"
      by (intro filter_cong) auto
    also have "\<dots> = G c0" using Cons.prems(3)[of c0] e True by simp
    finally have hd: "filter (\<lambda>x. pk x = k \<and> Q x) (allItems c0) = G c0" .
    have "\<forall>entry \<in> set m. fst entry \<noteq> k \<and> (\<forall>x \<in> set (allItems (snd entry)). pk x = fst entry)"
      using Cons.prems(1,2) e True by force
    from filter_allItems_other[OF this, of Q] hd e True show ?thesis
      by (simp add: allItems_Level_Cons mapGet_def)
  next
    case False
    have "filter (\<lambda>x. pk x = k \<and> Q x) (allItems c0) = []"
      using Cons.prems(2) e False by (auto simp: filter_empty_conv)
    moreover have "filter (\<lambda>x. pk x = k \<and> Q x) (allItems (Level m)) =
         (case mapGet m k of None \<Rightarrow> [] | Some c \<Rightarrow> G c)"
      using Cons.prems by (intro Cons.IH) auto
    ultimately show ?thesis using e False by (simp add: allItems_Level_Cons mapGet_def)
  qed
qed

lemma filter_keys_getBucket:
  "shaped (length pks) node \<Longrightarrow> keyed pks node \<Longrightarrow> distinctKeys node \<Longrightarrow> length ks = length pks \<Longrightarrow>
   filter (\<lambda>x. keysOf pks x = ks) (allItems node) = getBucket ks node"
proof (induction pks arbitrary: node ks)
  case Nil
  then obtain xs where "node = Bucket xs" by (cases node) simp_all
  with Nil show ?case by (simp add: keysOf_def)
next
  case (Cons pk pks)
  from Cons.prems(1) obtain m where node: "node = Level m" by (cases node) simp_all
  from Cons.prems(4) obtain k ks' where ks: "ks = k # ks'" "length ks' = length pks" by (cases ks) auto
  have sub: "\<And>c. (k, c) \<in> set m \<Longrightarrow> filter (\<lambda>x. keysOf pks x = ks') (allItems c) = getBucket ks' c"
  proof -
    fix c assume "(k, c) \<in> set m"
    with Cons.prems node have "shaped (length pks) c" "keyed pks c" "distinctKeys c" by force+
    from Cons.IH[OF this ks(2)] show "filter (\<lambda>x. keysOf pks x = ks') (allItems c) = getBucket ks' c" .
  qed
  have "filter (\<lambda>x. pk x = k \<and> keysOf pks x = ks') (allItems (Level m)) =
         (case mapGet m k of None \<Rightarrow> [] | Some c \<Rightarrow> getBucket ks' c)"
    using Cons.prems(2,3) node by (intro filter_keys_Level sub) auto
  then show ?case using node ks by (simp add: keysOf_def)
qed

lemma ftNum_inj [simp]: "(ftNum a = ftNum b) = (a = b)"
  by (cases a; cases b) simp_all

lemma levelNum_inj [simp]: "(levelNum a = levelNum b) = (a = b)"
  by (cases a; cases b) simp_all

lemma FeatureSettings_equals_keys:
  "FeatureSettings_equals a b = (keysOf featureSettingsTableDef a = keysOf featureSettingsTableDef b)"
  by (auto simp: FeatureSettings_equals_def keysOf_def featureSettingsTableDef_def)

lemma isSeed_keys: "isSeed ft s = (keysOf featureSettingsTableDef s = seedKeys ft)"
  by (cases "levelType s")
     (auto simp: isSeed_def isStandard_def keysOf_def featureSettingsTableDef_def seedKeys_def)

lemma symp_FeatureSettings_equals: "symp FeatureSettings_equals"
  by (auto simp: symp_def FeatureSettings_equals_def)

lemma transp_FeatureSettings_equals: "transp FeatureSettings_equals"
  by (auto simp: transp_def FeatureSettings_equals_def)

lemma getBucket_in_buckets:
  "getBucket ks node = [] \<or> getBucket ks node \<in> set (buckets node)"
proof (induction ks node rule: getBucket.induct)
  case (2 k ks m)
  show ?case
  proof (cases "mapGet m k")
    case None
    then show ?thesis by simp
  next
    case (Some child)
    from 2[OF Some] mapGet_Some_in[OF Some] Some show ?thesis by force
  qed
qed simp_all

lemma noEqualPair_all_equal:
  assumes "noEqualPair eq B" "\<forall>x \<in> set B. \<forall>y \<in> set B. eq x y"
  shows "length B \<le> 1"
proof (cases B)
  case Nil
  then show ?thesis by simp
next
  case (Cons x xs)
  show ?thesis
  proof (cases xs)
    case Nil
    with Cons show ?thesis by simp
  next
    case (Cons y ys)
    with \<open>B = x # xs\<close> assms show ?thesis by auto
  qed
qed

lemma seed_count:
  assumes "settingsInv t"
  shows "length (filter (isSeed ft) (allItems (mapTable t))) = 1"
proof -
  let ?B = "getBucket (seedKeys ft) (mapTable t)"
  from assms have inv: "shaped (length featureSettingsTableDef) (mapTable t)"
    "keyed featureSettingsTableDef (mapTable t)" "distinctKeys (mapTable t)"
    by (simp_all add: settingsInv_def settingsShape_def)
  have len: "length (seedKeys ft) = length featureSettingsTableDef" by (simp add: seedKeys_def)
  have "isSeed ft = (\<lambda>x. keysOf featureSettingsTableDef x = seedKeys ft)"
    by (rule ext) (rule isSeed_keys)
  then have eqB: "filter (isSeed ft) (allItems (mapTable t)) = ?B"
    using filter_keys_getBucket[OF inv len] by simp
  from assms obtain s where "s \<in> set (allItems (mapTable t))" "isSeed ft s"
    by (auto simp: settingsInv_def)
  then have "s \<in> set (filter (isSeed ft) (allItems (mapTable t)))" by simp
  then have ne: "?B \<noteq> []" unfolding eqB by auto
  with getBucket_in_buckets[of "seedKeys ft" "mapTable t"] have "?B \<in> set (buckets (mapTable t))" by simp
  with assms have nep: "noEqualPair FeatureSettings_equals ?B" by (simp add: settingsInv_def settingsShape_def)
  have "set ?B = set (filter (isSeed ft) (allItems (mapTable t)))" using eqB by simp
  then have "\<forall>x \<in> set ?B. isSeed ft x" by simp
  then have "\<forall>x \<in> set ?B. \<forall>y \<in> set ?B. FeatureSettings_equals x y"
    by (simp add: FeatureSettings_equals_keys isSeed_keys)
  from noEqualPair_all_equal[OF nep this] ne have "length ?B = 1"
    by (cases ?B) simp_all
  with eqB show ?thesis by simp
qed

lemma seed_kept_addItemRec:
  assumes "\<exists>s \<in> set (allItems node). isSeed ft s" "shaped (length featureSettingsTableDef) node"
  shows "\<exists>s \<in> set (allItems (addItemRec FeatureSettings_equals featureSettingsTableDef x node)). isSeed ft s"
proof (cases "isSeed ft x")
  case True
  have "featureSettingsTableDef \<noteq> []" by (simp add: featureSettingsTableDef_def)
  from item_in_addItemRec[OF this assms(2), of x FeatureSettings_equals] True show ?thesis by blast
next
  case False
  from assms(1) obtain s where s: "s \<in> set (allItems node)" "isSeed ft s" by blast
  with False have "\<not> FeatureSettings_equals s x"
    by (simp add: FeatureSettings_equals_keys isSeed_keys)
  from kept_in_addItemRec[OF s(1), of FeatureSettings_equals x featureSettingsTableDef, OF this] s(2)
  show ?thesis by blast
qed

lemma settingsShape_addItem:
  assumes "settingsShape t"
  shows "settingsShape (addItem FeatureSettings_equals x t)"
proof -
  from assms have pk: "primaryKeys t = featureSettingsTableDef" by (simp add: settingsShape_def)
  have "shaped 4 (mapTable (addItem FeatureSettings_equals x t))"
    using assms by (intro shaped_addItem) (simp_all add: settingsShape_def)
  moreover have "keyed featureSettingsTableDef (mapTable (addItem FeatureSettings_equals x t))"
    using assms keyed_addItemRec[of featureSettingsTableDef "mapTable t"]
    by (simp add: addItem_def settingsShape_def)
  moreover have "distinctKeys (mapTable (addItem FeatureSettings_equals x t))"
    using assms distinctKeys_addItemRec[of "mapTable t"] by (simp add: addItem_def settingsShape_def)
  moreover have "\<forall>B \<in> set (buckets (mapTable (addItem FeatureSettings_equals x t))).
      noEqualPair FeatureSettings_equals B"
    using assms by (intro noEqualPair_addItem symp_FeatureSettings_equals transp_FeatureSettings_equals)
      (simp add: settingsShape_def)
  ultimately show ?thesis using pk by (simp add: settingsShape_def)
qed

lemma seed_kept_addItem:
  assumes "settingsShape t" "\<exists>s \<in> set (allItems (mapTable t)). isSeed ft s"
  shows "\<exists>s \<in> set (allItems (mapTable (addItem FeatureSettings_equals x t))). isSeed ft s"
  using assms seed_kept_addItemRec[of "mapTable t" ft x]
  by (simp add: addItem_def settingsShape_def)

lemma seed_in_addItem:
  assumes "settingsShape t" "isSeed ft x"
  shows "\<exists>s \<in> set (allItems (mapTable (addItem FeatureSettings_equals x t))). isSeed ft s"
proof -
  have "featureSettingsTableDef \<noteq> []" by (simp add: featureSettingsTableDef_def)
  from item_in_addItemRec[OF this, of "mapTable t" x FeatureSettings_equals] assms show ?thesis
    by (auto simp: addItem_def settingsShape_def)
qed

lemma settingsInv_addItem:
  assumes "settingsInv t"
  shows "settingsInv (addItem FeatureSettings_equals x t)"
  using assms settingsShape_addItem[of t x] seed_kept_addItem[of t _ x]
  by (simp add: settingsInv_def)

lemma settingsInv_fold_addItem:
  "settingsInv t \<Longrightarrow> settingsInv (fold (addItem FeatureSettings_equals) xs t)"
  by (induction xs arbitrary: t) (simp_all add: settingsInv_addItem)

lemma isSeed_getStandard:
  "isSeed POINT (PointSettings_getStandard g)" "isSeed LINESTRING (LineStringSettings_getStandard g)"
  "isSeed POLYGON (PolygonSettings_getStandard g)"
  by (simp_all add: isSeed_def isStandard_def getFeatureType_def PointSettings_getStandard_def
      LineStringSettings_getStandard_def PolygonSettings_getStandard_def)

lemma keyed_Level_Nil [simp]: "keyed pks (Level [])"
  by (cases pks) simp_all

lemma settingsShape_new: "settingsShape (newIAMMapTable featureSettingsTableDef)"
  by (simp add: settingsShape_def shaped_new) (simp add: newIAMMapTable_def)

lemma settingsInv_initStandardSettings:
  "settingsInv (initStandardSettings g (newIAMMapTable featureSettingsTableDef))"
proof -
  let ?t0 = "newIAMMapTable featureSettingsTableDef"
  let ?t1 = "addItem FeatureSettings_equals (PointSettings_getStandard g) ?t0"
  let ?t2 = "addItem FeatureSettings_equals (LineStringSettings_getStandard g) ?t1"
  let ?t3 = "addItem FeatureSettings_equals (PolygonSettings_getStandard g) ?t2"
  have s1: "settingsShape ?t1" by (intro settingsShape_addItem settingsShape_new)
  have s2: "settingsShape ?t2" by (intro settingsShape_addItem s1)
  have s3: "settingsShape ?t3" by (intro settingsShape_addItem s2)
  have p: "\<exists>s \<in> set (allItems (mapTable ?t3)). isSeed POINT s"
    by (intro seed_kept_addItem s2 s1 seed_in_addItem settingsShape_new isSeed_getStandard)
  have l: "\<exists>s \<in> set (allItems (mapTable ?t3)). isSeed LINESTRING s"
    by (intro seed_kept_addItem s2 seed_in_addItem s1 isSeed_getStandard)
  have y: "\<exists>s \<in> set (allItems (mapTable ?t3)). isSeed POLYGON s"
    by (intro seed_in_addItem s2 isSeed_getStandard)
  have "\<forall>ft. \<exists>s \<in> set (allItems (mapTable ?t3)). isSeed ft s"
  proof
    fix ft show "\<exists>s \<in> set (allItems (mapTable ?t3)). isSeed ft s"
      using p l y by (cases ft) simp_all
  qed
  with s3 show ?thesis by (simp add: settingsInv_def initStandardSettings_def)
qed

lemma settings_loadFeatures:
  "featureSettings (fst (loadFeatures g ds it pr st)) =
     (if it = DROPTABLE then initStandardSettings g (newIAMMapTable featureSettingsTableDef)
      else featureSettings st)"
  by (simp add: loadFeatures_def Let_def init_def)

lemma settings_loadSettings:
  "featureSettings (fst (loadSettings g ds it pr st)) =
     fold (addItem FeatureSettings_equals) (getFeaturesSettings ds)
       (if it = DROPTABLE then initStandardSettings g (newIAMMapTable featureSettingsTableDef)
        else featureSettings st)"
  by (simp add: loadSettings_def Let_def)

lemma settings_loadFeaturesProperties:
  "storeOk st \<Longrightarrow> featureSettings (fst (loadFeaturesProperties g ds it pr st)) = featureSettings st"
  using loadFeaturesProperties_result[of st g ds it pr] by auto

lemma settings_loadFeaturesAttributes:
  "storeOk st \<Longrightarrow> featureSettings (fst (loadFeaturesAttributes g ds it pr st)) = featureSettings st"
  using loadFeaturesAttributes_result[of st g ds it pr] by auto

lemma settingsInv_applyOperation:
  assumes "storeOk st" "settingsInv (featureSettings st)"
  shows "settingsInv (featureSettings (applyOperation g op st))"
proof (cases op)
  case (AddSetting s)
  with assms show ?thesis by (simp add: addSetting_def settingsInv_addItem)
next
  case (LoadFeatures ds it pr)
  with assms show ?thesis
    by (simp add: settings_loadFeatures settingsInv_initStandardSettings)
next
  case (LoadFeaturesProperties ds it pr)
  with assms show ?thesis by (simp add: settings_loadFeaturesProperties)
next
  case (LoadFeaturesAttributes ds it pr)
  with assms show ?thesis by (simp add: settings_loadFeaturesAttributes)
next
  case (LoadSettings ds it pr)
  with assms show ?thesis
    by (simp add: settings_loadSettings settingsInv_fold_addItem settingsInv_initStandardSettings)
qed

lemma settingsInv_fold:
  "storeOk st \<Longrightarrow> settingsInv (featureSettings st) \<Longrightarrow>
   settingsInv (featureSettings (fold (applyOperation g) ops st))"
  by (induction ops arbitrary: st) (simp_all add: settingsInv_applyOperation storeOk_applyOperation)

lemma settings_init: "featureSettings (init g) = initStandardSettings g (newIAMMapTable featureSettingsTableDef)"
  by (simp add: init_def)

lemma settingsInv_run: "settingsInv (featureSettings (run g ops))"
  unfolding run_def
  by (intro settingsInv_fold storeOk_init) (simp add: settings_init settingsInv_initStandardSettings)

lemma getAllSettings_allItems:
  assumes "settingsInv (featureSettings st)"
  shows "getAllSettings st = allItems (mapTable (featureSettings st))"
proof -
  from assms have "wfTable (featureSettings st)"
    by (simp add: settingsInv_def settingsShape_def wfTable_def) (simp add: featureSettingsTableDef_def)
  then show ?thesis
    using assms
    by (simp add: getAllSettings_def getAllItems_all settingsInv_def settingsShape_def)
qed


lemma allConventional_addItem:
  "allConventional t \<Longrightarrow> conventional x \<Longrightarrow> allConventional (addItem eq x t)"
  using allItems_addItemRec_subset[of eq "primaryKeys t" x "mapTable t"]
  by (auto simp: allConventional_def addItem_def)

lemma allConventional_fold_addItem:
  "allConventional t \<Longrightarrow> \<forall>x \<in> set xs. conventional x \<Longrightarrow> allConventional (fold (addItem eq) xs t)"
  by (induction xs arbitrary: t) (simp_all add: allConventional_addItem)

lemma conventional_getStandard:
  "conventional (PointSettings_getStandard g)" "conventional (LineStringSettings_getStandard g)"
  "conventional (PolygonSettings_getStandard g)"
  by (simp_all add: conventional_def PointSettings_getStandard_def
      LineStringSettings_getStandard_def PolygonSettings_getStandard_def)

lemma allConventional_initStandardSettings:
  "allConventional (initStandardSettings g (newIAMMapTable featureSettingsTableDef))"
  unfolding initStandardSettings_def
  by (intro allConventional_addItem conventional_getStandard)
     (simp add: allConventional_def newIAMMapTable_def)

lemma allConventional_applyOperation:
  assumes "storeOk st" "allConventional (featureSettings st)"
    and "\<forall>s \<in> set (insertedSettings op). conventional s"
  shows "allConventional (featureSettings (applyOperation g op st))"
proof (cases op)
  case (AddSetting s)
  with assms show ?thesis by (simp add: addSetting_def allConventional_addItem)
next
  case (LoadFeatures ds it pr)
  with assms show ?thesis
    by (simp add: settings_loadFeatures allConventional_initStandardSettings)
next
  case (LoadFeaturesProperties ds it pr)
  with assms show ?thesis by (simp add: settings_loadFeaturesProperties)
next
  case (LoadFeaturesAttributes ds it pr)
  with assms show ?thesis by (simp add: settings_loadFeaturesAttributes)
next
  case (LoadSettings ds it pr)
  with assms show ?thesis
    by (simp add: settings_loadSettings allConventional_fold_addItem allConventional_initStandardSettings)
qed

lemma allConventional_fold:
  "storeOk st \<Longrightarrow> allConventional (featureSettings st) \<Longrightarrow>
   \<forall>op \<in> set ops. \<forall>s \<in> set (insertedSettings op). conventional s \<Longrightarrow>
   allConventional (featureSettings (fold (applyOperation g) ops st))"
  by (induction ops arbitrary: st) (simp_all add: allConventional_applyOperation storeOk_applyOperation)

lemma allConventional_run:
  "\<forall>op \<in> set ops. \<forall>s \<in> set (insertedSettings op). conventional s \<Longrightarrow>
   allConventional (featureSettings (run g ops))"
  unfolding run_def
  by (intro allConventional_fold storeOk_init) (simp_all add: settings_init allConventional_initStandardSettings)

lemma standard_fields [simp]:
  "getFeatureType (PointSettings_getStandard g) = POINT"
  "getFeatureType (LineStringSettings_getStandard g) = LINESTRING"
  "getFeatureType (PolygonSettings_getStandard g) = POLYGON"
  "levelType (PointSettings_getStandard g) = LEVEL_STANDARD"
  "levelType (LineStringSettings_getStandard g) = LEVEL_STANDARD"
  "levelType (PolygonSettings_getStandard g) = LEVEL_STANDARD"
  "levelName (PointSettings_getStandard g) = ''Standard''"
  "levelName (LineStringSettings_getStandard g) = ''Standard''"
  "levelName (PolygonSettings_getStandard g) = ''Standard''"
  "levelValue (PointSettings_getStandard g) = []"
  "levelValue (LineStringSettings_getStandard g) = []"
  "levelValue (PolygonSettings_getStandard g) = []"
  by (simp_all add: getFeatureType_def PointSettings_getStandard_def
      LineStringSettings_getStandard_def PolygonSettings_getStandard_def)

lemma rogue_fields [simp]:
  "getFeatureType rogueStandard = POINT" "levelType rogueStandard = LEVEL_STANDARD"
  "levelName rogueStandard = ''Other''" "levelValue rogueStandard = []"
  by (simp_all add: rogueStandard_def getFeatureType_def PointSettings_getStandard_def)

lemma settings_init_eval:
  "mapTable (featureSettings (init g)) =
     Level [(KNum 1, Level [(KNum 1, Level [(KStr ''Standard'', Level [(KStr [], Bucket [PointSettings_getStandard g])])])]),
            (KNum 2, Level [(KNum 1, Level [(KStr ''Standard'', Level [(KStr [], Bucket [LineStringSettings_getStandard g])])])]),
            (KNum 3, Level [(KNum 1, Level [(KStr ''Standard'', Level [(KStr [], Bucket [PolygonSettings_getStandard g])])])])]"
  by (simp add: init_def initStandardSettings_def addItem_def newIAMMapTable_def
      featureSettingsTableDef_def mapGet_def mapSet_def)

lemma primaryKeys_settings_init [simp]: "primaryKeys (featureSettings (init g)) = featureSettingsTableDef"
  by (simp add: init_def initStandardSettings_def newIAMMapTable_def)

subsection \<open>The standard settings\<close>

text \<open>
  Claim C9, as amended. In every store reached from a new store by any sequence of
  \<open>addSetting\<close>, \<open>loadFeatures\<close>, \<open>loadFeaturesProperties\<close>, \<open>loadFeaturesAttributes\<close> and
  \<open>loadSettings\<close> operations, in either mode, the settings table holds for each of the
  three feature types exactly one setting with the identity of the seeded standard
  setting (standard level, level name \<open>Standard\<close>, empty level value): it is seeded at
  initialisation, seeded again on \<open>DROPTABLE\<close>, and can be overwritten but not deleted.
  It is the only standard-level setting of its type provided that every standard-level
  setting the operations insert carries the level name \<open>Standard\<close> and an empty level
  value.
\<close>

theorem standard_settings_always_seeded:
  "(\<forall>ft. length (seedSettings ft (run getMsg ops)) = 1) \<and>
   ((\<forall>op \<in> set ops. \<forall>s \<in> set (insertedSettings op). conventional s) \<longrightarrow>
      (\<forall>ft. length (standardSettings ft (run getMsg ops)) = 1))"
proof (intro conjI impI allI)
  fix ft
  show "length (seedSettings ft (run getMsg ops)) = 1"
    using seed_count[OF settingsInv_run, of ft getMsg ops]
    by (simp add: seedSettings_def getAllSettings_allItems[OF settingsInv_run])
next
  fix ft
  assume "\<forall>op \<in> set ops. \<forall>s \<in> set (insertedSettings op). conventional s"
  from allConventional_run[OF this, of getMsg]
  have "\<forall>s \<in> set (allItems (mapTable (featureSettings (run getMsg ops)))). conventional s"
    by (simp add: allConventional_def)
  then have "filter (isStandard ft) (allItems (mapTable (featureSettings (run getMsg ops)))) =
             filter (isSeed ft) (allItems (mapTable (featureSettings (run getMsg ops))))"
    by (intro filter_cong) (auto simp: isSeed_def isStandard_def conventional_def)
  then show "length (standardSettings ft (run getMsg ops)) = 1"
    using seed_count[OF settingsInv_run, of ft getMsg ops]
    by (simp add: standardSettings_def getAllSettings_allItems[OF settingsInv_run])
qed

theorem standard_settings_always_seeded_witness:
  "list_all (\<lambda>op. list_all conventional (insertedSettings op))
      [AddSetting (PolygonSettings_getStandard english)] \<and>
   length (seedSettings POLYGON (run english [AddSetting (PolygonSettings_getStandard english)])) = 1 \<and>
   length (standardSettings POLYGON (run english [AddSetting (PolygonSettings_getStandard english)])) = 1"
  using standard_settings_always_seeded[of english "[AddSetting (PolygonSettings_getStandard english)]"]
  by (simp add: conventional_getStandard)

text \<open>
  The claim as stated fails: nothing checks the level name of a setting, and after
  \<open>addSetting\<close> of a standard-level point setting named \<open>Other\<close> the store holds two
  standard-level settings for points.
\<close>

theorem standard_settings_exactly_one_counterexample:
  "length (standardSettings POINT (run english [AddSetting rogueStandard])) = 2"
  by (simp add: standardSettings_def getAllSettings_def getAllItems_def run_def addSetting_def
      addItem_def settings_init_eval passes_def isStandard_def)
     (simp add: featureSettingsTableDef_def mapGet_def mapSet_def passes_def isStandard_def)

section \<open>Properties of merging\<close>

lemma pick_masterFirst: "pick m own = masterFirst m own"
  by (cases m) (simp_all add: pick_def masterFirst_def)

lemma Border_merge_fields:
  "color (Border_merge a (Some b)) = masterFirst (color b) (color a)"
  "lineDash1 (Border_merge a (Some b)) = masterFirst (lineDash1 b) (lineDash1 a)"
  "lineDash2 (Border_merge a (Some b)) = masterFirst (lineDash2 b) (lineDash2 a)"
  "lineDash3 (Border_merge a (Some b)) = masterFirst (lineDash3 b) (lineDash3 a)"
  "lineDash4 (Border_merge a (Some b)) = masterFirst (lineDash4 b) (lineDash4 a)"
  "lineDashOffset (Border_merge a (Some b)) = masterFirst (lineDashOffset b) (lineDashOffset a)"
  "lineCap (Border_merge a (Some b)) = masterFirst (lineCap b) (lineCap a)"
  "width (Border_merge a (Some b)) =
     (if masterFirst (width b) (width a) = Some 0 then None else masterFirst (width b) (width a))"
  by (simp_all add: Border_merge_def new_Border_def pick_masterFirst split: option.splits)

lemma TextSettings_merge_fields:
  "textFillColor (TextSettings_merge ta (Some tb)) = masterFirst (textFillColor tb) (textFillColor ta)"
  "textBackgroundFillColor (TextSettings_merge ta (Some tb)) =
     masterFirst (textBackgroundFillColor tb) (textBackgroundFillColor ta)"
  "textProps (TextSettings_merge ta (Some tb)) f = masterFirst (textProps tb f) (textProps ta f)"
  "textBorder (TextSettings_merge ta (Some tb)) = Border_merge (textBorder ta) (Some (textBorder tb))"
  "textBackgroundBorder (TextSettings_merge ta (Some tb)) =
     Border_merge (textBackgroundBorder ta) (Some (textBackgroundBorder tb))"
  by (simp_all add: TextSettings_merge_def new_TextSettings_def Let_def pick_masterFirst
      masterFirst_def map_add_def split: option.splits)

lemma getFeatureType_mergeClass: "getFeatureType (s\<lparr>ofClass := mergeClass (ofClass s) c\<rparr>) = getFeatureType s"
  by (cases "ofClass s"; cases c) (simp_all add: getFeatureType_def)

lemma merge_without_master:
  "Border_merge a None = a" "TextSettings_merge ta None = ta"
  "textSettings s = None \<Longrightarrow> merge s m = Inl TypeError"
  by (simp_all add: Border_merge_def TextSettings_merge_def merge_def)

text \<open>
  Claim C1, as amended. For every pair of border, text settings or feature settings
  objects \<open>a\<close> and \<open>b\<close>, the result of \<open>a.merge(b)\<close> has, for every field, the value of \<open>b\<close>
  (the master) when \<open>b\<close> defines the field and the value of the caller \<open>a\<close> otherwise:
  the master wins on its defined fields and the caller's fields fill only what the master
  leaves undefined. Nested borders and text settings are merged by the same rule, a
  border width of 0 is stored as undefined, merging with no master returns the caller's
  fields, the result keeps the class of the caller, and \<open>merge\<close> on a settings object
  that has no text settings raises a \<open>TypeError\<close>.
\<close>

theorem merge_master_wins:
  "(color (Border_merge a (Some b)) = masterFirst (color b) (color a) \<and>
    width (Border_merge a (Some b)) =
      (if masterFirst (width b) (width a) = Some 0 then None else masterFirst (width b) (width a)) \<and>
    lineDash1 (Border_merge a (Some b)) = masterFirst (lineDash1 b) (lineDash1 a) \<and>
    lineDash2 (Border_merge a (Some b)) = masterFirst (lineDash2 b) (lineDash2 a) \<and>
    lineDash3 (Border_merge a (Some b)) = masterFirst (lineDash3 b) (lineDash3 a) \<and>
    lineDash4 (Border_merge a (Some b)) = masterFirst (lineDash4 b) (lineDash4 a) \<and>
    lineDashOffset (Border_merge a (Some b)) = masterFirst (lineDashOffset b) (lineDashOffset a) \<and>
    lineCap (Border_merge a (Some b)) = masterFirst (lineCap b) (lineCap a) \<and>
    Border_merge a None = a) \<and>
   (textFillColor (TextSettings_merge ta (Some tb)) = masterFirst (textFillColor tb) (textFillColor ta) \<and>
    textBackgroundFillColor (TextSettings_merge ta (Some tb)) =
      masterFirst (textBackgroundFillColor tb) (textBackgroundFillColor ta) \<and>
    (\<forall>f. textProps (TextSettings_merge ta (Some tb)) f = masterFirst (textProps tb f) (textProps ta f)) \<and>
    textBorder (TextSettings_merge ta (Some tb)) = Border_merge (textBorder ta) (Some (textBorder tb)) \<and>
    textBackgroundBorder (TextSettings_merge ta (Some tb)) =
      Border_merge (textBackgroundBorder ta) (Some (textBackgroundBorder tb)) \<and>
    TextSettings_merge ta None = ta) \<and>
   (textSettings s = None \<longrightarrow> merge s m = Inl TypeError) \<and>
   (\<forall>ts. textSettings s = Some ts \<longrightarrow>
      (\<exists>r. merge s m = Inr r \<and>
         levelType r = levelType m \<and> levelName r = levelName m \<and> levelValue r = levelValue m \<and>
         showFeature r = masterFirst (showFeature m) (showFeature s) \<and>
         showText r = masterFirst (showText m) (showText s) \<and>
         textSettings r = Some (new_TextSettings (TextSettings_merge ts (textSettings m))) \<and>
         getFeatureType r = getFeatureType s \<and>
         (\<forall>p q. ofClass s = PointSettings p \<and> ofClass m = PointSettings q \<longrightarrow>
            (\<exists>p'. ofClass r = PointSettings p' \<and>
               pointShapeType p' = masterFirst (pointShapeType q) (pointShapeType p) \<and>
               pointFill p' = masterFirst (pointFill q) (pointFill p) \<and>
               pointBorder p' = Border_merge (pointBorder p) (Some (pointBorder q)) \<and>
               pointRadius p' = masterFirst (pointRadius q) (pointRadius p) \<and>
               pointDisplacementX p' = masterFirst (pointDisplacementX q) (pointDisplacementX p) \<and>
               pointDisplacementY p' = masterFirst (pointDisplacementY q) (pointDisplacementY p) \<and>
               pointRotation p' = masterFirst (pointRotation q) (pointRotation p) \<and>
               pointPoints p' = masterFirst (pointPoints q) (pointPoints p) \<and>
               pointStarRadius p' = masterFirst (pointStarRadius q) (pointStarRadius p))) \<and>
         (\<forall>l k. ofClass s = LineStringSettings l \<and> ofClass m = LineStringSettings k \<longrightarrow>
            (\<exists>l'. ofClass r = LineStringSettings l' \<and>
               lineBorder1 l' = Border_merge (lineBorder1 l) (Some (lineBorder1 k)) \<and>
               lineBorder2 l' = Border_merge (lineBorder2 l) (Some (lineBorder2 k)))) \<and>
         (\<forall>p q. ofClass s = PolygonSettings p \<and> ofClass m = PolygonSettings q \<longrightarrow>
            (\<exists>p'. ofClass r = PolygonSettings p' \<and>
               polygonFill p' = masterFirst (polygonFill q) (polygonFill p) \<and>
               polygonBorder p' = Border_merge (polygonBorder p) (Some (polygonBorder q))))))"
proof (intro conjI allI impI)
  fix ts assume ts: "textSettings s = Some ts"
  let ?r = "\<lparr>levelType = levelType m, levelName = levelName m, levelValue = levelValue m,
               showFeature = pick (showFeature m) (showFeature s),
               showText = pick (showText m) (showText s),
               textSettings = Some (new_TextSettings (TextSettings_merge ts (textSettings m))),
               ofClass = mergeClass (ofClass s) (ofClass m)\<rparr>"
  have r: "merge s m = Inr ?r" using ts by (simp add: merge_def)
  have ft: "getFeatureType ?r = getFeatureType s"
    by (cases "ofClass s"; cases "ofClass m") (simp_all add: getFeatureType_def)
  have pt: "\<forall>p q. ofClass s = PointSettings p \<and> ofClass m = PointSettings q \<longrightarrow>
            (\<exists>p'. ofClass ?r = PointSettings p' \<and>
               pointShapeType p' = masterFirst (pointShapeType q) (pointShapeType p) \<and>
               pointFill p' = masterFirst (pointFill q) (pointFill p) \<and>
               pointBorder p' = Border_merge (pointBorder p) (Some (pointBorder q)) \<and>
               pointRadius p' = masterFirst (pointRadius q) (pointRadius p) \<and>
               pointDisplacementX p' = masterFirst (pointDisplacementX q) (pointDisplacementX p) \<and>
               pointDisplacementY p' = masterFirst (pointDisplacementY q) (pointDisplacementY p) \<and>
               pointRotation p' = masterFirst (pointRotation q) (pointRotation p) \<and>
               pointPoints p' = masterFirst (pointPoints q) (pointPoints p) \<and>
               pointStarRadius p' = masterFirst (pointStarRadius q) (pointStarRadius p))"
    by (simp add: pick_masterFirst)
  have ln: "\<forall>l k. ofClass s = LineStringSettings l \<and> ofClass m = LineStringSettings k \<longrightarrow>
            (\<exists>l'. ofClass ?r = LineStringSettings l' \<and>
               lineBorder1 l' = Border_merge (lineBorder1 l) (Some (lineBorder1 k)) \<and>
               lineBorder2 l' = Border_merge (lineBorder2 l) (Some (lineBorder2 k)))"
    by simp
  have pg: "\<forall>p q. ofClass s = PolygonSettings p \<and> ofClass m = PolygonSettings q \<longrightarrow>
            (\<exists>p'. ofClass ?r = PolygonSettings p' \<and>
               polygonFill p' = masterFirst (polygonFill q) (polygonFill p) \<and>
               polygonBorder p' = Border_merge (polygonBorder p) (Some (polygonBorder q)))"
    by (simp add: pick_masterFirst)
  show "\<exists>r. merge s m = Inr r \<and>
         levelType r = levelType m \<and> levelName r = levelName m \<and> levelValue r = levelValue m \<and>
         showFeature r = masterFirst (showFeature m) (showFeature s) \<and>
         showText r = masterFirst (showText m) (showText s) \<and>
         textSettings r = Some (new_TextSettings (TextSettings_merge ts (textSettings m))) \<and>
         getFeatureType r = getFeatureType s \<and>
         (\<forall>p q. ofClass s = PointSettings p \<and> ofClass m = PointSettings q \<longrightarrow>
            (\<exists>p'. ofClass r = PointSettings p' \<and>
               pointShapeType p' = masterFirst (pointShapeType q) (pointShapeType p) \<and>
               pointFill p' = masterFirst (pointFill q) (pointFill p) \<and>
               pointBorder p' = Border_merge (pointBorder p) (Some (pointBorder q)) \<and>
               pointRadius p' = masterFirst (pointRadius q) (pointRadius p) \<and>
               pointDisplacementX p' = masterFirst (pointDisplacementX q) (pointDisplacementX p) \<and>
               pointDisplacementY p' = masterFirst (pointDisplacementY q) (pointDisplacementY p) \<and>
               pointRotation p' = masterFirst (pointRotation q) (pointRotation p) \<and>
               pointPoints p' = masterFirst (pointPoints q) (pointPoints p) \<and>
               pointStarRadius p' = masterFirst (pointStarRadius q) (pointStarRadius p))) \<and>
         (\<forall>l k. ofClass s = LineStringSettings l \<and> ofClass m = LineStringSettings k \<longrightarrow>
            (\<exists>l'. ofClass r = LineStringSettings l' \<and>
               lineBorder1 l' = Border_merge (lineBorder1 l) (Some (lineBorder1 k)) \<and>
               lineBorder2 l' = Border_merge (lineBorder2 l) (Some (lineBorder2 k)))) \<and>
         (\<forall>p q. ofClass s = PolygonSettings p \<and> ofClass m = PolygonSettings q \<longrightarrow>
            (\<exists>p'. ofClass r = PolygonSettings p' \<and>
               polygonFill p' = masterFirst (polygonFill q) (polygonFill p) \<and>
               polygonBorder p' = Border_merge (polygonBorder p) (Some (polygonBorder q))))"
    apply (rule exI[of _ ?r])
    apply (intro conjI)
              apply (rule r)
             apply simp
            apply simp
           apply simp
          apply (simp add: pick_masterFirst)
         apply (simp add: pick_masterFirst)
        apply simp
       apply (rule ft)
      apply (rule pt)
     apply (rule ln)
    apply (rule pg)
    done
qed (simp_all add: Border_merge_fields TextSettings_merge_fields merge_without_master)

theorem merge_master_wins_witness:
  "width (Border_merge thinBorder (Some thickBorder)) = Some 2 \<and>
   lineCap (Border_merge thinBorder (Some thickBorder)) = Some ''round'' \<and>
   textSettings (LineStringSettings_getStandard english) \<noteq> None \<and>
   (\<exists>r. merge (LineStringSettings_getStandard english) openSetting = Inr r \<and>
      levelName r = ''status'' \<and> showFeature r = Some True \<and> showText r = Some True)"
  using merge_master_wins[of thinBorder thickBorder "TextSettings_getStandard english"
      "TextSettings_getStandard english" "LineStringSettings_getStandard english" openSetting]
  by (auto simp: masterFirst_def thinBorder_def thickBorder_def emptyBorder_def openSetting_def
      LineStringSettings_getStandard_def)

text \<open>
  The claim as stated says the caller wins on its defined fields. It fails: the caller's
  border width 1 and \<open>showText = false\<close> are both overwritten by the master's values.
\<close>

theorem merge_caller_wins_counterexample:
  "width thinBorder = Some 1 \<and> width thickBorder = Some 2 \<and>
   width (Border_merge thinBorder (Some thickBorder)) = Some 2 \<and>
   showText (LineStringSettings_getStandard english) = Some False \<and>
   showText openSetting = Some True \<and>
   map_sum id showText (merge (LineStringSettings_getStandard english) openSetting) = Inr (Some True)"
  by (simp add: thinBorder_def thickBorder_def emptyBorder_def Border_merge_def new_Border_def pick_def
      LineStringSettings_getStandard_def openSetting_def merge_def)

section \<open>Settings resolution\<close>

lemma getAllItemsRec_filter:
  "shaped (length fs) node \<Longrightarrow> keyed pks node \<Longrightarrow> fs \<noteq> [] \<Longrightarrow> length pks = length fs \<Longrightarrow>
     getAllItemsRec fs (node :: 'v node) =
       filter (\<lambda>x. list_all2 (\<lambda>f pk. passes f (pk x)) fs pks) (allItems node)"
  and getAllItemsEach_filter:
  "\<forall>e \<in> set m. shaped (length fs) (snd e) \<and> keyed pks (snd e) \<and>
       (\<forall>x \<in> set (allItems (snd e)). pk x = fst e) \<Longrightarrow> length pks = length fs \<Longrightarrow>
     getAllItemsEach f fs (m :: (key \<times> 'v node) list) =
       filter (\<lambda>x. passes f (pk x) \<and> list_all2 (\<lambda>f pk. passes f (pk x)) fs pks) (allItems (Level m))"
proof (induction fs node and f fs m arbitrary: pks and pk pks rule: getAllItemsRec_getAllItemsEach.induct)
  case (1 node)
  then show ?case by simp
next
  case (2 f fs m)
  from "2.prems"(4) obtain pk pks' where pks: "pks = pk # pks'" "length pks' = length fs"
    by (cases pks) auto
  have "getAllItemsEach f fs m =
       filter (\<lambda>x. passes f (pk x) \<and> list_all2 (\<lambda>f pk. passes f (pk x)) fs pks') (allItems (Level m))"
    using "2.prems"(1,2) pks by (intro "2.IH") auto
  then show ?case using pks by simp
next
  case (3 f fs xs)
  then show ?case by simp
next
  case (4 f fs)
  then show ?case by simp
next
  case (5 f fs k child rest)
  let ?P = "\<lambda>x. passes f (pk x) \<and> list_all2 (\<lambda>f pk. passes f (pk x)) fs pks"
  have rest: "getAllItemsEach f fs rest = filter ?P (allItems (Level rest))"
  proof (cases "passes f k")
    case True
    then show ?thesis using "5.prems" by (intro "5.IH"(2)) auto
  next
    case False
    then show ?thesis using "5.prems" by (intro "5.IH"(3)) auto
  qed
  have keys: "\<forall>x \<in> set (allItems child). pk x = k" using "5.prems"(1) by simp
  have shp: "shaped (length fs) child" and kd: "keyed pks child" using "5.prems"(1) by simp_all
  show ?case
  proof (cases "passes f k")
    case False
    with keys have "filter ?P (allItems child) = []" by (auto simp: filter_empty_conv)
    with False rest show ?thesis by (simp add: allItems_Level_Cons)
  next
    case True
    with keys have hd: "filter ?P (allItems child) =
        filter (\<lambda>x. list_all2 (\<lambda>f pk. passes f (pk x)) fs pks) (allItems child)"
      by (intro filter_cong) auto
    show ?thesis
    proof (cases "fs = []")
      case fsn: True
      with shp obtain xs where "child = Bucket xs" by (cases child) simp_all
      with fsn True hd rest "5.prems"(2) show ?thesis
        by (simp add: allItems_Level_Cons allItems_def)
    next
      case fsn: False
      have "getAllItemsRec fs child = filter (\<lambda>x. list_all2 (\<lambda>f pk. passes f (pk x)) fs pks) (allItems child)"
        using True fsn shp kd "5.prems"(2) by (intro "5.IH") auto
      with fsn True hd rest show ?thesis by (simp add: allItems_Level_Cons)
    qed
  qed
qed

lemma find_filter_case: "find P xs = (case filter P xs of [] \<Rightarrow> None | x # rest \<Rightarrow> Some x)"
  by (induction xs) simp_all

lemma getAllItems_settings_filter:
  assumes "settingsInv (featureSettings st)" "length fs = 4"
  shows "getAllItems fs (featureSettings st) =
         filter (\<lambda>x. list_all2 (\<lambda>f pk. passes f (pk x)) fs featureSettingsTableDef) (getAllSettings st)"
proof -
  from assms(1) have pk: "primaryKeys (featureSettings st) = featureSettingsTableDef"
    and sh: "shaped 4 (mapTable (featureSettings st))"
    and kd: "keyed featureSettingsTableDef (mapTable (featureSettings st))"
    by (simp_all add: settingsInv_def settingsShape_def)
  from assms(2) have ne: "fs \<noteq> []" by auto
  have "getAllItemsRec fs (mapTable (featureSettings st)) =
       filter (\<lambda>x. list_all2 (\<lambda>f pk. passes f (pk x)) fs featureSettingsTableDef)
         (allItems (mapTable (featureSettings st)))"
    using sh kd ne assms(2) by (intro getAllItemsRec_filter) simp_all
  then show ?thesis
    using assms pk by (simp add: getAllItems_def getAllSettings_allItems)
qed

lemma levelNum_values [simp]:
  "(levelNum l = 1) = (l = LEVEL_STANDARD)"
  "(levelNum l = 2) = (l = LEVEL_ATTRIBUTE)"
  "(levelNum l = 3) = (l = LEVEL_FEATURE)"
  by (cases l; simp)+

lemma getSettings_attribute:
  assumes "settingsInv (featureSettings st)" "n \<noteq> []" "v \<noteq> []"
  shows "getSettings ft LEVEL_ATTRIBUTE (Some n) (Some v) st =
         filter (\<lambda>s. getFeatureType s = ft \<and> levelType s = LEVEL_ATTRIBUTE \<and> levelName s = n \<and> levelValue s = v)
           (getAllSettings st)"
  unfolding getSettings_def
  using assms(2,3)
  by (subst getAllItems_settings_filter[OF assms(1)])
     (simp_all add: featureSettingsTableDef_def passes_def optionalKey_def)

lemma getSettings_feature:
  assumes "settingsInv (featureSettings st)" "fid \<noteq> []"
  shows "getSettings ft LEVEL_FEATURE (Some fid) None st =
         filter (\<lambda>s. getFeatureType s = ft \<and> levelType s = LEVEL_FEATURE \<and> levelName s = fid)
           (getAllSettings st)"
  unfolding getSettings_def
  using assms(2)
  by (subst getAllItems_settings_filter[OF assms(1)])
     (simp_all add: featureSettingsTableDef_def passes_def optionalKey_def)

lemma getStandardSettings_find:
  assumes "settingsInv (featureSettings st)"
  shows "getStandardSettings ft st = standardFor ft st"
  unfolding getStandardSettings_def standardFor_def
  by (subst getAllItems_settings_filter[OF assms])
     (simp_all add: featureSettingsTableDef_def passes_def first_def find_filter_case)

lemma inTimeframe_overlapsWindow:
  "plainAttribute a \<Longrightarrow> inTimeframe yearFrom yearTo a = overlapsWindow yearFrom yearTo a"
  by (auto simp: plainAttribute_def inTimeframe_def overlapsWindow_def truthyAnd_def split: option.splits)

lemma insertSorted_insort_key:
  "fromYear x \<noteq> None \<Longrightarrow> \<forall>y \<in> set ys. fromYear y \<noteq> None \<Longrightarrow>
     insertSorted fromYearLe x ys = insort_key fromYear x ys"
  by (induction ys) (auto simp: fromYearLe_def split: option.splits)

lemma mergeAttribute_resolveAttribute:
  assumes "settingsInv (featureSettings st)" "plainAttribute a"
  shows "mergeAttribute ft yearFrom yearTo st a ret = resolveAttribute ft yearFrom yearTo st a ret"
proof -
  from assms(2) have ne: "propertyName a \<noteq> []" "propertyValue a \<noteq> []"
    by (simp_all add: plainAttribute_def)
  have hc: "''_iam_hasChanged'' \<noteq> []" by simp
  show ?thesis
    unfolding mergeAttribute_def resolveAttribute_def attributeSettingFor_def mergeOnTop_def
      getSettings_attribute[OF assms(1) ne] getSettings_attribute[OF assms(1) ne(1) hc]
      find_filter_case hasChangedIn_def
    by (auto split: list.splits sum.splits)
qed

lemma mergeAttributes_resolveAttributes:
  assumes "settingsInv (featureSettings st)"
  shows "\<forall>a \<in> set atts. plainAttribute a \<Longrightarrow>
     mergeAttributes ft yearFrom yearTo st atts ret = resolveAttributes ft yearFrom yearTo st atts ret"
  by (induction atts arbitrary: ret)
     (simp_all add: mergeAttribute_resolveAttribute[OF assms] split: sum.splits)

lemma features_styledStore:
  assumes "featureType a = LINESTRING" "featureId a = ''L1''"
  shows "mapTable (features (styledStore a)) =
     Level [(KNum 2, Level [(KStr ''L1'', Bucket [attributed a])])]"
proof -
  have f: "mapTable (features exampleStore) =
     Level [(KNum 2, Level [(KStr ''L1'', Bucket [exampleFeature])])]"
    by (rule features_exampleStore)
  have "getType exampleFeature = LINESTRING" "getId exampleFeature = ''L1''"
    "attributes exampleFeature = []"
    by (simp_all add: exampleFeature_def new_ExtendedFeature_def getType_def)
  then show ?thesis
    using f assms
    by (simp add: styledStore_def exampleStore_def run_def loadFeaturesAttributes_def
        loadAttribute_def new_DataSource_def getFeature_def getItem_def mapGet_def mapSet_def
        modifyItem_def addAttribute_def attributed_def addSetting_def Let_def split: prod.splits)
qed

lemma getFeature_styledStore:
  assumes "featureType a = LINESTRING" "featureId a = ''L1''"
  shows "getFeature LINESTRING ''L1'' (styledStore a) = Item (attributed a)"
  by (simp add: getFeature_def getItem_def features_styledStore[OF assms] mapGet_def)

lemma settings_styledStore:
  "getAllSettings (styledStore a) =
     [PointSettings_getStandard english, LineStringSettings_getStandard english, openSetting,
      PolygonSettings_getStandard english]"
proof -
  have o: "getFeatureType openSetting = LINESTRING" "levelType openSetting = LEVEL_ATTRIBUTE"
    "levelName openSetting = ''status''" "levelValue openSetting = ''open''"
    by (simp_all add: openSetting_def getFeatureType_def)
  have "featureSettings (styledStore a) = addItem FeatureSettings_equals openSetting (featureSettings (init english))"
    by (simp add: styledStore_def run_def addSetting_def settings_loadFeaturesAttributes
        storeOk_loadFeatures storeOk_init settings_loadFeatures)
  then show ?thesis
    using o
    by (simp add: getAllSettings_def getAllItems_def addItem_def settings_init_eval passes_def)
       (simp add: featureSettingsTableDef_def mapGet_def mapSet_def passes_def)
qed

lemma settingsInv_styledStore: "settingsInv (featureSettings (styledStore a))"
  unfolding styledStore_def by (rule settingsInv_run)

lemma openSetting_fields [simp]:
  "getFeatureType openSetting = LINESTRING" "levelType openSetting = LEVEL_ATTRIBUTE"
  "levelName openSetting = ''status''" "levelValue openSetting = ''open''"
  "showText openSetting = Some True"
  by (simp_all add: openSetting_def getFeatureType_def)

lemma blankAttribute_fields [simp]:
  "featureType blankAttribute = LINESTRING" "featureId blankAttribute = ''L1''"
  "propertyName blankAttribute = ''status''" "propertyValue blankAttribute = []"
  "fromYear blankAttribute = Some 1900" "toYear blankAttribute = Some 1950"
  by (simp_all add: blankAttribute_def exampleAttribute1_def)

lemma exampleAttribute1_fields [simp]:
  "featureType exampleAttribute1 = LINESTRING" "featureId exampleAttribute1 = ''L1''"
  "propertyName exampleAttribute1 = ''status''" "propertyValue exampleAttribute1 = ''open''"
  "fromYear exampleAttribute1 = Some 1900" "toYear exampleAttribute1 = Some 1950"
  by (simp_all add: exampleAttribute1_def)

lemma getSettings_styledStore:
  "getSettings LINESTRING LEVEL_ATTRIBUTE (Some ''status'') (Some []) (styledStore a) = [openSetting]"
  "getSettings LINESTRING LEVEL_ATTRIBUTE (Some ''status'') (Some ''_iam_hasChanged'') (styledStore a) = []"
  "getSettings LINESTRING LEVEL_FEATURE (Some ''L1'') None (styledStore a) = []"
  unfolding getSettings_def
  by (simp_all add: getAllItems_settings_filter[OF settingsInv_styledStore] settings_styledStore
      featureSettingsTableDef_def passes_def optionalKey_def)

lemma standardFor_styledStore:
  "standardFor LINESTRING (styledStore a) = Some (LineStringSettings_getStandard english)"
  by (simp add: standardFor_def settings_styledStore)

subsection \<open>The settings of a feature in a time frame\<close>

lemma sortByFromYear_dated:
  assumes "\<forall>a \<in> set atts. fromYear a \<noteq> None"
  shows "sortByFromYear atts = Some (sort_key fromYear atts)"
proof -
  have "foldr (insertSorted fromYearLe) atts [] = sort_key fromYear atts"
    using assms unfolding sort_key_def
    by (induction atts) (simp_all add: insertSorted_insort_key sort_key_def[symmetric])
  with assms show ?thesis by (simp add: sortByFromYear_def allDated_def list_all_iff)
qed

lemma sort_key_undated:
  "\<forall>a \<in> set atts. fromYear a = None \<Longrightarrow> sort_key fromYear atts = atts"
proof (induction atts)
  case Nil
  then show ?case by simp
next
  case (Cons a atts)
  then have "sort_key fromYear atts = atts" by simp
  moreover have "insort_key fromYear a atts = a # atts"
    using Cons.prems by (cases atts) simp_all
  ultimately show ?case by simp
qed

lemma sortByFromYear_undated:
  assumes "\<forall>a \<in> set atts. fromYear a = None"
  shows "sortByFromYear atts = Some (sort_key fromYear atts)"
proof (cases atts)
  case Nil
  then show ?thesis by (simp add: sortByFromYear_def allDated_def)
next
  case (Cons a rest)
  with assms have "\<not> allDated atts" by (simp add: allDated_def)
  moreover from assms have "allCountAsEqual atts"
    by (simp add: allCountAsEqual_def list_all_iff fromYearLe_def)
  ultimately show ?thesis using assms by (simp add: sortByFromYear_def sort_key_undated)
qed

text \<open>
  Where the code resolves the settings as the specification words it. Let the store be
  reached from a new store by any sequence of operations and let it hold a feature under
  the given type and id, the id not empty. Suppose that no attribute of the feature has
  an empty name or an empty value or a \<open>fromYear\<close> or \<open>toYear\<close> of 0, and that the
  attributes whose window overlaps the time frame all have a \<open>fromYear\<close> or all have
  none. Then \<open>getSettingsOfFeature\<close> returns what the resolution in the words of the
  specification returns, the same setting or the same error. The second example is an
  attribute without years, whose setting is merged.
\<close>

lemma getSettingsOfFeature_as_specified:
  assumes "getFeature ft fid (run getMsg ops) = Item feature"
    and "fid \<noteq> []"
    and "\<forall>a \<in> set (attributes feature). plainAttribute a"
    and "sortable yearFrom yearTo feature"
  shows "getSettingsOfFeature ft fid yearFrom yearTo (run getMsg ops) =
         Some (resolveSettings ft fid yearFrom yearTo (run getMsg ops) feature)"
proof -
  let ?st = "run getMsg ops"
  let ?atts = "filter (overlapsWindow yearFrom yearTo) (attributes feature)"
  have inv: "settingsInv (featureSettings ?st)" by (rule settingsInv_run)
  have flt: "getAttributes (inTimeframe yearFrom yearTo) feature = ?atts"
    unfolding getAttributes_def
    using assms(3) by (intro filter_cong) (simp_all add: inTimeframe_overlapsWindow)
  have srt: "sortByFromYear ?atts = Some (sort_key fromYear ?atts)"
    using assms(4) sortByFromYear_dated[of ?atts] sortByFromYear_undated[of ?atts]
    by (auto simp: sortable_def Let_def list_all_iff)
  have plain: "\<forall>a \<in> set (sort_key fromYear ?atts). plainAttribute a"
    using assms(3) by simp
  have code: "getSettingsOfFeature ft fid yearFrom yearTo ?st =
      Some (case mergeAttributes ft yearFrom yearTo ?st (sort_key fromYear ?atts)
              (getStandardSettings ft ?st) of
         Inl e \<Rightarrow> Inl e
       | Inr ret1 \<Rightarrow>
           (case getSettings ft LEVEL_FEATURE (Some fid) None ?st of
              [] \<Rightarrow> Inr ret1
            | featureSetting # others \<Rightarrow> mergeInto ret1 featureSetting))"
    by (simp add: getSettingsOfFeature_def assms(1) flt srt split: sum.splits list.splits)
  have last: "(case getSettings ft LEVEL_FEATURE (Some fid) None ?st of
              [] \<Rightarrow> Inr ret1
            | featureSetting # others \<Rightarrow> mergeInto ret1 featureSetting) =
         mergeOnTop (featureSettingFor ft fid ?st) ret1" for ret1
    by (simp add: getSettings_feature[OF inv assms(2)] featureSettingFor_def mergeOnTop_def
        find_filter_case split: list.splits)
  show ?thesis
    unfolding code last mergeAttributes_resolveAttributes[OF inv plain]
      getStandardSettings_find[OF inv] resolveSettings_def ..
qed

lemma undatedAttribute_fields [simp]:
  "featureType undatedAttribute = LINESTRING" "featureId undatedAttribute = ''L1''"
  "propertyName undatedAttribute = ''status''" "propertyValue undatedAttribute = ''open''"
  "fromYear undatedAttribute = None" "toYear undatedAttribute = None"
  by (simp_all add: undatedAttribute_def exampleAttribute1_def)

lemma getSettingsOfFeature_as_specified_examples:
  "getSettingsOfFeature LINESTRING ''L1'' 1900 2000 (styledStore exampleAttribute1) =
     Some (resolveSettings LINESTRING ''L1'' 1900 2000 (styledStore exampleAttribute1)
             (attributed exampleAttribute1))"
  "getSettingsOfFeature LINESTRING ''L1'' 1900 2000 (styledStore undatedAttribute) =
     Some (resolveSettings LINESTRING ''L1'' 1900 2000 (styledStore undatedAttribute)
             (attributed undatedAttribute))"
  "map_sum id (map_option showText)
     (resolveSettings LINESTRING ''L1'' 1900 2000 (styledStore undatedAttribute)
        (attributed undatedAttribute)) = Inr (Some (Some True))"
proof -
  have n: "''L1'' \<noteq> []" by simp
  have g1: "getFeature LINESTRING ''L1'' (styledStore exampleAttribute1) = Item (attributed exampleAttribute1)"
    by (simp add: getFeature_styledStore)
  have p1: "\<forall>a \<in> set (attributes (attributed exampleAttribute1)). plainAttribute a"
    by (simp add: attributed_def plainAttribute_def)
  have s1: "sortable 1900 2000 (attributed exampleAttribute1)"
    by (simp add: attributed_def sortable_def overlapsWindow_def)
  from getSettingsOfFeature_as_specified[OF g1[unfolded styledStore_def] n p1 s1]
  show "getSettingsOfFeature LINESTRING ''L1'' 1900 2000 (styledStore exampleAttribute1) =
     Some (resolveSettings LINESTRING ''L1'' 1900 2000 (styledStore exampleAttribute1)
             (attributed exampleAttribute1))"
    by (simp add: styledStore_def)
  have g2: "getFeature LINESTRING ''L1'' (styledStore undatedAttribute) = Item (attributed undatedAttribute)"
    by (simp add: getFeature_styledStore)
  have p2: "\<forall>a \<in> set (attributes (attributed undatedAttribute)). plainAttribute a"
    by (simp add: attributed_def plainAttribute_def)
  have s2: "sortable 1900 2000 (attributed undatedAttribute)"
    by (simp add: attributed_def sortable_def overlapsWindow_def)
  from getSettingsOfFeature_as_specified[OF g2[unfolded styledStore_def] n p2 s2]
  show "getSettingsOfFeature LINESTRING ''L1'' 1900 2000 (styledStore undatedAttribute) =
     Some (resolveSettings LINESTRING ''L1'' 1900 2000 (styledStore undatedAttribute)
             (attributed undatedAttribute))"
    by (simp add: styledStore_def)
  have a: "attributeSettingFor LINESTRING ''status'' ''open'' (styledStore undatedAttribute) = Some openSetting"
    by (simp add: attributeSettingFor_def settings_styledStore)
  have f: "featureSettingFor LINESTRING ''L1'' (styledStore undatedAttribute) = None"
    by (simp add: featureSettingFor_def settings_styledStore)
  from a f show "map_sum id (map_option showText)
     (resolveSettings LINESTRING ''L1'' 1900 2000 (styledStore undatedAttribute)
        (attributed undatedAttribute)) = Inr (Some (Some True))"
    by (simp add: resolveSettings_def attributed_def overlapsWindow_def resolveAttribute_def
        standardFor_styledStore mergeOnTop_def mergeInto_def merge_def pick_def
        LineStringSettings_getStandard_def)
qed

text \<open>
  Claim C2 is not what the code does for an attribute whose value is the empty string.
  The store holds the line string \<open>L1\<close> with the one attribute \<open>status\<close>, of empty
  value, from 1900 to 1950, and the attribute-level setting for \<open>status\<close> with the
  value \<open>open\<close>, which turns the text on; it holds no setting for \<open>status\<close> with an
  empty value. The resolution in the words of the specification returns the standard
  setting of line strings, with the text off. \<open>getSettingsOfFeature\<close> for the time
  frame from 1900 to 2000 returns a setting with the text on: \<open>getSettings\<close> tests the
  level value it is given for truthiness, so that an empty value lets the settings of
  every value pass, and the setting for \<open>open\<close> is merged.
\<close>

theorem getSettingsOfFeature_blank_value_merges_other_setting:
  "getFeature LINESTRING ''L1'' (styledStore blankAttribute) = Item (attributed blankAttribute) \<and>
   attributeSettingFor LINESTRING ''status'' [] (styledStore blankAttribute) = None \<and>
   map_sum id (map_option showText)
     (resolveSettings LINESTRING ''L1'' 1900 2000 (styledStore blankAttribute) (attributed blankAttribute)) =
     Inr (Some (Some False)) \<and>
   map_option (map_sum id (map_option showText))
     (getSettingsOfFeature LINESTRING ''L1'' 1900 2000 (styledStore blankAttribute)) =
     Some (Inr (Some (Some True)))"
proof (intro conjI)
  show "getFeature LINESTRING ''L1'' (styledStore blankAttribute) = Item (attributed blankAttribute)"
    by (simp add: getFeature_styledStore)
  show none: "attributeSettingFor LINESTRING ''status'' [] (styledStore blankAttribute) = None"
    by (simp add: attributeSettingFor_def settings_styledStore)
  have "featureSettingFor LINESTRING ''L1'' (styledStore blankAttribute) = None"
    by (simp add: featureSettingFor_def settings_styledStore)
  with none show "map_sum id (map_option showText)
     (resolveSettings LINESTRING ''L1'' 1900 2000 (styledStore blankAttribute) (attributed blankAttribute)) =
     Inr (Some (Some False))"
    by (simp add: resolveSettings_def attributed_def overlapsWindow_def resolveAttribute_def
        standardFor_styledStore mergeOnTop_def LineStringSettings_getStandard_def)
  show "map_option (map_sum id (map_option showText))
     (getSettingsOfFeature LINESTRING ''L1'' 1900 2000 (styledStore blankAttribute)) =
     Some (Inr (Some (Some True)))"
    by (simp add: getSettingsOfFeature_def getFeature_styledStore attributed_def getAttributes_def
        inTimeframe_def truthyAnd_def sortByFromYear_def allDated_def mergeAttribute_def
        getSettings_styledStore
        getStandardSettings_find[OF settingsInv_styledStore] standardFor_styledStore
        mergeInto_def merge_def hasChangedIn_def pick_def LineStringSettings_getStandard_def)
qed

section \<open>Export\<close>

lemma getAllSettings_run_nonempty: "getAllSettings (run g ops) \<noteq> []"
proof -
  have inv: "settingsInv (featureSettings (run g ops))" by (rule settingsInv_run)
  then obtain s where "s \<in> set (allItems (mapTable (featureSettings (run g ops))))"
    by (auto simp: settingsInv_def)
  then show ?thesis by (auto simp: getAllSettings_allItems[OF inv])
qed

lemma getAllFeatures_init: "getAllFeatures (init g) = []"
  by (simp add: getAllFeatures_def getAllItems_def init_def newIAMMapTable_def featuresTableDef_def)

lemma getAllSettings_init:
  "getAllSettings (init g) =
     [PointSettings_getStandard g, LineStringSettings_getStandard g, PolygonSettings_getStandard g]"
  by (simp add: getAllSettings_def getAllItems_def settings_init_eval passes_def)

subsection \<open>The settings in the GeoJSON export\<close>

text \<open>
  Claim C8 is not what the code does when no map settings are supplied. For every store
  reached from a new store by any sequence of operations, the settings table is not
  empty, and \<open>toGeoJSON\<close> with the \<open>addSettings\<close> flag set and \<open>mapSettings\<close> undefined
  returns the features followed by the one pseudo-feature \<open>_iam_Settings\<close>, a point at
  the minimum longitude and latitude of the store, whose \<open>_iam_FeatureSettings\<close> is the
  empty list: \<open>getSettingsAsObject\<close> pushes the stored settings only inside the branch
  that tests the map settings.
\<close>

theorem toGeoJSON_settings_need_mapSettings:
  "getAllSettings (run getMsg ops) \<noteq> [] \<and>
   toGeoJSON addProperties addAttributes True None (run getMsg ops) =
     map (Feature_toGeoJSON addProperties addAttributes) (getAllFeatures (run getMsg ops)) @
     [\<lparr>gjId = ''_iam_Settings'', gjGeometryType = ''Point'',
       gjCoordinates = PointCoordinates (IAMStorage_getMinLongitude (run getMsg ops))
                         (IAMStorage_getMinLatitude (run getMsg ops)),
       gjProperties = [(''id'', PVal (JStr ''_iam_Settings'')), (''_iam_FeatureSettings'', PSettings [])]\<rparr>]"
  by (simp add: getAllSettings_run_nonempty toGeoJSON_def getSettingsAsObject_def Let_def
      Feature_toGeoJSON_def new_ExtendedFeature_def addProperty_def getType_def)

theorem toGeoJSON_settings_need_mapSettings_witness:
  "getAllSettings (init english) =
     [PointSettings_getStandard english, LineStringSettings_getStandard english,
      PolygonSettings_getStandard english] \<and>
   toGeoJSON False False True None (init english) =
     [\<lparr>gjId = ''_iam_Settings'', gjGeometryType = ''Point'',
       gjCoordinates = PointCoordinates PosInfinity PosInfinity,
       gjProperties = [(''id'', PVal (JStr ''_iam_Settings'')), (''_iam_FeatureSettings'', PSettings [])]\<rparr>]"
  using toGeoJSON_settings_need_mapSettings[of english "[]" False False]
  by (simp add: run_def getAllFeatures_init getAllSettings_init IAMStorage_getMinLongitude_def
      IAMStorage_getMinLatitude_def getMinOfArray_def)

section \<open>Properties of the CSV data sources\<close>

lemma parseCsv_short_header:
  assumes "parseRows rawData = header # rows" "length header < length headerTemplate"
  shows "parseCsv getMsg rawData headerTemplate check (new_ProcessResult INFO txt) =
     (None,
      \<lparr>status = WARN,
       resultText = getMsg ''File has no valid format. No data was loaded.'' @ getMsg '' with warnings'',
       details = [getMsg ''File must have at least '' @ natToString (length headerTemplate)
                    @ getMsg '' columns in csv format'']\<rparr>)"
  using assms
  by (simp add: parseCsv_def checkHeader_def addDetail_def new_ProcessResult_def)

lemma parseRows_shortCsv: "parseRows shortCsv = [[''feature'', ''featureId''], [''Point'', ''a'']]"
  by code_simp

subsection \<open>A header that is too short\<close>

text \<open>
  Claim C7 is not what the code does. Let the first row of the raw data have fewer
  columns than the header template (10 for attributes, 4 for properties), and let the
  process result be new, with the status \<open>INFO\<close>. Then \<open>_parseCsv\<close> replaces the text
  and adds the message of the exception as a detail, but with the status \<open>WARN\<close>, not
  \<open>ERROR\<close>, and returns \<open>null\<close>; the constructor of the data source then calls
  \<open>forEach\<close> on \<open>null\<close>, and the \<open>TypeError\<close> this raises leaves the constructor.
\<close>

theorem csv_short_header_warns_and_raises:
  assumes "parseRows rawData = header # rows"
  shows "(length header < 10 \<longrightarrow>
            FeatureAttributesCSVDataSource getMsg rawData (new_ProcessResult INFO txt) =
              Inl (TypeError,
                   \<lparr>status = WARN,
                    resultText = getMsg ''File has no valid format. No data was loaded.''
                                   @ getMsg '' with warnings'',
                    details = [getMsg ''File must have at least '' @ ''10''
                                 @ getMsg '' columns in csv format'']\<rparr>)) \<and>
         (length header < 4 \<longrightarrow>
            FeaturePropertiesCSVDataSource getMsg rawData (new_ProcessResult INFO txt) =
              Inl (TypeError,
                   \<lparr>status = WARN,
                    resultText = getMsg ''File has no valid format. No data was loaded.''
                                   @ getMsg '' with warnings'',
                    details = [getMsg ''File must have at least '' @ ''4''
                                 @ getMsg '' columns in csv format'']\<rparr>))"
proof (intro conjI impI)
  assume "length header < 10"
  then have "length header < length attributesHeaderTemplate" by (simp add: attributesHeaderTemplate_def)
  from parseCsv_short_header[OF assms this] show
    "FeatureAttributesCSVDataSource getMsg rawData (new_ProcessResult INFO txt) =
              Inl (TypeError,
                   \<lparr>status = WARN,
                    resultText = getMsg ''File has no valid format. No data was loaded.''
                                   @ getMsg '' with warnings'',
                    details = [getMsg ''File must have at least '' @ ''10''
                                 @ getMsg '' columns in csv format'']\<rparr>)"
    by (simp add: FeatureAttributesCSVDataSource_def attributesHeaderTemplate_def digitChar_def)
next
  assume "length header < 4"
  then have "length header < length propertiesHeaderTemplate" by (simp add: propertiesHeaderTemplate_def)
  from parseCsv_short_header[OF assms this] show
    "FeaturePropertiesCSVDataSource getMsg rawData (new_ProcessResult INFO txt) =
              Inl (TypeError,
                   \<lparr>status = WARN,
                    resultText = getMsg ''File has no valid format. No data was loaded.''
                                   @ getMsg '' with warnings'',
                    details = [getMsg ''File must have at least '' @ ''4''
                                 @ getMsg '' columns in csv format'']\<rparr>)"
    by (simp add: FeaturePropertiesCSVDataSource_def propertiesHeaderTemplate_def digitChar_def)
qed

theorem csv_short_header_warns_and_raises_witness:
  "parseRows shortCsv = [[''feature'', ''featureId''], [''Point'', ''a'']] \<and>
   FeatureAttributesCSVDataSource english shortCsv (new_ProcessResult INFO ''Successfully loaded'') =
     Inl (TypeError,
          \<lparr>status = WARN,
           resultText = ''File has no valid format. No data was loaded. with warnings'',
           details = [''File must have at least 10 columns in csv format'']\<rparr>) \<and>
   FeaturePropertiesCSVDataSource english shortCsv (new_ProcessResult INFO ''Successfully loaded'') =
     Inl (TypeError,
          \<lparr>status = WARN,
           resultText = ''File has no valid format. No data was loaded. with warnings'',
           details = [''File must have at least 4 columns in csv format'']\<rparr>)"
  using csv_short_header_warns_and_raises[OF parseRows_shortCsv, of english "''Successfully loaded''"]
  by (simp add: parseRows_shortCsv english_def)

end
